(* ===== verification/Prelude.thy ===== *)
theory Prelude
  imports Main "HOL-Library.Sublist"
begin

text \<open>
  Shared vocabulary of the development: the fact collections the component theories
  fill, and generic lemmas on association lists, sorted key lists, \<open>those\<close> and
  \<open>fold max\<close> that the storage, serializer and handler proofs share.
\<close>

named_theorems store_simps
  "equations that evaluate the storage operations on concrete tables"

named_theorems model_simps
  "equations that evaluate the ORM operations and validators of models.py"

text \<open>The rest of a list after a given prefix, if it has that prefix.\<close>

definition strip_prefix :: "'a list \<Rightarrow> 'a list \<Rightarrow> 'a list option" where
  "strip_prefix pre s = (if prefix pre s then Some (drop (length pre) s) else None)"

subsection \<open>Association lists keyed by row id\<close>

lemma map_of_filter_key_neq:
  "map_of (filter (\<lambda>(j, _). j \<noteq> i) t) = (map_of t)(i := None)"
  by (induction t) auto

lemma map_of_filter_val:
  assumes "distinct (map fst t)"
  shows "map_of (filter (\<lambda>(_, r). P r) t) j =
           (case map_of t j of None \<Rightarrow> None | Some r \<Rightarrow> if P r then Some r else None)"
  using assms
  by (induction t) (auto split: option.splits simp: map_of_eq_None_iff dest: map_of_SomeD)

lemma map_of_map_upd_val:
  "map_of (map (\<lambda>(j, r). (j, if j = i then f r else r)) t) k =
     (if k = i then map_option f (map_of t k) else map_of t k)"
  by (induction t) auto

lemma map_of_append_fresh:
  "i \<notin> fst ` set t \<Longrightarrow> map_of (t @ [(i, r)]) = (map_of t)(i \<mapsto> r)"
  by (induction t) (auto simp: fun_upd_twist)

lemma sorted_wrt_less_distinct [intro]:
  "sorted_wrt (<) (xs :: int list) \<Longrightarrow> distinct xs"
  by (induction xs) auto

lemma sorted_wrt_filter_map_fst [intro]:
  "sorted_wrt (<) (map fst (t :: (int \<times> 'a) list)) \<Longrightarrow> sorted_wrt (<) (map fst (filter P t))"
  by (induction t) auto

subsection \<open>\<open>fold max\<close>: the largest key\<close>

lemma fold_max_ge_start: "(k :: int) \<le> fold max ks k"
proof (induction ks arbitrary: k)
  case Nil
  then show ?case by simp
next
  case (Cons y ys)
  have "k \<le> max y k" by simp
  also have "max y k \<le> fold max ys (max y k)" by (rule Cons.IH)
  finally show ?case by simp
qed

lemma fold_max_ge: "(x :: int) \<in> set ks \<Longrightarrow> x \<le> fold max ks k"
proof (induction ks arbitrary: k)
  case Nil
  then show ?case by simp
next
  case (Cons y ys)
  show ?case
  proof (cases "x = y")
    case True
    have "y \<le> max y k" by simp
    also have "max y k \<le> fold max ys (max y k)" by (rule fold_max_ge_start)
    finally show ?thesis using True by simp
  next
    case False
    with Cons show ?thesis by simp
  qed
qed

lemma fold_max_mem: "fold max ks (k :: int) \<in> insert k (set ks)"
proof (induction ks arbitrary: k)
  case Nil
  then show ?case by simp
next
  case (Cons y ys)
  from Cons.IH [of "max y k"] show ?case by (auto simp: max_def split: if_splits)
qed

lemma fold_max_sorted_last:
  "sorted_wrt (<) (k # ks :: int list) \<Longrightarrow> fold max ks k = last (k # ks)"
proof (induction ks arbitrary: k)
  case Nil
  then show ?case by simp
next
  case (Cons y ys)
  then have "k < y" and "sorted_wrt (<) (y # ys)" by auto
  with Cons.IH [of y] show ?case by (simp add: max_def)
qed

subsection \<open>\<open>those\<close>: all results of a list of partial computations\<close>

lemma those_map_Some_iff:
  "those (map f xs) = Some ys \<longleftrightarrow> list_all2 (\<lambda>x y. f x = Some y) xs ys"
proof (induction xs arbitrary: ys)
  case Nil
  then show ?case by auto
next
  case (Cons x xs)
  then show ?case
    by (cases ys) (auto split: option.splits simp: list_all2_Cons1)
qed

lemma those_map_all_Some:
  "(\<And>x. x \<in> set xs \<Longrightarrow> f x \<noteq> None) \<Longrightarrow> those (map f xs) \<noteq> None"
  by (induction xs) (auto split: option.splits)

lemma those_map_None:
  "x \<in> set xs \<Longrightarrow> f x = None \<Longrightarrow> those (map f xs) = None"
  by (induction xs) (auto split: option.splits)

lemma list_all2_keys:
  "list_all2 (\<lambda>(k, a) (k', v). k' = k \<and> Q k a v) xs ys \<Longrightarrow> map fst ys = map fst xs"
  by (induction rule: list_all2_induct) auto

lemma list_all2_in_set2:
  "list_all2 P xs ys \<Longrightarrow> y \<in> set ys \<Longrightarrow> \<exists>x \<in> set xs. P x y"
  by (induction rule: list_all2_induct) auto

lemma list_all2_mono_in:
  "list_all2 P xs ys \<Longrightarrow> (\<And>x y. x \<in> set xs \<Longrightarrow> P x y \<Longrightarrow> Q x y) \<Longrightarrow> list_all2 Q xs ys"
  by (induction rule: list_all2_induct) auto

lemma set_map_filter_iff:
  "y \<in> set (List.map_filter f xs) \<longleftrightarrow> (\<exists>x \<in> set xs. f x = Some y)"
  by (induction xs) (auto simp: List.map_filter_simps split: option.splits)

lemma those_map_Some_all:
  "(\<And>x. x \<in> set xs \<Longrightarrow> f x = Some (g x)) \<Longrightarrow> those (map f xs) = Some (map g xs)"
  by (induction xs) auto

lemma those_map_cong:
  "(\<And>x. x \<in> set xs \<Longrightarrow> f x = g x) \<Longrightarrow> those (map f xs) = those (map g xs)"
  by (metis map_eq_conv)

lemma strip_prefix_append [simp]: "strip_prefix pre (pre @ r) = Some r"
  by (simp add: strip_prefix_def)

lemma those_rows:
  "(\<And>i r. (i, r) \<in> set t \<Longrightarrow> f i = Some (g i r)) \<Longrightarrow>
   those (map (\<lambda>(i, _). f i) t) = Some (map (\<lambda>(i, r). g i r) t)"
proof (induction t)
  case Nil
  then show ?case by simp
next
  case (Cons p t)
  obtain i r where p: "p = (i, r)" by (cases p)
  have fi: "f i = Some (g i r)" using Cons.prems p by simp
  have ih: "those (map (\<lambda>(i, _). f i) t) = Some (map (\<lambda>(i, r). g i r) t)"
    using Cons.IH Cons.prems by simp
  show ?case using fi ih p by simp
qed

lemma those_map_keys:
  "(\<And>j x. (j, x) \<in> set xs \<Longrightarrow> f (E j) = Some (g j x)) \<Longrightarrow>
   those (map f (map (E \<circ> fst) xs)) = Some (map (\<lambda>(j, x). g j x) xs)"
proof (induction xs)
  case Nil
  then show ?case by simp
next
  case (Cons p xs)
  obtain j x where p: "p = (j, x)" by (cases p)
  have fj: "f (E j) = Some (g j x)" using Cons.prems p by simp
  have ih: "those (map f (map (E \<circ> fst) xs)) = Some (map (\<lambda>(j, x). g j x) xs)"
    using Cons.IH Cons.prems by (simp add: comp_def)
  show ?case using fj ih p by (simp add: comp_def)
qed

lemma filter_all_keys: "filter (\<lambda>(j, _). j \<notin> set (map fst t)) t = []"
  by (force simp: filter_empty_conv)

end
