(* ===== verification/Storage.thy ===== *)
theory Storage
  imports Prelude
begin

text \<open>
  The record store behind the ORM: one SQLite rowid table per model. A table is the
  list of its rows in rowid order, as SQLite keeps them in its B-tree and as
  \<open>Query.all()\<close> returns them. A new row of a table whose key column is
  \<open>INTEGER PRIMARY KEY\<close> gets one more than the largest rowid in use (1 in an empty
  table). The abstraction \<open>tbl_get\<close> sees a table as a finite map from ids to rows;
  each operation is shown to refine the corresponding map operation.
\<close>

type_synonym rowid = int
type_synonym 'a table = "(rowid \<times> 'a) list"

definition tbl_wf :: "'a table \<Rightarrow> bool" where
  "tbl_wf t \<longleftrightarrow> sorted_wrt (<) (map fst t)"

definition tbl_ids :: "'a table \<Rightarrow> rowid set" where
  "tbl_ids t = set (map fst t)"

text \<open>\<open>session.get(Model, id)\<close> / \<open>Model.query.get(id)\<close>: the row or nothing.\<close>

definition tbl_get :: "'a table \<Rightarrow> rowid \<Rightarrow> 'a option" where
  "tbl_get t = map_of t"

definition tbl_new_rowid :: "'a table \<Rightarrow> rowid" where
  "tbl_new_rowid t = (case map fst t of [] \<Rightarrow> 1 | k # ks \<Rightarrow> fold max ks k + 1)"

text \<open>\<open>INSERT\<close>: the new id and the table with the row appended.\<close>

definition tbl_insert :: "'a \<Rightarrow> 'a table \<Rightarrow> rowid \<times> 'a table" where
  "tbl_insert r t = (let i = tbl_new_rowid t in (i, t @ [(i, r)]))"

definition tbl_delete :: "rowid \<Rightarrow> 'a table \<Rightarrow> 'a table" where
  "tbl_delete i t = filter (\<lambda>(j, _). j \<noteq> i) t"

definition tbl_delete_where :: "('a \<Rightarrow> bool) \<Rightarrow> 'a table \<Rightarrow> 'a table" where
  "tbl_delete_where P t = filter (\<lambda>(_, r). \<not> P r) t"

definition tbl_update :: "rowid \<Rightarrow> ('a \<Rightarrow> 'a) \<Rightarrow> 'a table \<Rightarrow> 'a table" where
  "tbl_update i f t = map (\<lambda>(j, r). (j, if j = i then f r else r)) t"

definition tbl_select :: "('a \<Rightarrow> bool) \<Rightarrow> 'a table \<Rightarrow> 'a table" where
  "tbl_select P t = filter (\<lambda>(_, r). P r) t"

declare tbl_get_def [store_simps] tbl_new_rowid_def [store_simps] tbl_insert_def [store_simps]
  tbl_delete_def [store_simps] tbl_delete_where_def [store_simps] tbl_update_def [store_simps]
  tbl_select_def [store_simps] tbl_ids_def [store_simps]

subsection \<open>Fresh row ids\<close>

lemma tbl_new_rowid_gt: "k \<in> tbl_ids t \<Longrightarrow> k < tbl_new_rowid t"
proof (cases "map fst t")
  case Nil
  assume "k \<in> tbl_ids t"
  with Nil show ?thesis by (simp add: tbl_ids_def)
next
  case (Cons k0 ks)
  assume "k \<in> tbl_ids t"
  with Cons have "k \<in> set (k0 # ks)" by (simp add: tbl_ids_def)
  then have "k \<le> fold max ks k0"
    using fold_max_ge_start fold_max_ge by auto
  with Cons show ?thesis by (simp add: tbl_new_rowid_def)
qed

lemma tbl_new_rowid_fresh: "tbl_new_rowid t \<notin> tbl_ids t"
  using tbl_new_rowid_gt by blast

text \<open>
  On a well-formed table the new row id, computed as one more than the largest id,
  is one more than the id of the last row: the scan and SQLite's read of the B-tree's
  last entry agree.
\<close>

theorem tbl_new_rowid_last:
  "tbl_wf t \<Longrightarrow> t \<noteq> [] \<Longrightarrow> tbl_new_rowid t = fst (last t) + 1"
proof (cases "map fst t")
  case Nil
  assume "t \<noteq> []"
  with Nil show ?thesis by simp
next
  case (Cons k ks)
  assume "tbl_wf t" "t \<noteq> []"
  then have "sorted_wrt (<) (k # ks)" using Cons by (simp add: tbl_wf_def)
  then have "fold max ks k = last (k # ks)" by (rule fold_max_sorted_last)
  moreover have "last (map fst t) = fst (last t)" using \<open>t \<noteq> []\<close> by (simp add: last_map)
  ultimately show ?thesis using Cons by (simp add: tbl_new_rowid_def)
qed

lemma tbl_insert_id: "fst (tbl_insert r t) = tbl_new_rowid t"
  by (simp add: tbl_insert_def Let_def)

subsection \<open>The table invariant\<close>

lemma tbl_wf_distinct: "tbl_wf t \<Longrightarrow> distinct (map fst t)"
  by (auto simp: tbl_wf_def)

lemma tbl_wf_insert: "tbl_wf t \<Longrightarrow> tbl_wf (snd (tbl_insert r t))"
  using tbl_new_rowid_gt
  by (auto simp: tbl_wf_def tbl_insert_def Let_def sorted_wrt_append tbl_ids_def)

lemma tbl_wf_filter: "tbl_wf t \<Longrightarrow> tbl_wf (filter P t)"
  by (auto simp: tbl_wf_def)

lemma tbl_wf_delete: "tbl_wf t \<Longrightarrow> tbl_wf (tbl_delete i t)"
  by (simp add: tbl_delete_def tbl_wf_filter)

lemma tbl_wf_delete_where: "tbl_wf t \<Longrightarrow> tbl_wf (tbl_delete_where P t)"
  by (simp add: tbl_delete_where_def tbl_wf_filter)

lemma map_fst_tbl_update [simp]: "map fst (tbl_update i f t) = map fst t"
  by (induction t) (auto simp: tbl_update_def)

lemma tbl_wf_update: "tbl_wf t \<Longrightarrow> tbl_wf (tbl_update i f t)"
  by (simp add: tbl_wf_def)

lemmas tbl_wf_ops = tbl_wf_insert tbl_wf_delete tbl_wf_delete_where tbl_wf_update

subsection \<open>Refinement: each operation is the map operation on \<open>tbl_get\<close>\<close>

lemma tbl_get_insert:
  "tbl_get (snd (tbl_insert r t)) = (tbl_get t)(fst (tbl_insert r t) \<mapsto> r)"
  using tbl_new_rowid_fresh [of t]
  by (simp add: tbl_get_def tbl_insert_def Let_def map_of_append_fresh tbl_ids_def
      del: map_of_append)

lemma tbl_get_delete: "tbl_get (tbl_delete i t) = (tbl_get t)(i := None)"
  by (simp add: tbl_get_def tbl_delete_def map_of_filter_key_neq)

lemma tbl_get_update:
  "tbl_get (tbl_update i f t) k = (if k = i then map_option f (tbl_get t k) else tbl_get t k)"
  by (simp add: tbl_get_def tbl_update_def map_of_map_upd_val)

lemma tbl_get_delete_where:
  "tbl_wf t \<Longrightarrow> tbl_get (tbl_delete_where P t) k =
     (case tbl_get t k of None \<Rightarrow> None | Some r \<Rightarrow> if P r then None else Some r)"
  by (simp add: tbl_get_def tbl_delete_where_def map_of_filter_val tbl_wf_distinct
      split: option.splits)

lemma tbl_ids_get: "k \<in> tbl_ids t \<longleftrightarrow> tbl_get t k \<noteq> None"
  by (simp add: tbl_ids_def tbl_get_def map_of_eq_None_iff)

lemma tbl_get_in_set: "tbl_get t k = Some r \<Longrightarrow> (k, r) \<in> set t"
  by (simp add: tbl_get_def map_of_SomeD)

lemma tbl_in_set_get: "tbl_wf t \<Longrightarrow> (k, r) \<in> set t \<Longrightarrow> tbl_get t k = Some r"
  by (simp add: tbl_get_def tbl_wf_distinct)

subsection \<open>Ids and rows after each operation\<close>

lemma tbl_delete_absent: "i \<notin> tbl_ids t \<Longrightarrow> tbl_delete i t = t"
  by (force simp: tbl_delete_def tbl_ids_def filter_id_conv)

lemma set_tbl_insert: "set (snd (tbl_insert r t)) = insert (tbl_new_rowid t, r) (set t)"
  by (simp add: tbl_insert_def Let_def)

lemma tbl_ids_insert: "tbl_ids (snd (tbl_insert r t)) = insert (tbl_new_rowid t) (tbl_ids t)"
  by (simp add: tbl_ids_def tbl_insert_def Let_def)

lemma tbl_ids_delete: "tbl_ids (tbl_delete i t) = tbl_ids t - {i}"
  by (auto simp: tbl_ids_def tbl_delete_def)

lemma tbl_ids_update [simp]: "tbl_ids (tbl_update i f t) = tbl_ids t"
  by (simp add: tbl_ids_def)

lemma set_tbl_delete: "set (tbl_delete i t) \<subseteq> set t"
  by (auto simp: tbl_delete_def)

lemma set_tbl_delete_where: "x \<in> set (tbl_delete_where P t) \<longleftrightarrow> x \<in> set t \<and> \<not> P (snd x)"
  by (cases x) (simp add: tbl_delete_where_def)

lemma tbl_all_update:
  "\<forall>(_, r) \<in> set t. P r \<Longrightarrow> (\<And>r. P r \<Longrightarrow> P (f r)) \<Longrightarrow> \<forall>(_, r) \<in> set (tbl_update i f t). P r"
  by (auto simp: tbl_update_def)

lemma tbl_all_insert:
  "\<forall>(_, r) \<in> set t. P r \<Longrightarrow> P x \<Longrightarrow> \<forall>(_, r) \<in> set (snd (tbl_insert x t)). P r"
  by (auto simp: set_tbl_insert)

lemma tbl_all_delete: "\<forall>(_, r) \<in> set t. P r \<Longrightarrow> \<forall>(_, r) \<in> set (tbl_delete i t). P r"
  by (auto simp: tbl_delete_def)

lemma tbl_all_delete_where:
  "\<forall>(_, r) \<in> set t. P r \<Longrightarrow> \<forall>(_, r) \<in> set (tbl_delete_where Q t). P r"
  by (auto simp: tbl_delete_where_def)

lemma tbl_ids_delete_where: "tbl_ids (tbl_delete_where P t) \<subseteq> tbl_ids t"
  by (auto simp: tbl_ids_def tbl_delete_where_def)

lemmas tbl_set_ops = set_tbl_insert set_tbl_delete_where tbl_ids_insert tbl_ids_delete

theorem tbl_new_rowid_last_witness:
  "tbl_wf [(1::int, ''a''), (5, ''b'')] \<and> [(1::int, ''a''), (5, ''b'')] \<noteq> [] \<and>
   tbl_new_rowid [(1::int, ''a''), (5, ''b'')] = 6"
proof -
  have wf: "tbl_wf [(1::int, ''a''), (5, ''b'')]" by (simp add: tbl_wf_def)
  have ne: "[(1::int, ''a''), (5, ''b'')] \<noteq> []" by simp
  from tbl_new_rowid_last [OF wf ne] wf ne show ?thesis by simp
qed

end
