(* ===== verification/PyValue.thy ===== *)
theory PyValue
  imports Prelude "HOL-Library.Word"
begin

text \<open>
  The values that cross the program's boundaries: request bodies as parsed by
  \<open>request.json\<close> (JSON values), the Python exceptions the code raises or lets escape,
  and the SQLite values a column stores. The Python operators that \<open>app.py\<close> and
  \<open>models.py\<close> apply to request data (\<open>not x\<close>, \<open>len(x)\<close>, \<open>k in x\<close>, \<open>x[k]\<close>) are
  written out with their exceptions, since the handlers catch \<open>ValueError\<close> only.
  A Python \<open>str\<close> is a \<open>string\<close> whose characters stand for code points.
  Also here: \<open>request.json\<close> itself, which fails with 415 or 400 on a body that is not
  JSON; the decimal numerals that \<open>str(id)\<close>, werkzeug's \<open><int:id>\<close> converter and
  SQLite's INTEGER affinity write and read.
\<close>

datatype json =
    JNull
  | JBool bool
  | JInt int
  | JStr string
  | JList "json list"
  | JObj "(string \<times> json) list"

text \<open>
  The exceptions the code can raise; the ORM and driver errors keep their Python names.
  \<open>HTTPError c\<close> is a werkzeug \<open>HTTPException\<close> with status \<open>c\<close>, which Flask turns
  into an answer with that status.
\<close>

datatype pyexc =
    ValueError string
  | TypeError
  | KeyError string
  | IntegrityError
  | InterfaceError
  | RecursionError
  | OverflowError
  | HTTPError nat

fun is_value_error :: "pyexc \<Rightarrow> bool" where
  "is_value_error (ValueError _) = True"
| "is_value_error _ = False"

subsection \<open>Python operators on JSON data\<close>

text \<open>Truthiness (\<open>not x\<close>). A JSON object parses to a dict: it is empty iff it has no key.\<close>

fun py_truthy :: "json \<Rightarrow> bool" where
  "py_truthy JNull = False"
| "py_truthy (JBool b) = b"
| "py_truthy (JInt i) = (i \<noteq> 0)"
| "py_truthy (JStr s) = (s \<noteq> [])"
| "py_truthy (JList xs) = (xs \<noteq> [])"
| "py_truthy (JObj kvs) = (kvs \<noteq> [])"

text \<open>\<open>len(x)\<close>: a dict counts its distinct keys; \<open>None\<close>, \<open>bool\<close> and \<open>int\<close> raise TypeError.\<close>

fun py_len :: "json \<Rightarrow> pyexc + nat" where
  "py_len (JStr s) = Inr (length s)"
| "py_len (JList xs) = Inr (length xs)"
| "py_len (JObj kvs) = Inr (length (remdups (map fst kvs)))"
| "py_len _ = Inl TypeError"

text \<open>
  \<open>k in x\<close> for a \<open>str\<close> literal \<open>k\<close>: key membership in a dict, element equality in a
  list, substring test in a str; any other operand is not iterable (TypeError).
\<close>

fun py_contains :: "string \<Rightarrow> json \<Rightarrow> pyexc + bool" where
  "py_contains k (JObj kvs) = Inr (k \<in> set (map fst kvs))"
| "py_contains k (JList xs) = Inr (JStr k \<in> set xs)"
| "py_contains k (JStr s) = Inr (sublist k s)"
| "py_contains k _ = Inl TypeError"

text \<open>
  \<open>x[k]\<close> for a \<open>str\<close> literal \<open>k\<close>: the JSON parser keeps the last of duplicate keys;
  a missing key is KeyError, a list, str or scalar raises TypeError.
\<close>

fun py_getitem :: "json \<Rightarrow> string \<Rightarrow> pyexc + json" where
  "py_getitem (JObj kvs) k =
     (case map_of (rev kvs) k of None \<Rightarrow> Inl (KeyError k) | Some v \<Rightarrow> Inr v)"
| "py_getitem _ k = Inl TypeError"

subsection \<open>The request body\<close>

text \<open>
  What the client sent: no JSON content type, a JSON content type with a body that does
  not parse, or a parsed JSON document.
\<close>

datatype req_body = NotJson | BadJson | JsonBody json

text \<open>
  \<open>request.json\<close> (Flask 2.3 and later): a body without a JSON content type raises
  UnsupportedMediaType (415), one that does not parse raises BadRequest (400); neither
  is a ValueError.
\<close>

fun request_json :: "req_body \<Rightarrow> pyexc + json" where
  "request_json NotJson = Inl (HTTPError 415)"
| "request_json BadJson = Inl (HTTPError 400)"
| "request_json (JsonBody j) = Inr j"

subsection \<open>SQLite column values\<close>

datatype sqlval = SqlNull | SqlInt int | SqlText string

fun nat_decimal :: "nat \<Rightarrow> string" where
  "nat_decimal n =
     (if n < 10 then [char_of (48 + n)] else nat_decimal (n div 10) @ [char_of (48 + n mod 10)])"

declare nat_decimal.simps [simp del]

definition int_decimal :: "int \<Rightarrow> string" where
  "int_decimal i = (if i < 0 then CHR ''-'' # nat_decimal (nat (- i)) else nat_decimal (nat i))"

text \<open>
  Reading a decimal numeral: the characters \<open>0\<close>-\<open>9\<close> only (werkzeug's \<open><int:...>\<close>
  converter matches a run of digits and applies \<open>int()\<close>), so no sign and no blanks.
\<close>

definition is_digit :: "char \<Rightarrow> bool" where
  "is_digit c \<longleftrightarrow> 48 \<le> (of_char c :: nat) \<and> (of_char c :: nat) \<le> 57"

definition digits_value :: "string \<Rightarrow> nat" where
  "digits_value s = foldl (\<lambda>n c. 10 * n + (of_char c - 48)) 0 s"

definition parse_digits :: "string \<Rightarrow> nat option" where
  "parse_digits s = (if s \<noteq> [] \<and> list_all is_digit s then Some (digits_value s) else None)"

text \<open>
  \<open>sqlite3\<close> binds a Python \<open>int\<close> with \<open>sqlite3_bind_int64\<close>, after converting it
  to a C \<open>long long\<close>: a value outside the signed 64-bit range raises OverflowError.
\<close>

definition int64_fits :: "int \<Rightarrow> bool" where
  "int64_fits i = (- (2 ^ 63) \<le> i \<and> i < 2 ^ 63)"

text \<open>
  Binding a Python value as a statement parameter (\<open>sqlite3\<close>): \<open>bool\<close> is an \<open>int\<close>,
  a list or dict cannot be bound (InterfaceError at flush).
\<close>

fun sql_bind :: "json \<Rightarrow> pyexc + sqlval" where
  "sql_bind JNull = Inr SqlNull"
| "sql_bind (JBool b) = Inr (SqlInt (if b then 1 else 0))"
| "sql_bind (JInt i) = (if int64_fits i then Inr (SqlInt i) else Inl OverflowError)"
| "sql_bind (JStr s) = Inr (SqlText s)"
| "sql_bind (JList _) = Inl InterfaceError"
| "sql_bind (JObj _) = Inl InterfaceError"

text \<open>A \<open>String\<close> column (TEXT affinity) stores a bound integer as its decimal text.\<close>

fun text_column :: "sqlval \<Rightarrow> string option" where
  "text_column SqlNull = None"
| "text_column (SqlInt i) = Some (int_decimal i)"
| "text_column (SqlText s) = Some s"

text \<open>
  A well-formed integer literal in SQLite's sense, restricted to an optional sign and
  decimal digits (leading or trailing blanks, real literals and out-of-range values are
  not modelled).
\<close>

definition parse_int :: "string \<Rightarrow> int option" where
  "parse_int s =
     (case s of
        [] \<Rightarrow> None
      | c # ds \<Rightarrow>
          if c = CHR ''-'' then map_option (\<lambda>n. - int n) (parse_digits ds)
          else if c = CHR ''+'' then map_option int (parse_digits ds)
          else map_option int (parse_digits s))"

text \<open>
  An \<open>Integer\<close> column (INTEGER affinity): a bound text that is a well-formed integer
  literal is stored as that integer; any other value is stored as bound.
\<close>

fun int_affinity :: "sqlval \<Rightarrow> sqlval" where
  "int_affinity (SqlText s) = (case parse_int s of Some i \<Rightarrow> SqlInt i | None \<Rightarrow> SqlText s)"
| "int_affinity v = v"

definition int_column :: "json \<Rightarrow> pyexc + sqlval" where
  "int_column v = (case sql_bind v of Inl e \<Rightarrow> Inl e | Inr x \<Rightarrow> Inr (int_affinity x))"

text \<open>Reading a column back into a JSON value of the response.\<close>

fun sql_json :: "sqlval \<Rightarrow> json" where
  "sql_json SqlNull = JNull"
| "sql_json (SqlInt i) = JInt i"
| "sql_json (SqlText s) = JStr s"

definition opt_json :: "string option \<Rightarrow> json" where
  "opt_json s = (case s of None \<Rightarrow> JNull | Some x \<Rightarrow> JStr x)"

text \<open>The keys of a JSON object, in order; other values have none.\<close>

fun json_keys :: "json \<Rightarrow> string list" where
  "json_keys (JObj kvs) = map fst kvs"
| "json_keys _ = []"

subsection \<open>Lemmas on the operators\<close>

lemma py_truthy_str [simp]: "py_truthy (JStr s) \<longleftrightarrow> s \<noteq> []"
  by simp

lemma py_getitem_ok:
  "py_getitem d k = Inr v \<longleftrightarrow> (\<exists>kvs. d = JObj kvs \<and> map_of (rev kvs) k = Some v)"
  by (cases d) (auto split: option.splits)

lemma py_contains_obj_getitem:
  "py_contains k (JObj kvs) = Inr True \<Longrightarrow> \<exists>v. py_getitem (JObj kvs) k = Inr v"
  by (auto simp: map_of_eq_None_iff split: option.splits)

lemma py_getitem_obj:
  "map_of (rev kvs) k = Some v \<Longrightarrow> py_contains k (JObj kvs) = Inr True \<and> py_getitem (JObj kvs) k = Inr v"
  by (auto dest!: map_of_SomeD intro: rev_image_eqI)

lemma py_getitem_obj_missing:
  "map_of (rev kvs) k = None \<Longrightarrow> py_getitem (JObj kvs) k = Inl (KeyError k)"
  by simp

lemma sql_bind_text_column:
  "sql_bind v = Inr x \<Longrightarrow> v = JStr s \<Longrightarrow> text_column x = Some s"
  by auto

subsection \<open>Decimal numerals: printing and reading back\<close>

text \<open>The range check is that of a \<open>64 word\<close> read back as a signed integer.\<close>

lemma int64_fits_sint: "int64_fits i \<longleftrightarrow> sint (word_of_int i :: 64 word) = i"
  by (simp add: int64_fits_def sint_sbintrunc' signed_take_bit_int_eq_self_iff)

lemma of_char_digit: "k < 10 \<Longrightarrow> (of_char (char_of (48 + k)) :: nat) = 48 + k"
  by (simp add: of_char_of)

lemma nat_decimal_unfold:
  "nat_decimal n = (if n < 10 then [char_of (48 + n)] else nat_decimal (n div 10) @ [char_of (48 + n mod 10)])"
  by (rule nat_decimal.simps)

lemma nat_decimal_digits: "nat_decimal n \<noteq> [] \<and> list_all is_digit (nat_decimal n)"
proof (induction n rule: nat_decimal.induct)
  case (1 n)
  show ?case
  proof (cases "n < 10")
    case True
    then have "nat_decimal n = [char_of (48 + n)]" by (subst nat_decimal_unfold) simp
    with True show ?thesis by (simp add: is_digit_def of_char_digit)
  next
    case False
    then have "nat_decimal n = nat_decimal (n div 10) @ [char_of (48 + n mod 10)]"
      by (subst nat_decimal_unfold) simp
    with False "1.IH" show ?thesis by (simp add: is_digit_def of_char_digit)
  qed
qed

lemma digits_value_snoc: "digits_value (s @ [c]) = 10 * digits_value s + (of_char c - 48)"
  by (simp add: digits_value_def)

lemma digits_value_nat_decimal: "digits_value (nat_decimal n) = n"
proof (induction n rule: nat_decimal.induct)
  case (1 n)
  show ?case
  proof (cases "n < 10")
    case True
    then show ?thesis by (subst nat_decimal_unfold) (simp add: digits_value_def of_char_digit)
  next
    case False
    then have "nat_decimal n = nat_decimal (n div 10) @ [char_of (48 + n mod 10)]"
      by (subst nat_decimal_unfold) simp
    with False "1.IH" show ?thesis by (simp add: digits_value_snoc of_char_digit)
  qed
qed

lemma parse_digits_nat_decimal: "parse_digits (nat_decimal n) = Some n"
  using nat_decimal_digits [of n] by (simp add: parse_digits_def digits_value_nat_decimal)

lemma nat_decimal_hd: "\<exists>c cs. nat_decimal n = c # cs \<and> is_digit c"
  using nat_decimal_digits [of n] by (cases "nat_decimal n") auto

lemma parse_int_int_decimal: "parse_int (int_decimal i) = Some i"
proof (cases "i < 0")
  case True
  then show ?thesis by (simp add: int_decimal_def parse_int_def parse_digits_nat_decimal)
next
  case False
  obtain c cs where c: "nat_decimal (nat i) = c # cs" and dc: "is_digit c"
    using nat_decimal_hd by blast
  from dc have "c \<noteq> CHR ''-''" and "c \<noteq> CHR ''+''" by (auto simp: is_digit_def)
  with False c parse_digits_nat_decimal [of "nat i"] show ?thesis
    by (simp add: int_decimal_def parse_int_def)
qed

lemma int_column_simps [simp]:
  "int_column JNull = Inr SqlNull"
  "int_column (JInt i) = (if int64_fits i then Inr (SqlInt i) else Inl OverflowError)"
  "int_column (JBool b) = Inr (SqlInt (if b then 1 else 0))"
  "int_column (JStr s) = Inr (int_affinity (SqlText s))"
  "int_column (JList xs) = Inl InterfaceError" "int_column (JObj kvs) = Inl InterfaceError"
  by (simp_all add: int_column_def)

end
