(* ===== verification/Models.thy ===== *)
theory Models
  imports Storage PyValue
begin

text \<open>
  The data model of \<open>src/server/models.py\<close>: the rows of the three models \<open>Hero\<close>,
  \<open>Power\<close> and \<open>HeroPower\<close> as records, the database as three rowid tables, the
  \<open>@validates\<close> hooks as functions into \<open>pyexc + json\<close>, the ORM writes that follow
  them (flush binds the validated value into its column), the relationship cascades
  \<open>all, delete-orphan\<close> as explicit deletes, and the association proxies \<open>powers\<close> and
  \<open>heroes\<close> as functions computed from the join rows. Foreign keys are stored as the
  SQLite value the driver bound; whether the database checks them is a configuration
  flag (SQLite leaves them unchecked unless \<open>PRAGMA foreign_keys\<close> is on); the keys
  pass through the \<open>Integer\<close> columns' affinity. \<open>__repr__\<close> of each model closes it.
\<close>

record hero =
  hero_name :: "string option"
  super_name :: "string option"

record power =
  power_name :: "string option"
  description :: "string option"

record hero_power =
  strength :: string
  hero_id :: sqlval
  power_id :: sqlval

record db =
  heroes :: "hero table"
  powers :: "power table"
  hero_powers :: "hero_power table"

record config =
  fk_enforced :: bool

definition empty_db :: db where
  "empty_db = \<lparr>heroes = [], powers = [], hero_powers = []\<rparr>"

text \<open>The default \<open>DB_URI\<close> is a SQLite file, whose foreign keys are not enforced.\<close>

definition sqlite_default :: config where
  "sqlite_default = \<lparr>fk_enforced = False\<rparr>"

subsection \<open>Validation hooks\<close>

definition description_error :: pyexc where
  "description_error = ValueError ''Description must be at least 20 characters long.''"

text \<open>\<open>Power.validate_description\<close>: \<open>not description or len(description) < 20\<close> raises.\<close>

definition validate_description :: "json \<Rightarrow> pyexc + json" where
  "validate_description v =
     (if \<not> py_truthy v then Inl description_error
      else (case py_len v of
              Inl e \<Rightarrow> Inl e
            | Inr n \<Rightarrow> if n < 20 then Inl description_error else Inr v))"

definition valid_strengths :: "string list" where
  "valid_strengths = [''Strong'', ''Weak'', ''Average'']"

definition strength_error :: pyexc where
  "strength_error = ValueError ''Strength must be 'Strong', 'Weak', or 'Average'.''"

text \<open>\<open>HeroPower.validate_strength\<close>: list membership, by Python equality.\<close>

definition validate_strength :: "json \<Rightarrow> pyexc + json" where
  "validate_strength v = (if v \<in> set (map JStr valid_strengths) then Inr v else Inl strength_error)"

declare validate_description_def [model_simps] validate_strength_def [model_simps]
  valid_strengths_def [model_simps] description_error_def [model_simps]
  strength_error_def [model_simps]

subsection \<open>References and relationships\<close>

text \<open>
  \<open>Hero.query.get(id)\<close>, \<open>Power.query.get(id)\<close>: the request's session starts with an
  empty identity map, so the id is bound as the parameter of \<open>SELECT ... WHERE id = ?\<close>
  and the driver's binding errors (OverflowError for an id outside 64 bits) escape.
\<close>

definition query_get :: "'a table \<Rightarrow> rowid \<Rightarrow> pyexc + 'a option" where
  "query_get t i = (case sql_bind (JInt i) of Inl e \<Rightarrow> Inl e | Inr _ \<Rightarrow> Inr (tbl_get t i))"

text \<open>A many-to-one relationship (\<open>HeroPower.hero\<close>, \<open>HeroPower.power\<close>) loads the row whose id equals the stored key.\<close>

fun ref_get :: "'a table \<Rightarrow> sqlval \<Rightarrow> (rowid \<times> 'a) option" where
  "ref_get t (SqlInt i) = map_option (Pair i) (tbl_get t i)"
| "ref_get t _ = None"

text \<open>What a \<open>FOREIGN KEY\<close> constraint admits when the database checks it: NULL or an existing parent.\<close>

fun fk_admits :: "'a table \<Rightarrow> sqlval \<Rightarrow> bool" where
  "fk_admits t SqlNull = True"
| "fk_admits t v = (ref_get t v \<noteq> None)"

text \<open>The one-to-many relationships \<open>Hero.hero_powers\<close> and \<open>Power.hero_powers\<close>.\<close>

definition hero_hero_powers :: "db \<Rightarrow> rowid \<Rightarrow> hero_power table" where
  "hero_hero_powers d h = tbl_select (\<lambda>hp. hero_id hp = SqlInt h) (hero_powers d)"

definition power_hero_powers :: "db \<Rightarrow> rowid \<Rightarrow> hero_power table" where
  "power_hero_powers d p = tbl_select (\<lambda>hp. power_id hp = SqlInt p) (hero_powers d)"

text \<open>The association proxies: \<open>Hero.powers\<close> and \<open>Power.heroes\<close> (\<open>None\<close> is a dangling reference).\<close>

definition hero_powers_proxy :: "db \<Rightarrow> rowid \<Rightarrow> (rowid \<times> power) option list" where
  "hero_powers_proxy d h = map (\<lambda>(_, hp). ref_get (powers d) (power_id hp)) (hero_hero_powers d h)"

definition power_heroes_proxy :: "db \<Rightarrow> rowid \<Rightarrow> (rowid \<times> hero) option list" where
  "power_heroes_proxy d p = map (\<lambda>(_, hp). ref_get (heroes d) (hero_id hp)) (power_hero_powers d p)"

subsection \<open>Writes\<close>

text \<open>
  \<open>HeroPower(strength=s, hero_id=h, power_id=p)\<close>: the declarative constructor sets the
  attributes in keyword order, so the strength validator runs before anything else.
\<close>

definition new_hero_power :: "json \<Rightarrow> json \<Rightarrow> json \<Rightarrow> pyexc + (json \<times> json \<times> json)" where
  "new_hero_power s h p = (case validate_strength s of Inl e \<Rightarrow> Inl e | Inr s' \<Rightarrow> Inr (s', h, p))"

text \<open>
  Flushing the pending \<open>HeroPower\<close>: bind the three parameters (the two keys into
  \<open>Integer\<close> columns), check
  \<open>strength NOT NULL\<close> and, when enforced, both foreign keys, then insert.
\<close>

definition insert_hero_power :: "config \<Rightarrow> json \<times> json \<times> json \<Rightarrow> db \<Rightarrow> pyexc + (rowid \<times> db)" where
  "insert_hero_power cfg obj d =
     (case obj of (s, h, p) \<Rightarrow>
       (case sql_bind s of Inl e \<Rightarrow> Inl e | Inr sv \<Rightarrow>
        case int_column h of Inl e \<Rightarrow> Inl e | Inr hv \<Rightarrow>
        case int_column p of Inl e \<Rightarrow> Inl e | Inr pv \<Rightarrow>
        case text_column sv of None \<Rightarrow> Inl IntegrityError | Some st \<Rightarrow>
        if fk_enforced cfg \<and> \<not> (fk_admits (heroes d) hv \<and> fk_admits (powers d) pv)
        then Inl IntegrityError
        else (let (i, t) = tbl_insert \<lparr>strength = st, hero_id = hv, power_id = pv\<rparr> (hero_powers d)
              in Inr (i, d\<lparr>hero_powers := t\<rparr>))))"

text \<open>Flushing \<open>power.description = v\<close> after the validator accepted \<open>v\<close>: an \<open>UPDATE\<close> of one column.\<close>

definition flush_description :: "rowid \<Rightarrow> json \<Rightarrow> db \<Rightarrow> pyexc + db" where
  "flush_description pid v d =
     (case sql_bind v of
        Inl e \<Rightarrow> Inl e
      | Inr x \<Rightarrow> Inr (d\<lparr>powers := tbl_update pid (\<lambda>p. p\<lparr>description := text_column x\<rparr>) (powers d)\<rparr>))"

text \<open>
  Creating a hero or a power (the seeding side of the models). \<open>Power(name=n,
  description=v)\<close> runs the validator on \<open>v\<close>; a \<open>Power(name=n)\<close> that omits the keyword
  never sets the attribute, so the validator does not run and the column is NULL.
\<close>

definition create_hero :: "string option \<Rightarrow> string option \<Rightarrow> db \<Rightarrow> rowid \<times> db" where
  "create_hero n s d =
     (let (i, t) = tbl_insert \<lparr>hero_name = n, super_name = s\<rparr> (heroes d) in (i, d\<lparr>heroes := t\<rparr>))"

definition create_power :: "string option \<Rightarrow> json option \<Rightarrow> db \<Rightarrow> pyexc + (rowid \<times> db)" where
  "create_power n v d =
     (case v of
        None \<Rightarrow> (let (i, t) = tbl_insert \<lparr>power_name = n, description = None\<rparr> (powers d)
                 in Inr (i, d\<lparr>powers := t\<rparr>))
      | Some v \<Rightarrow>
        (case validate_description v of Inl e \<Rightarrow> Inl e | Inr v' \<Rightarrow>
         case sql_bind v' of Inl e \<Rightarrow> Inl e | Inr x \<Rightarrow>
           (let (i, t) = tbl_insert \<lparr>power_name = n, description = text_column x\<rparr> (powers d)
            in Inr (i, d\<lparr>powers := t\<rparr>))))"

text \<open>
  \<open>session.delete(hero)\<close> with \<open>cascade="all, delete-orphan"\<close>: the rows of
  \<open>hero.hero_powers\<close> are deleted with the hero. Likewise for a power.
\<close>

definition delete_hero :: "rowid \<Rightarrow> db \<Rightarrow> db" where
  "delete_hero h d =
     (case tbl_get (heroes d) h of
        None \<Rightarrow> d
      | Some _ \<Rightarrow> d\<lparr>hero_powers := tbl_delete_where (\<lambda>hp. hero_id hp = SqlInt h) (hero_powers d),
                     heroes := tbl_delete h (heroes d)\<rparr>)"

definition delete_power :: "rowid \<Rightarrow> db \<Rightarrow> db" where
  "delete_power p d =
     (case tbl_get (powers d) p of
        None \<Rightarrow> d
      | Some _ \<Rightarrow> d\<lparr>hero_powers := tbl_delete_where (\<lambda>hp. power_id hp = SqlInt p) (hero_powers d),
                     powers := tbl_delete p (powers d)\<rparr>)"

definition delete_hero_power :: "rowid \<Rightarrow> db \<Rightarrow> db" where
  "delete_hero_power i d = d\<lparr>hero_powers := tbl_delete i (hero_powers d)\<rparr>"

text \<open>
  \<open>__repr__\<close> of the three models: \<open>f"<Hero {self.id}>"\<close>; the id is \<open>None\<close> until
  the row is flushed.
\<close>

fun py_str_id :: "rowid option \<Rightarrow> string" where
  "py_str_id None = ''None''"
| "py_str_id (Some i) = int_decimal i"

definition hero_repr :: "rowid option \<Rightarrow> string" where
  "hero_repr i = ''<Hero '' @ py_str_id i @ ''>''"

definition power_repr :: "rowid option \<Rightarrow> string" where
  "power_repr i = ''<Power '' @ py_str_id i @ ''>''"

definition hero_power_repr :: "rowid option \<Rightarrow> string" where
  "hero_power_repr i = ''<HeroPower '' @ py_str_id i @ ''>''"

text \<open>Reading a model's \<open>repr\<close> back: the class name, then the id or \<open>None\<close>.\<close>

definition parse_repr :: "string \<Rightarrow> string \<Rightarrow> rowid option option" where
  "parse_repr cls s =
     (case strip_prefix (''<'' @ cls @ '' '') s of
        None \<Rightarrow> None
      | Some r \<Rightarrow>
          if r = [] \<or> last r \<noteq> CHR ''>'' then None
          else if butlast r = ''None'' then Some None
          else map_option Some (parse_int (butlast r)))"

text \<open>A small database as the seed script would leave it, for examples.\<close>

definition sample_db :: db where
  "sample_db =
     \<lparr>heroes = [(1, \<lparr>hero_name = Some ''Kamala Khan'', super_name = Some ''Ms. Marvel''\<rparr>)],
      powers = [(1, \<lparr>power_name = Some ''super strength'',
                      description = Some ''gives the wielder super-human strengths''\<rparr>)],
      hero_powers = [(1, \<lparr>strength = ''Strong'', hero_id = SqlInt 1, power_id = SqlInt 1\<rparr>)]\<rparr>"

subsection \<open>Invariants\<close>

text \<open>A stored description is one the validator accepted; NULL is a description never set.\<close>

definition power_ok :: "power \<Rightarrow> bool" where
  "power_ok p \<longleftrightarrow> (case description p of None \<Rightarrow> True | Some s \<Rightarrow> 20 \<le> length s)"

definition hero_power_ok :: "hero_power \<Rightarrow> bool" where
  "hero_power_ok hp \<longleftrightarrow> strength hp \<in> set valid_strengths"

text \<open>The field invariants the validators promise, and well-formed tables.\<close>

definition db_wf :: "db \<Rightarrow> bool" where
  "db_wf d \<longleftrightarrow> tbl_wf (heroes d) \<and> tbl_wf (powers d) \<and> tbl_wf (hero_powers d) \<and>
     (\<forall>(_, p) \<in> set (powers d). power_ok p) \<and> (\<forall>(_, hp) \<in> set (hero_powers d). hero_power_ok hp)"

text \<open>What enforced foreign keys guarantee: every reference is NULL or names an existing row.\<close>

definition fk_integrity :: "db \<Rightarrow> bool" where
  "fk_integrity d \<longleftrightarrow>
     (\<forall>(_, hp) \<in> set (hero_powers d). fk_admits (heroes d) (hero_id hp) \<and> fk_admits (powers d) (power_id hp))"

text \<open>The data model's promise: every join row is tied to exactly one existing hero and power.\<close>

definition ref_integrity :: "db \<Rightarrow> bool" where
  "ref_integrity d \<longleftrightarrow>
     (\<forall>(_, hp) \<in> set (hero_powers d).
        ref_get (heroes d) (hero_id hp) \<noteq> None \<and> ref_get (powers d) (power_id hp) \<noteq> None)"

subsection \<open>Basic facts\<close>

lemma query_get_eq: "query_get t i = (if int64_fits i then Inr (tbl_get t i) else Inl OverflowError)"
  by (simp add: query_get_def)

lemma query_get_fits [simp]: "int64_fits i \<Longrightarrow> query_get t i = Inr (tbl_get t i)"
  by (simp add: query_get_def)

lemma query_get_overflow [simp]: "\<not> int64_fits i \<Longrightarrow> query_get t i = Inl OverflowError"
  by (simp add: query_get_def)

lemma fk_admits_SqlInt [simp]: "fk_admits t (SqlInt i) \<longleftrightarrow> i \<in> tbl_ids t"
  by (simp add: tbl_ids_get)

lemma validate_description_str:
  "validate_description (JStr s) = (if length s < 20 then Inl description_error else Inr (JStr s))"
  by (auto simp: validate_description_def)

subsection \<open>What the validators let through to a column\<close>

lemma validate_description_bind:
  "validate_description v = Inr v' \<Longrightarrow> sql_bind v' = Inr x \<Longrightarrow>
   \<exists>s. text_column x = Some s \<and> 20 \<le> length s"
  by (cases v) (auto simp: validate_description_def split: if_splits)

lemma validate_strength_bind:
  "validate_strength v = Inr v' \<Longrightarrow> sql_bind v' = Inr x \<Longrightarrow>
   \<exists>s. text_column x = Some s \<and> s \<in> set valid_strengths"
  by (auto simp: validate_strength_def split: if_splits)

lemma ref_get_ne_None: "ref_get t v \<noteq> None \<longleftrightarrow> (\<exists>i. v = SqlInt i \<and> i \<in> tbl_ids t)"
  by (cases v) (simp_all add: tbl_ids_get)

lemma fk_admits_iff: "fk_admits t v \<longleftrightarrow> v = SqlNull \<or> (\<exists>i. v = SqlInt i \<and> i \<in> tbl_ids t)"
  by (cases v) (simp_all add: tbl_ids_get)

subsection \<open>Every write keeps the field invariants\<close>

lemma db_wf_create_hero: "db_wf d \<Longrightarrow> db_wf (snd (create_hero n s d))"
  by (auto simp: db_wf_def create_hero_def split_beta tbl_wf_insert)

lemma db_wf_create_power:
  "create_power n v d = Inr (i, d') \<Longrightarrow> db_wf d \<Longrightarrow> db_wf d'"
  by (auto simp: db_wf_def create_power_def split_beta tbl_wf_insert set_tbl_insert power_ok_def
      split: option.splits sum.splits dest!: validate_description_bind)

lemma db_wf_insert_hero_power:
  "new_hero_power s h p = Inr obj \<Longrightarrow> insert_hero_power cfg obj d = Inr (i, d') \<Longrightarrow> db_wf d \<Longrightarrow> db_wf d'"
  by (auto simp: db_wf_def new_hero_power_def insert_hero_power_def split_beta tbl_wf_insert
      set_tbl_insert hero_power_ok_def split: sum.splits option.splits if_splits
      dest!: validate_strength_bind)

lemma db_wf_flush_description:
  assumes "validate_description v = Inr v'" and "flush_description pid v' d = Inr d'" and "db_wf d"
  shows "db_wf d'"
proof -
  obtain x s where x: "sql_bind v' = Inr x" and s: "text_column x = Some s" "20 \<le> length s"
    using assms(1,2) validate_description_bind by (fastforce simp: flush_description_def split: sum.splits)
  have "d' = d\<lparr>powers := tbl_update pid (\<lambda>p. p\<lparr>description := Some s\<rparr>) (powers d)\<rparr>"
    using assms(2) x s by (simp add: flush_description_def)
  moreover have "\<forall>(_, p) \<in> set (tbl_update pid (\<lambda>p. p\<lparr>description := Some s\<rparr>) (powers d)). power_ok p"
    by (rule tbl_all_update) (use assms(3) s in \<open>auto simp: db_wf_def power_ok_def\<close>)
  ultimately show ?thesis using assms(3) by (simp add: db_wf_def tbl_wf_update)
qed

lemma db_wf_delete_hero: "db_wf d \<Longrightarrow> db_wf (delete_hero h d)"
  by (auto simp: db_wf_def delete_hero_def tbl_wf_delete tbl_wf_delete_where set_tbl_delete_where
      split: option.splits dest: set_tbl_delete [THEN subsetD])

lemma db_wf_delete_power: "db_wf d \<Longrightarrow> db_wf (delete_power p d)"
  by (auto simp: db_wf_def delete_power_def tbl_wf_delete tbl_wf_delete_where set_tbl_delete_where
      split: option.splits dest: set_tbl_delete [THEN subsetD])

lemma db_wf_delete_hero_power: "db_wf d \<Longrightarrow> db_wf (delete_hero_power i d)"
  by (auto simp: db_wf_def delete_hero_power_def tbl_wf_delete dest: set_tbl_delete [THEN subsetD])

subsection \<open>Writes and references\<close>

lemma fk_integrity_mono:
  "fk_integrity d \<Longrightarrow> set (hero_powers d') \<subseteq> set (hero_powers d) \<Longrightarrow>
   tbl_ids (heroes d) \<subseteq> tbl_ids (heroes d') \<Longrightarrow> tbl_ids (powers d) \<subseteq> tbl_ids (powers d') \<Longrightarrow>
   fk_integrity d'"
  unfolding fk_integrity_def fk_admits_iff by blast

lemma ref_integrity_iff:
  "ref_integrity d \<longleftrightarrow>
     (\<forall>(_, hp) \<in> set (hero_powers d). (\<exists>i. hero_id hp = SqlInt i \<and> i \<in> tbl_ids (heroes d)) \<and>
                                      (\<exists>j. power_id hp = SqlInt j \<and> j \<in> tbl_ids (powers d)))"
  unfolding ref_integrity_def ref_get_ne_None by (rule refl)

lemma ref_integrity_mono:
  "ref_integrity d \<Longrightarrow> set (hero_powers d') \<subseteq> set (hero_powers d) \<Longrightarrow>
   tbl_ids (heroes d) \<subseteq> tbl_ids (heroes d') \<Longrightarrow> tbl_ids (powers d) \<subseteq> tbl_ids (powers d') \<Longrightarrow>
   ref_integrity d'"
  unfolding ref_integrity_iff by blast

lemma create_hero_grows:
  "create_hero n s d = (i, d') \<Longrightarrow>
   hero_powers d' = hero_powers d \<and> tbl_ids (heroes d) \<subseteq> tbl_ids (heroes d') \<and> powers d' = powers d"
  by (auto simp: create_hero_def split_beta tbl_ids_insert)

lemma create_power_grows:
  "create_power n v d = Inr (i, d') \<Longrightarrow>
   hero_powers d' = hero_powers d \<and> heroes d' = heroes d \<and> tbl_ids (powers d) \<subseteq> tbl_ids (powers d')"
  by (auto simp: create_power_def split_beta tbl_ids_insert split: option.splits sum.splits)

lemma flush_description_frame:
  "flush_description pid v d = Inr d' \<Longrightarrow>
   hero_powers d' = hero_powers d \<and> heroes d' = heroes d \<and> tbl_ids (powers d') = tbl_ids (powers d)"
  by (auto simp: flush_description_def split: sum.splits)

lemma delete_hero_absent: "h \<notin> tbl_ids (heroes d) \<Longrightarrow> delete_hero h d = d"
  by (simp add: delete_hero_def tbl_ids_get)

lemma delete_power_absent: "p \<notin> tbl_ids (powers d) \<Longrightarrow> delete_power p d = d"
  by (simp add: delete_power_def tbl_ids_get)

lemma delete_hero_frame:
  "h \<in> tbl_ids (heroes d) \<Longrightarrow> delete_hero h d = d' \<Longrightarrow>
   powers d' = powers d \<and> tbl_ids (heroes d') = tbl_ids (heroes d) - {h} \<and>
   set (hero_powers d') = {x \<in> set (hero_powers d). hero_id (snd x) \<noteq> SqlInt h}"
  by (auto simp: delete_hero_def tbl_ids_delete set_tbl_delete_where tbl_ids_get)

lemma delete_power_frame:
  "p \<in> tbl_ids (powers d) \<Longrightarrow> delete_power p d = d' \<Longrightarrow>
   heroes d' = heroes d \<and> tbl_ids (powers d') = tbl_ids (powers d) - {p} \<and>
   set (hero_powers d') = {x \<in> set (hero_powers d). power_id (snd x) \<noteq> SqlInt p}"
  by (auto simp: delete_power_def tbl_ids_delete set_tbl_delete_where tbl_ids_get)

lemma fk_integrity_delete_hero: "fk_integrity d \<Longrightarrow> fk_integrity (delete_hero h d)"
  by (cases "h \<in> tbl_ids (heroes d)")
    (use delete_hero_frame [OF _ refl, of h d] in \<open>auto simp: delete_hero_absent fk_integrity_def fk_admits_iff\<close>)

lemma fk_integrity_delete_power: "fk_integrity d \<Longrightarrow> fk_integrity (delete_power p d)"
  by (cases "p \<in> tbl_ids (powers d)")
    (use delete_power_frame [OF _ refl, of p d] in \<open>auto simp: delete_power_absent fk_integrity_def fk_admits_iff\<close>)

lemma fk_integrity_insert_hero_power:
  assumes "fk_enforced cfg" and "insert_hero_power cfg obj d = Inr (i, d')" and "fk_integrity d"
  shows "fk_integrity d'"
proof -
  from assms(1,2) obtain hv pv st where hv: "fk_admits (heroes d) hv" and pv: "fk_admits (powers d) pv"
    and d': "d' = d\<lparr>hero_powers := snd (tbl_insert \<lparr>strength = st, hero_id = hv, power_id = pv\<rparr> (hero_powers d))\<rparr>"
    by (auto simp: insert_hero_power_def split_beta split: sum.splits option.splits if_splits)
  have "\<forall>(_, hp) \<in> set (snd (tbl_insert \<lparr>strength = st, hero_id = hv, power_id = pv\<rparr> (hero_powers d))).
          fk_admits (heroes d) (hero_id hp) \<and> fk_admits (powers d) (power_id hp)"
    by (rule tbl_all_insert) (use assms(3) hv pv in \<open>simp_all add: fk_integrity_def\<close>)
  then show ?thesis by (simp add: d' fk_integrity_def)
qed

subsection \<open>Cascading deletes and the association proxies\<close>

text \<open>
  C7: deleting an existing hero removes it and exactly the join rows that reference it;
  every other hero, every power and every other join row is kept unchanged.
\<close>

theorem delete_hero_cascade:
  assumes "tbl_wf (hero_powers d)" and "h \<in> tbl_ids (heroes d)"
  shows "tbl_get (heroes (delete_hero h d)) = (tbl_get (heroes d))(h := None) \<and>
         powers (delete_hero h d) = powers d \<and>
         (\<forall>j. tbl_get (hero_powers (delete_hero h d)) j =
               (case tbl_get (hero_powers d) j of None \<Rightarrow> None
                | Some hp \<Rightarrow> if hero_id hp = SqlInt h then None else Some hp)) \<and>
         hero_hero_powers (delete_hero h d) h = []"
proof -
  have "hero_hero_powers (delete_hero h d) h = []"
    using assms(2) by (auto simp: delete_hero_def tbl_ids_get hero_hero_powers_def tbl_select_def
        tbl_delete_where_def filter_empty_conv)
  then show ?thesis
    using assms by (auto simp: delete_hero_def tbl_ids_get tbl_get_delete tbl_get_delete_where)
qed

theorem delete_hero_cascade_witness:
  "tbl_wf (hero_powers sample_db) \<and> 1 \<in> tbl_ids (heroes sample_db) \<and>
   delete_hero 1 sample_db = sample_db\<lparr>heroes := [], hero_powers := []\<rparr> \<and>
   hero_hero_powers (delete_hero 1 sample_db) 1 = []"
proof -
  have wf: "tbl_wf (hero_powers sample_db)" by (simp add: sample_db_def tbl_wf_def)
  have h: "1 \<in> tbl_ids (heroes sample_db)" by (simp add: sample_db_def tbl_ids_def)
  have "delete_hero 1 sample_db = sample_db\<lparr>heroes := [], hero_powers := []\<rparr>"
    by (simp add: sample_db_def delete_hero_def store_simps)
  with wf h delete_hero_cascade [OF wf h] show ?thesis by simp
qed

text \<open>
  C8: deleting a hero or a power keeps every join row tied to an existing hero and an
  existing power: the cascade leaves no orphan behind.
\<close>

theorem delete_keeps_ref_integrity:
  "ref_integrity d \<Longrightarrow> ref_integrity (delete_hero h d) \<and> ref_integrity (delete_power p d)"
proof
  assume r: "ref_integrity d"
  show "ref_integrity (delete_hero h d)"
    by (cases "h \<in> tbl_ids (heroes d)")
      (use r delete_hero_frame [OF _ refl, of h d] in \<open>auto simp: delete_hero_absent ref_integrity_iff\<close>)
  show "ref_integrity (delete_power p d)"
    by (cases "p \<in> tbl_ids (powers d)")
      (use r delete_power_frame [OF _ refl, of p d] in \<open>auto simp: delete_power_absent ref_integrity_iff\<close>)
qed

theorem delete_keeps_ref_integrity_witness:
  "ref_integrity sample_db \<and> ref_integrity (delete_hero 1 sample_db) \<and> ref_integrity (delete_power 1 sample_db)"
proof -
  have r: "ref_integrity sample_db" by (simp add: ref_integrity_def sample_db_def store_simps)
  from r delete_keeps_ref_integrity [OF r, of 1 1] show ?thesis by simp
qed

text \<open>
  When every join row is tied to existing rows, the association proxies
  \<open>Hero.powers\<close> and \<open>Power.heroes\<close> load a row for every entry, never \<open>None\<close>.
\<close>

theorem proxies_total:
  "ref_integrity d \<Longrightarrow> None \<notin> set (hero_powers_proxy d h) \<and> None \<notin> set (power_heroes_proxy d p)"
  by (auto simp: ref_integrity_def hero_powers_proxy_def power_heroes_proxy_def hero_hero_powers_def
      power_hero_powers_def tbl_select_def)

theorem proxies_total_witness:
  "ref_integrity sample_db \<and> hero_powers_proxy sample_db 1 = [Some (1, snd (hd (powers sample_db)))] \<and>
   None \<notin> set (power_heroes_proxy sample_db 1)"
proof -
  have r: "ref_integrity sample_db" by (simp add: ref_integrity_def sample_db_def store_simps)
  have "hero_powers_proxy sample_db 1 = [Some (1, snd (hd (powers sample_db)))]"
    by (simp add: hero_powers_proxy_def hero_hero_powers_def sample_db_def store_simps)
  with r proxies_total [OF r, of 1 1] show ?thesis by simp
qed

text \<open>
  C19: after an existing hero is deleted, a power whose join rows all referenced that hero
  has no join rows left, so its derived \<open>heroes\<close> list is empty.
\<close>

theorem delete_hero_empties_heroes:
  assumes "h \<in> tbl_ids (heroes d)"
    and "\<forall>(_, hp) \<in> set (hero_powers d). power_id hp = SqlInt p \<longrightarrow> hero_id hp = SqlInt h"
  shows "power_hero_powers (delete_hero h d) p = [] \<and> power_heroes_proxy (delete_hero h d) p = []"
proof -
  have "set (hero_powers (delete_hero h d)) = {x \<in> set (hero_powers d). hero_id (snd x) \<noteq> SqlInt h}"
    using delete_hero_frame [OF assms(1) refl] by simp
  with assms(2) have "power_hero_powers (delete_hero h d) p = []"
    by (fastforce simp: power_hero_powers_def tbl_select_def filter_empty_conv)
  then show ?thesis by (simp add: power_heroes_proxy_def)
qed

theorem delete_hero_empties_heroes_witness:
  "1 \<in> tbl_ids (heroes sample_db) \<and>
   hero_powers sample_db = [(1, \<lparr>strength = ''Strong'', hero_id = SqlInt 1, power_id = SqlInt 1\<rparr>)] \<and>
   power_heroes_proxy sample_db 1 = [Some (1, snd (hd (heroes sample_db)))] \<and>
   power_heroes_proxy (delete_hero 1 sample_db) 1 = []"
proof -
  have h: "1 \<in> tbl_ids (heroes sample_db)" by (simp add: sample_db_def tbl_ids_def)
  have a: "\<forall>(_, hp) \<in> set (hero_powers sample_db). power_id hp = SqlInt 1 \<longrightarrow> hero_id hp = SqlInt 1"
    by (simp add: sample_db_def)
  have b: "power_heroes_proxy sample_db 1 = [Some (1, snd (hd (heroes sample_db)))]"
    by (simp add: power_heroes_proxy_def power_hero_powers_def sample_db_def store_simps)
  from delete_hero_empties_heroes [OF h a] h b show ?thesis by (simp add: sample_db_def)
qed

subsection \<open>The models' \<open>repr\<close>\<close>

lemma parse_repr_id: "parse_repr cls (''<'' @ cls @ '' '' @ py_str_id i @ ''>'') = Some i"
proof -
  have sp: "strip_prefix (''<'' @ cls @ '' '') (''<'' @ cls @ '' '' @ y) = Some y" for y :: string
    by (simp add: strip_prefix_def)
  show ?thesis
  proof (cases i)
    case None
    then show ?thesis using sp [of "''None>''"] by (simp add: parse_repr_def)
  next
    case (Some k)
    have "int_decimal k \<noteq> ''None''"
      using parse_int_int_decimal [of k] by (auto simp: parse_int_def parse_digits_def is_digit_def)
    with Some sp [of "int_decimal k @ ''>''"] show ?thesis
      by (simp add: parse_repr_def parse_int_int_decimal)
  qed
qed

text \<open>
  The \<open>repr\<close> of a hero, a power or a hero-power names its class and its id (or
  \<open>None\<close> before the flush), and the id is read back from it: rows of one class with
  different ids never print alike.
\<close>

theorem repr_roundtrip:
  "parse_repr ''Hero'' (hero_repr i) = Some i \<and> parse_repr ''Power'' (power_repr i) = Some i \<and>
   parse_repr ''HeroPower'' (hero_power_repr i) = Some i"
  using parse_repr_id [of "''Hero''" i] parse_repr_id [of "''Power''" i] parse_repr_id [of "''HeroPower''" i]
  by (simp add: hero_repr_def power_repr_def hero_power_repr_def)

end
