(* ===== verification/Serializer.thy ===== *)
theory Serializer
  imports Models
begin

text \<open>
  \<open>SerializerMixin.to_dict\<close> of \<open>sqlalchemy_serializer\<close>, which every model of
  \<open>models.py\<close> mixes in. The library is not part of the repository: it is modelled
  from the specification (section 4.3) and the library's documented behaviour. A schema
  holds the optional \<open>only\<close> allow-list and the parsed rules; serializing an instance
  first adds the model's own \<open>serialize_rules\<close>, keeps the attributes the schema includes,
  and serializes each attribute value under the schema forked at its key. The recursion
  carries a depth budget: running out of it is \<open>None\<close>, the \<open>RecursionError\<close> that
  Python raises on a cyclic default serialization.
\<close>

datatype model_kind = KHero | KPower | KHeroPower

datatype entity = EHero rowid | EPower rowid | EHeroPower rowid

fun kind_of :: "entity \<Rightarrow> model_kind" where
  "kind_of (EHero _) = KHero"
| "kind_of (EPower _) = KPower"
| "kind_of (EHeroPower _) = KHeroPower"

text \<open>An attribute value: a column value, a many-to-one relationship, a one-to-many collection.\<close>

datatype attr = AScalar json | ARef "entity option" | ARefs "entity list"

subsection \<open>The mapped attributes of an instance\<close>

text \<open>
  Columns, then relationships, as the mapper declares them; the association proxies
  \<open>powers\<close> and \<open>heroes\<close> are not mapper attributes and are never serialized.
\<close>

fun attrs :: "db \<Rightarrow> entity \<Rightarrow> (string \<times> attr) list" where
  "attrs d (EHero i) =
     (case tbl_get (heroes d) i of None \<Rightarrow> [] | Some h \<Rightarrow>
       [(''id'', AScalar (JInt i)), (''name'', AScalar (opt_json (hero_name h))),
        (''super_name'', AScalar (opt_json (super_name h))),
        (''hero_powers'', ARefs (map (EHeroPower \<circ> fst) (hero_hero_powers d i)))])"
| "attrs d (EPower i) =
     (case tbl_get (powers d) i of None \<Rightarrow> [] | Some p \<Rightarrow>
       [(''id'', AScalar (JInt i)), (''name'', AScalar (opt_json (power_name p))),
        (''description'', AScalar (opt_json (description p))),
        (''hero_powers'', ARefs (map (EHeroPower \<circ> fst) (power_hero_powers d i)))])"
| "attrs d (EHeroPower i) =
     (case tbl_get (hero_powers d) i of None \<Rightarrow> [] | Some hp \<Rightarrow>
       [(''id'', AScalar (JInt i)), (''strength'', AScalar (JStr (strength hp))),
        (''hero_id'', AScalar (sql_json (hero_id hp))),
        (''power_id'', AScalar (sql_json (power_id hp))),
        (''hero'', ARef (map_option (EHero \<circ> fst) (ref_get (heroes d) (hero_id hp)))),
        (''power'', ARef (map_option (EPower \<circ> fst) (ref_get (powers d) (power_id hp))))])"

fun rel_keys :: "model_kind \<Rightarrow> string list" where
  "rel_keys KHero = [''hero_powers'']"
| "rel_keys KPower = [''hero_powers'']"
| "rel_keys KHeroPower = [''hero'', ''power'']"

subsection \<open>Rules and schemas\<close>

text \<open>\<open>str.split('.')\<close>.\<close>

fun split_dots :: "string \<Rightarrow> string list" where
  "split_dots [] = [[]]"
| "split_dots (c # cs) =
     (if c = CHR ''.'' then [] # split_dots cs
      else (case split_dots cs of [] \<Rightarrow> [[c]] | w # ws \<Rightarrow> (c # w) # ws))"

text \<open>A rule: \<open>True\<close> for an exclusion (leading \<open>-\<close>), and its dotted path.\<close>

type_synonym rule = "bool \<times> string list"

fun parse_rule :: "string \<Rightarrow> rule" where
  "parse_rule [] = (False, [[]])"
| "parse_rule (c # cs) = (if c = CHR ''-'' then (True, split_dots cs) else (False, split_dots (c # cs)))"

record schema =
  only_keys :: "string list option"
  rules :: "rule list"

text \<open>\<open>to_dict(only=..., rules=...)\<close>: an empty \<open>only\<close> means every attribute (greedy).\<close>

definition schema_of :: "string list \<Rightarrow> string list \<Rightarrow> schema" where
  "schema_of only rs = \<lparr>only_keys = (if only = [] then None else Some only), rules = map parse_rule rs\<rparr>"

definition schema_update :: "schema \<Rightarrow> string list \<Rightarrow> schema" where
  "schema_update s rs = s\<lparr>rules := rules s @ map parse_rule rs\<rparr>"

definition is_included :: "schema \<Rightarrow> string \<Rightarrow> bool" where
  "is_included s k \<longleftrightarrow>
     (True, [k]) \<notin> set (rules s) \<and> (case only_keys s of None \<Rightarrow> True | Some ks \<Rightarrow> k \<in> set ks)"

fun sub_rule :: "string \<Rightarrow> rule \<Rightarrow> rule option" where
  "sub_rule k (b, k' # p # ps) = (if k' = k then Some (b, p # ps) else None)"
| "sub_rule k _ = None"

text \<open>The schema of the value under key \<open>k\<close>: the rules below \<open>k\<close>, greedy.\<close>

definition fork :: "schema \<Rightarrow> string \<Rightarrow> schema" where
  "fork s k = \<lparr>only_keys = None, rules = List.map_filter (sub_rule k) (rules s)\<rparr>"

subsection \<open>Serialization\<close>

type_synonym model_rules = "model_kind \<Rightarrow> string list"

function ser_value :: "model_rules \<Rightarrow> nat \<Rightarrow> db \<Rightarrow> schema \<Rightarrow> attr \<Rightarrow> json option"
  and ser_model :: "model_rules \<Rightarrow> nat \<Rightarrow> db \<Rightarrow> schema \<Rightarrow> entity \<Rightarrow> json option" where
  "ser_value R n d s (AScalar j) = Some j"
| "ser_value R n d s (ARef None) = Some JNull"
| "ser_value R n d s (ARef (Some e)) = ser_model R n d s e"
| "ser_value R n d s (ARefs es) = map_option JList (those (map (ser_model R n d s) es))"
| "ser_model R n d s e =
     (if n = 0 then None
      else (let s' = schema_update s (R (kind_of e)) in
        map_option JObj (those (map (\<lambda>(k, a). map_option (Pair k) (ser_value R (n - 1) d (fork s' k) a))
                                    (filter (\<lambda>(k, _). is_included s' k) (attrs d e))))))"
  by pat_completeness auto
termination
  by (relation "measure (\<lambda>x. case x of Inl (R, n, d, s, a) \<Rightarrow> 2 * n + 1 | Inr (R, n, d, s, e) \<Rightarrow> 2 * n)")
    auto

text \<open>The \<open>serialize_rules\<close> class attributes of \<open>Hero\<close>, \<open>Power\<close> and \<open>HeroPower\<close>.\<close>

definition hero_serialize_rules :: "string list" where
  "hero_serialize_rules = [''-hero_powers.hero'']"

definition power_serialize_rules :: "string list" where
  "power_serialize_rules = [''-hero_powers.power'']"

definition hero_power_serialize_rules :: "string list" where
  "hero_power_serialize_rules = [''-hero.hero_powers'', ''-power.hero_powers'']"

fun serialize_rules :: model_rules where
  "serialize_rules KHero = hero_serialize_rules"
| "serialize_rules KPower = power_serialize_rules"
| "serialize_rules KHeroPower = hero_power_serialize_rules"

declare hero_serialize_rules_def [simp] power_serialize_rules_def [simp]
  hero_power_serialize_rules_def [simp]

text \<open>The instances an attribute value refers to.\<close>

fun targets :: "attr \<Rightarrow> entity set" where
  "targets (AScalar _) = {}"
| "targets (ARef eo) = set_option eo"
| "targets (ARefs es) = set es"

declare ser_model.simps [simp del]

definition to_dict :: "nat \<Rightarrow> db \<Rightarrow> entity \<Rightarrow> string list \<Rightarrow> string list \<Rightarrow> json option" where
  "to_dict n d e only rs = ser_model serialize_rules n d (schema_of only rs) e"

subsection \<open>Unfolding and the structure of a result\<close>

lemma ser_model_0 [simp]: "ser_model R 0 d s e = None"
  by (simp add: ser_model.simps)

lemma ser_model_Suc:
  "ser_model R (Suc n) d s e =
     (let s' = schema_update s (R (kind_of e)) in
      map_option JObj (those (map (\<lambda>(k, a). map_option (Pair k) (ser_value R n d (fork s' k) a))
                                  (filter (\<lambda>(k, _). is_included s' k) (attrs d e)))))"
  by (simp add: ser_model.simps)

lemma ser_model_Suc_Some_iff:
  "ser_model R (Suc n) d s e = Some j \<longleftrightarrow>
     (\<exists>kvs. j = JObj kvs \<and>
        list_all2 (\<lambda>(k, a) (k', v). k' = k \<and>
                      ser_value R n d (fork (schema_update s (R (kind_of e))) k) a = Some v)
          (filter (\<lambda>(k, _). is_included (schema_update s (R (kind_of e))) k) (attrs d e)) kvs)"
proof -
  let ?s' = "schema_update s (R (kind_of e))"
  have P: "(\<lambda>x y. (case x of (k, a) \<Rightarrow> map_option (Pair k) (ser_value R n d (fork ?s' k) a)) = Some y) =
           (\<lambda>(k, a) (k', v). k' = k \<and> ser_value R n d (fork ?s' k) a = Some v)"
    by (auto simp: fun_eq_iff)
  show ?thesis
    by (auto simp: ser_model_Suc Let_def those_map_Some_iff P)
qed

lemma ser_model_Some_keys:
  "ser_model R n d s e = Some (JObj kvs) \<Longrightarrow>
     map fst kvs = map fst (filter (\<lambda>(k, _). is_included (schema_update s (R (kind_of e))) k) (attrs d e))"
  by (cases n) (auto simp: ser_model_Suc_Some_iff dest: list_all2_keys)

lemma ser_model_Some_field:
  assumes "ser_model R (Suc n) d s e = Some (JObj kvs)" and "(k, v) \<in> set kvs"
  shows "\<exists>a. (k, a) \<in> set (attrs d e) \<and> is_included (schema_update s (R (kind_of e))) k \<and>
             ser_value R n d (fork (schema_update s (R (kind_of e))) k) a = Some v"
  using assms by (auto simp: ser_model_Suc_Some_iff dest!: list_all2_in_set2)

lemma ser_model_Suc_not_None:
  assumes "\<And>k a. (k, a) \<in> set (attrs d e) \<Longrightarrow> is_included (schema_update s (R (kind_of e))) k \<Longrightarrow>
             ser_value R n d (fork (schema_update s (R (kind_of e))) k) a \<noteq> None"
  shows "ser_model R (Suc n) d s e \<noteq> None"
proof -
  let ?s' = "schema_update s (R (kind_of e))"
  have "those (map (\<lambda>(k, a). map_option (Pair k) (ser_value R n d (fork ?s' k) a))
                   (filter (\<lambda>(k, _). is_included ?s' k) (attrs d e))) \<noteq> None"
  proof (rule those_map_all_Some)
    fix x
    assume "x \<in> set (filter (\<lambda>(k, _). is_included ?s' k) (attrs d e))"
    then obtain k a where "x = (k, a)" "(k, a) \<in> set (attrs d e)" "is_included ?s' k"
      by auto
    with assms show "(case x of (k, a) \<Rightarrow> map_option (Pair k) (ser_value R n d (fork ?s' k) a)) \<noteq> None"
      by simp
  qed
  then show ?thesis by (simp add: ser_model_Suc Let_def)
qed

subsection \<open>More budget never changes a result\<close>

lemma ser_fuel_mono:
  "ser_value R n d s a = Some j \<Longrightarrow> n \<le> m \<Longrightarrow> ser_value R m d s a = Some j"
  "ser_model R n d s e = Some j \<Longrightarrow> n \<le> m \<Longrightarrow> ser_model R m d s e = Some j"
proof (induction R n d s a and R n d s e arbitrary: m j and m j rule: ser_value_ser_model.induct)
  case (1 R n d s j)
  from "1.prems"(1) show ?case by simp
next
  case (2 R n d s)
  from "2.prems"(1) show ?case by simp
next
  case (3 R n d s e)
  from "3.prems"(1) have "ser_model R n d s e = Some j" by simp
  then have "ser_model R m d s e = Some j" using "3.prems"(2) by (rule "3.IH")
  then show ?case by simp
next
  case (4 R n d s es)
  from "4.prems"(1) obtain js where j: "j = JList js"
    and L: "list_all2 (\<lambda>x y. ser_model R n d s x = Some y) es js"
    by (auto simp: those_map_Some_iff)
  have "list_all2 (\<lambda>x y. ser_model R m d s x = Some y) es js"
  proof (rule list_all2_mono_in [OF L])
    fix x y
    assume "x \<in> set es" and "ser_model R n d s x = Some y"
    then show "ser_model R m d s x = Some y" using "4.prems"(2) by (rule "4.IH")
  qed
  with j show ?case by (simp add: those_map_Some_iff)
next
  case (5 R n d s e)
  let ?s' = "schema_update s (R (kind_of e))"
  let ?L = "filter (\<lambda>(k, _). is_included ?s' k) (attrs d e)"
  let ?f = "\<lambda>i (k, a). map_option (Pair k) (ser_value R i d (fork ?s' k) a)"
  from "5.prems"(1) have n: "n \<noteq> 0" by (cases n) simp_all
  with "5.prems"(2) have m: "m \<noteq> 0" by simp
  from "5.prems"(1) n obtain kvs where j: "j = JObj kvs"
    and L: "list_all2 (\<lambda>x y. ?f (n - 1) x = Some y) ?L kvs"
    by (auto simp: ser_model.simps Let_def those_map_Some_iff)
  have "list_all2 (\<lambda>x y. ?f (m - 1) x = Some y) ?L kvs"
  proof (rule list_all2_mono_in [OF L])
    fix x y
    assume x: "x \<in> set ?L" and fx: "?f (n - 1) x = Some y"
    obtain k a where xka: "x = (k, a)" by (cases x)
    from fx xka obtain v where v: "ser_value R (n - 1) d (fork ?s' k) a = Some v" and y: "y = (k, v)"
      by auto
    have "ser_value R (m - 1) d (fork ?s' k) a = Some v"
      using "5.IH" [OF n refl x xka [symmetric] v] "5.prems"(2) by simp
    with xka y show "?f (m - 1) x = Some y" by simp
  qed
  with m j show ?case by (simp add: ser_model.simps Let_def those_map_Some_iff)
qed

subsection \<open>Termination under the models' rules\<close>

lemma attrs_targets:
  "(k, a) \<in> set (attrs d e) \<Longrightarrow> e' \<in> targets a \<Longrightarrow> k \<in> set (rel_keys (kind_of e))"
  by (cases e) (auto split: option.splits)

lemma attrs_hero_power_targets:
  "(k, a) \<in> set (attrs d (EHeroPower i)) \<Longrightarrow> e' \<in> targets a \<Longrightarrow>
     (k = ''hero'' \<and> kind_of e' = KHero) \<or> (k = ''power'' \<and> kind_of e' = KPower)"
  by (auto split: option.splits)

lemma attrs_parent_targets:
  "(k, a) \<in> set (attrs d e) \<Longrightarrow> kind_of e \<noteq> KHeroPower \<Longrightarrow> e' \<in> targets a \<Longrightarrow>
     k = ''hero_powers'' \<and> kind_of e' = KHeroPower"
  by (cases e) (auto split: option.splits)

lemma ser_value_not_None:
  assumes "\<And>e. e \<in> targets a \<Longrightarrow> ser_model R n d s e \<noteq> None"
  shows "ser_value R n d s a \<noteq> None"
proof (cases a)
  case (ARef eo)
  with assms show ?thesis by (cases eo) auto
next
  case (ARefs es)
  with assms have "those (map (ser_model R n d s) es) \<noteq> None"
    by (intro those_map_all_Some) auto
  with ARefs show ?thesis by simp
qed simp

lemma rules_schema_update [simp]:
  "set (rules (schema_update s rs)) = set (rules s) \<union> parse_rule ` set rs"
  by (simp add: schema_update_def)

lemma rules_fork: "(b, k # p # ps) \<in> set (rules s) \<Longrightarrow> (b, p # ps) \<in> set (rules (fork s k))"
  by (force simp: fork_def set_map_filter_iff)

text \<open>An instance whose relationships are all excluded serializes at any positive depth.\<close>

lemma ser_model_leaf:
  assumes "\<forall>k \<in> set (rel_keys (kind_of e)). (True, [k]) \<in> set (rules (schema_update s (R (kind_of e))))"
  shows "ser_model R (Suc n) d s e \<noteq> None"
proof (rule ser_model_Suc_not_None)
  fix k a
  assume ka: "(k, a) \<in> set (attrs d e)" and inc: "is_included (schema_update s (R (kind_of e))) k"
  have "targets a = {}"
  proof (rule ccontr)
    assume "targets a \<noteq> {}"
    then obtain e' where "e' \<in> targets a" by blast
    with ka have "k \<in> set (rel_keys (kind_of e))" by (blast dest: attrs_targets)
    with assms inc show False by (auto simp: is_included_def)
  qed
  then show "ser_value R n d (fork (schema_update s (R (kind_of e))) k) a \<noteq> None"
    by (intro ser_value_not_None) simp
qed

lemma ser_hero_or_power_leaf:
  "kind_of e \<noteq> KHeroPower \<Longrightarrow> (True, [''hero_powers'']) \<in> set (rules s) \<Longrightarrow>
     ser_model R (Suc n) d s e \<noteq> None"
  by (rule ser_model_leaf) (cases "kind_of e"; simp)

lemma serialize_rules_parsed:
  "set (map parse_rule (serialize_rules KHeroPower)) =
     {(True, [''hero'', ''hero_powers'']), (True, [''power'', ''hero_powers''])}"
  by simp

lemma ser_hero_power_total:
  "ser_model serialize_rules (Suc (Suc n)) d s (EHeroPower i) \<noteq> None"
proof (rule ser_model_Suc_not_None)
  let ?s' = "schema_update s (serialize_rules (kind_of (EHeroPower i)))"
  fix k a
  assume ka: "(k, a) \<in> set (attrs d (EHeroPower i))"
  show "ser_value serialize_rules (Suc n) d (fork ?s' k) a \<noteq> None"
  proof (rule ser_value_not_None)
    fix e'
    assume "e' \<in> targets a"
    with ka have k: "(k = ''hero'' \<and> kind_of e' = KHero) \<or> (k = ''power'' \<and> kind_of e' = KPower)"
      by (rule attrs_hero_power_targets)
    have "set (rules ?s') = set (rules s) \<union> set (map parse_rule (serialize_rules KHeroPower))"
      by (simp add: schema_update_def)
    with k have "(True, [k, ''hero_powers'']) \<in> set (rules ?s')"
      by (auto simp only: serialize_rules_parsed)
    then have "(True, [''hero_powers'']) \<in> set (rules (fork ?s' k))" by (rule rules_fork)
    moreover from k have "kind_of e' \<noteq> KHeroPower" by auto
    ultimately show "ser_model serialize_rules (Suc n) d (fork ?s' k) e' \<noteq> None"
      by (intro ser_hero_or_power_leaf)
  qed
qed

lemma ser_model_total:
  "ser_model serialize_rules (Suc (Suc (Suc n))) d s e \<noteq> None"
proof (cases "kind_of e = KHeroPower")
  case True
  then obtain i where "e = EHeroPower i" by (cases e) auto
  then show ?thesis using ser_hero_power_total [of "Suc n"] by simp
next
  case False
  show ?thesis
  proof (rule ser_model_Suc_not_None)
    fix k a
    let ?s' = "schema_update s (serialize_rules (kind_of e))"
    assume ka: "(k, a) \<in> set (attrs d e)"
    show "ser_value serialize_rules (Suc (Suc n)) d (fork ?s' k) a \<noteq> None"
    proof (rule ser_value_not_None)
      fix e'
      assume "e' \<in> targets a"
      with ka False have "kind_of e' = KHeroPower"
        by (blast dest: attrs_parent_targets)
      then obtain i where "e' = EHeroPower i" by (cases e') auto
      then show "ser_model serialize_rules (Suc (Suc n)) d (fork ?s' k) e' \<noteq> None"
        using ser_hero_power_total [of n d "fork ?s' k" i] by simp
    qed
  qed
qed

subsection \<open>Keys of a result\<close>

lemma ser_model_excluded_key:
  "(True, [k]) \<in> set (rules s) \<Longrightarrow> ser_model R n d s e = Some (JObj kvs) \<Longrightarrow> k \<notin> set (map fst kvs)"
  by (drule ser_model_Some_keys) (auto simp: is_included_def)

lemma ser_model_Suc_None:
  assumes "(k, a) \<in> set (attrs d e)" and "is_included (schema_update s (R (kind_of e))) k"
    and "ser_value R n d (fork (schema_update s (R (kind_of e))) k) a = None"
  shows "ser_model R (Suc n) d s e = None"
proof -
  let ?s' = "schema_update s (R (kind_of e))"
  have "those (map (\<lambda>(k, a). map_option (Pair k) (ser_value R n d (fork ?s' k) a))
                   (filter (\<lambda>(k, _). is_included ?s' k) (attrs d e))) = None"
    by (rule those_map_None [where x = "(k, a)"]) (use assms in simp_all)
  then show ?thesis by (simp add: ser_model_Suc Let_def)
qed

lemma greedy_schema_fixed [simp]:
  "schema_update (schema_of [] []) [] = schema_of [] []"
  "fork (schema_of [] []) k = schema_of [] []"
  "is_included (schema_of [] []) k"
  by (simp_all add: schema_of_def schema_update_def fork_def is_included_def List.map_filter_simps)

lemma ser_model_Some_JObj: "ser_model R n d s e = Some j \<Longrightarrow> \<exists>kvs. j = JObj kvs"
  by (cases n) (auto simp: ser_model_Suc_Some_iff)

lemma to_dict_not_None: "3 \<le> n \<Longrightarrow> to_dict n d e only rs \<noteq> None"
proof -
  assume "3 \<le> n"
  then have "n = Suc (Suc (Suc (n - 3)))" by arith
  then show ?thesis by (metis to_dict_def ser_model_total)
qed

lemma to_dict_3: "3 \<le> n \<Longrightarrow> to_dict n d e only rs = to_dict 3 d e only rs"
proof -
  assume n: "3 \<le> n"
  obtain j where j: "to_dict 3 d e only rs = Some j"
    using to_dict_not_None [of 3 d e only rs] by auto
  then have "to_dict n d e only rs = Some j"
    unfolding to_dict_def using n by (rule ser_fuel_mono(2))
  with j show ?thesis by simp
qed

text \<open>The class rules alone cut every back reference, whatever the call's rules.\<close>

lemma attrs_hero_power_ref:
  "(k, a) \<in> set (attrs d (EHeroPower i)) \<Longrightarrow> k \<in> {''hero'', ''power''} \<Longrightarrow> \<exists>eo. a = ARef eo"
  by (auto split: option.splits)

lemma attrs_parent_refs:
  "(''hero_powers'', a) \<in> set (attrs d e) \<Longrightarrow> \<exists>es. a = ARefs es \<and> (\<forall>e' \<in> set es. kind_of e' = KHeroPower)"
  by (cases e) (auto split: option.splits)

lemma ser_ref_excluding:
  assumes "ser_value R n d s (ARef eo) = Some v" and "(True, [k]) \<in> set (rules s)"
  shows "k \<notin> set (json_keys v)"
proof (cases eo)
  case None
  with assms show ?thesis by simp
next
  case (Some e)
  with assms(1) have v: "ser_model R n d s e = Some v" by simp
  then obtain kvs where "v = JObj kvs" by (blast dest: ser_model_Some_JObj)
  with v assms(2) show ?thesis by (metis json_keys.simps(1) ser_model_excluded_key)
qed

lemma hero_power_no_back_ref:
  assumes "ser_model serialize_rules n d s (EHeroPower i) = Some (JObj kvs)"
    and "(k, v) \<in> set kvs" and k: "k \<in> {''hero'', ''power''}"
  shows "''hero_powers'' \<notin> set (json_keys v)"
proof -
  obtain m where n: "n = Suc m" using assms(1) by (cases n) auto
  let ?s' = "schema_update s (serialize_rules (kind_of (EHeroPower i)))"
  from assms(1,2) n obtain a where ka: "(k, a) \<in> set (attrs d (EHeroPower i))"
    and v: "ser_value serialize_rules m d (fork ?s' k) a = Some v"
    by (blast dest: ser_model_Some_field)
  from ka k obtain eo where "a = ARef eo" by (blast dest: attrs_hero_power_ref)
  with v have v': "ser_value serialize_rules m d (fork ?s' k) (ARef eo) = Some v" by simp
  from k have "(True, [k, ''hero_powers'']) \<in> set (rules ?s')" by auto
  then have "(True, [''hero_powers'']) \<in> set (rules (fork ?s' k))" by (rule rules_fork)
  with v' show ?thesis by (rule ser_ref_excluding)
qed

lemma hero_no_back_ref:
  assumes "ser_model serialize_rules n d s (EHero h) = Some (JObj kvs)"
    and "(''hero_powers'', v) \<in> set kvs" and "x \<in> set (case v of JList xs \<Rightarrow> xs | _ \<Rightarrow> [])"
  shows "''hero'' \<notin> set (json_keys x)"
proof -
  obtain m where n: "n = Suc m" using assms(1) by (cases n) auto
  let ?s' = "schema_update s (serialize_rules (kind_of (EHero h)))"
  let ?f = "fork ?s' ''hero_powers''"
  from assms(1,2) n obtain a where ka: "(''hero_powers'', a) \<in> set (attrs d (EHero h))"
    and v: "ser_value serialize_rules m d ?f a = Some v"
    by (blast dest: ser_model_Some_field)
  from ka obtain es where a: "a = ARefs es" and kinds: "\<forall>e' \<in> set es. kind_of e' = KHeroPower"
    by (blast dest: attrs_parent_refs)
  from v a obtain xs where vx: "v = JList xs"
    and L: "list_all2 (\<lambda>e y. ser_model serialize_rules m d ?f e = Some y) es xs"
    by (auto simp: those_map_Some_iff)
  from assms(3) vx have "x \<in> set xs" by simp
  with L obtain e' where e': "e' \<in> set es" and sx: "ser_model serialize_rules m d ?f e' = Some x"
    by (blast dest: list_all2_in_set2)
  have "(True, [''hero_powers'', ''hero'']) \<in> set (rules ?s')" by simp
  then have "(True, [''hero'']) \<in> set (rules ?f)" by (rule rules_fork)
  moreover from sx obtain kvs' where "x = JObj kvs'" by (blast dest: ser_model_Some_JObj)
  ultimately show ?thesis using sx by (metis json_keys.simps(1) ser_model_excluded_key)
qed

subsection \<open>Properties of the serializer\<close>

text \<open>
  C9: with the models' \<open>serialize_rules\<close>, \<open>to_dict\<close> never recurses forever: for every
  database, every instance and every \<open>only\<close> list and call rules, a depth budget of
  three levels already gives a result.
\<close>

theorem to_dict_terminates:
  "to_dict (Suc (Suc (Suc n))) d e only rs \<noteq> None"
  unfolding to_dict_def by (rule ser_model_total)

end
