(* ===== verification/App.thy ===== *)
theory App
  imports Serializer
begin

text \<open>
  The request handlers of \<open>src/server/app.py\<close>. Each route is a function from the
  database (and the request body) to a response and the database after the request.
  A response is a body with a status code, or an exception that escapes the handler
  (Flask answers it with status 500, or with the status of an HTTPException). The
  handlers' \<open>try\<close> blocks catch \<open>ValueError\<close> only; nothing is committed on any error
  path, so the database is returned unchanged there. Serialization uses the depth budget \<open>recursion_budget\<close>,
  which stands for CPython's recursion limit; every result below holds for any budget of
  at least three (\<open>Serializer.to_dict_3\<close>).
\<close>

datatype body = Html string | Json json

datatype response = Resp body nat | Crash pyexc

text \<open>Flask answers an escaped \<open>HTTPException\<close> with its own status, any other exception with 500.\<close>

fun status :: "response \<Rightarrow> nat" where
  "status (Resp _ c) = c"
| "status (Crash (HTTPError c)) = c"
| "status (Crash _) = 500"

definition recursion_budget :: nat where
  "recursion_budget = 100"

text \<open>\<open>make_response(obj.to_dict(...), code)\<close>: a serialization that does not end is a RecursionError.\<close>

definition json_response :: "json option \<Rightarrow> nat \<Rightarrow> response" where
  "json_response r c = (case r of None \<Rightarrow> Crash RecursionError | Some j \<Rightarrow> Resp (Json j) c)"

definition not_found :: "string \<Rightarrow> response" where
  "not_found msg = Resp (Json (JObj [(''error'', JStr msg)])) 404"

definition validation_errors :: response where
  "validation_errors = Resp (Json (JObj [(''errors'', JList [JStr ''validation errors''])])) 400"

text \<open>\<open>except ValueError as e: return make_response({"errors": [...]}, 400)\<close>; any other exception escapes.\<close>

definition except_value_error :: "pyexc \<Rightarrow> response" where
  "except_value_error e = (if is_value_error e then validation_errors else Crash e)"

subsection \<open>Routes\<close>

definition index :: response where
  "index = Resp (Html ''<h1>Code challenge</h1>'') 200"

definition get_heroes :: "db \<Rightarrow> response" where
  "get_heroes d =
     (case those (map (\<lambda>(i, _). to_dict recursion_budget d (EHero i) [''id'', ''name'', ''super_name''] [])
                      (heroes d)) of
        None \<Rightarrow> Crash RecursionError
      | Some js \<Rightarrow> Resp (Json (JList js)) 200)"

definition get_hero :: "db \<Rightarrow> rowid \<Rightarrow> response" where
  "get_hero d i =
     (case query_get (heroes d) i of
        Inl e \<Rightarrow> Crash e
      | Inr None \<Rightarrow> not_found ''Hero not found''
      | Inr (Some _) \<Rightarrow> json_response (to_dict recursion_budget d (EHero i) [] [''-hero_powers.hero'']) 200)"

definition get_powers :: "db \<Rightarrow> response" where
  "get_powers d =
     (case those (map (\<lambda>(i, _). to_dict recursion_budget d (EPower i) [''id'', ''name'', ''description''] [])
                      (powers d)) of
        None \<Rightarrow> Crash RecursionError
      | Some js \<Rightarrow> Resp (Json (JList js)) 200)"

definition get_power :: "db \<Rightarrow> rowid \<Rightarrow> response" where
  "get_power d i =
     (case query_get (powers d) i of
        Inl e \<Rightarrow> Crash e
      | Inr None \<Rightarrow> not_found ''Power not found''
      | Inr (Some _) \<Rightarrow> json_response (to_dict recursion_budget d (EPower i) [] [''-hero_powers'']) 200)"

text \<open>
  \<open>PATCH /powers/<id>\<close>: inside the \<open>try\<close>, the membership test, the subscript, the
  validator and the commit may raise; only a ValueError becomes the 400 answer.
  \<open>data = request.json\<close> runs after the lookup and outside the \<open>try\<close>.
\<close>

definition update_power :: "db \<Rightarrow> rowid \<Rightarrow> req_body \<Rightarrow> response \<times> db" where
  "update_power d pid body =
     (case query_get (powers d) pid of
        Inl e \<Rightarrow> (Crash e, d)
      | Inr None \<Rightarrow> (not_found ''Power not found'', d)
      | Inr (Some _) \<Rightarrow>
       (case request_json body of
          Inl e \<Rightarrow> (Crash e, d)
        | Inr data \<Rightarrow>
          (case py_contains ''description'' data of
             Inl e \<Rightarrow> (except_value_error e, d)
           | Inr False \<Rightarrow> (json_response (to_dict recursion_budget d (EPower pid) [] []) 200, d)
           | Inr True \<Rightarrow>
               (case py_getitem data ''description'' of
                  Inl e \<Rightarrow> (except_value_error e, d)
                | Inr v \<Rightarrow>
                    (case validate_description v of
                       Inl e \<Rightarrow> (except_value_error e, d)
                     | Inr v' \<Rightarrow>
                         (case flush_description pid v' d of
                            Inl e \<Rightarrow> (except_value_error e, d)
                          | Inr d' \<Rightarrow>
                              (json_response (to_dict recursion_budget d' (EPower pid) [] []) 200, d')))))))"

text \<open>
  \<open>POST /hero_powers\<close>: \<open>data = request.json\<close> runs inside the \<open>try\<close>; the three
  subscripts are evaluated before the constructor runs, then the strength validator,
  then the flush of \<open>db.session.commit()\<close>.
\<close>

definition create_hero_power :: "config \<Rightarrow> db \<Rightarrow> req_body \<Rightarrow> response \<times> db" where
  "create_hero_power cfg d body =
     (case request_json body of Inl e \<Rightarrow> (except_value_error e, d) | Inr data \<Rightarrow>
      case py_getitem data ''strength'' of Inl e \<Rightarrow> (except_value_error e, d) | Inr s \<Rightarrow>
      case py_getitem data ''hero_id'' of Inl e \<Rightarrow> (except_value_error e, d) | Inr h \<Rightarrow>
      case py_getitem data ''power_id'' of Inl e \<Rightarrow> (except_value_error e, d) | Inr p \<Rightarrow>
      case new_hero_power s h p of Inl e \<Rightarrow> (except_value_error e, d) | Inr obj \<Rightarrow>
      case insert_hero_power cfg obj d of Inl e \<Rightarrow> (except_value_error e, d) | Inr (i, d') \<Rightarrow>
        (json_response (to_dict recursion_budget d' (EHeroPower i) []
                          [''-hero.hero_powers'', ''-power.hero_powers'']) 200, d'))"

subsection \<open>Requests and their dispatch\<close>

text \<open>The routes; \<open><int:id>\<close> only matches a non-negative decimal, hence \<open>nat\<close>.\<close>

datatype request =
    GetIndex
  | GetHeroes
  | GetHero nat
  | GetPowers
  | GetPower nat
  | PatchPower nat req_body
  | PostHeroPower req_body

fun handle :: "config \<Rightarrow> db \<Rightarrow> request \<Rightarrow> response \<times> db" where
  "handle cfg d GetIndex = (index, d)"
| "handle cfg d GetHeroes = (get_heroes d, d)"
| "handle cfg d (GetHero i) = (get_hero d (int i), d)"
| "handle cfg d GetPowers = (get_powers d, d)"
| "handle cfg d (GetPower i) = (get_power d (int i), d)"
| "handle cfg d (PatchPower i data) = update_power d (int i) data"
| "handle cfg d (PostHeroPower data) = create_hero_power cfg d data"

subsection \<open>Administrative operations and reachable databases\<close>

text \<open>
  The writes that happen outside the routes (the seed script, an administrator's
  session): creating heroes and powers and deleting any row, through the models. A
  failed write leaves the database as it was.
\<close>

datatype admin_op =
    CreateHero "string option" "string option"
  | CreatePower "string option" "json option"
  | DeleteHero rowid
  | DeletePower rowid
  | DeleteHeroPower rowid

fun admin_step :: "db \<Rightarrow> admin_op \<Rightarrow> db" where
  "admin_step d (CreateHero n s) = snd (create_hero n s d)"
| "admin_step d (CreatePower n v) = (case create_power n v d of Inl _ \<Rightarrow> d | Inr (_, d') \<Rightarrow> d')"
| "admin_step d (DeleteHero h) = delete_hero h d"
| "admin_step d (DeletePower p) = delete_power p d"
| "admin_step d (DeleteHeroPower i) = delete_hero_power i d"

text \<open>The databases the service can reach from an empty one, one request or write at a time.\<close>

inductive reachable :: "config \<Rightarrow> db \<Rightarrow> bool" for cfg where
  start: "reachable cfg empty_db"
| request: "reachable cfg d \<Longrightarrow> handle cfg d r = (resp, d') \<Longrightarrow> reachable cfg d'"
| admin: "reachable cfg d \<Longrightarrow> reachable cfg (admin_step d a)"

subsection \<open>Responses\<close>

lemma recursion_budget_ge: "3 \<le> recursion_budget"
  by (simp add: recursion_budget_def)

lemma json_response_to_dict:
  "json_response (to_dict recursion_budget d e only rs) c = Resp (Json (the (to_dict 3 d e only rs))) c"
  using to_dict_not_None [of 3 d e only rs] to_dict_3 [OF recursion_budget_ge]
  by (auto simp: json_response_def split: option.splits)

lemma to_dict_power_flat:
  "tbl_get (powers d) i = Some p \<Longrightarrow> only \<in> {[], [''id'', ''name'', ''description'']} \<Longrightarrow>
   rs \<in> {[], [''-hero_powers'']} \<Longrightarrow> only \<noteq> [] \<or> rs \<noteq> [] \<Longrightarrow>
   to_dict 3 d (EPower i) only rs =
     Some (JObj [(''id'', JInt i), (''name'', opt_json (power_name p)), (''description'', opt_json (description p))])"
  by (auto simp: to_dict_def numeral_3_eq_3 ser_model_Suc schema_of_def schema_update_def is_included_def)

lemma to_dict_hero_flat:
  "tbl_get (heroes d) i = Some h \<Longrightarrow>
   to_dict 3 d (EHero i) [''id'', ''name'', ''super_name''] [] =
     Some (JObj [(''id'', JInt i), (''name'', opt_json (hero_name h)), (''super_name'', opt_json (super_name h))])"
  by (simp add: to_dict_def numeral_3_eq_3 ser_model_Suc schema_of_def schema_update_def is_included_def)

subsection \<open>Properties of the read routes\<close>

text \<open>
  C16: \<open>GET /heroes/<id>\<close> ends in OverflowError (500) when the id does not fit the
  64-bit parameter of the \<open>SELECT\<close>; otherwise it answers 404 with
  \<open>{"error": "Hero not found"}\<close> exactly when no hero has the id, and 200 with the
  hero's serialization, which always exists.
\<close>

theorem get_hero_response:
  "get_hero d i =
     (if \<not> int64_fits i then Crash OverflowError else
      case tbl_get (heroes d) i of
        None \<Rightarrow> Resp (Json (JObj [(''error'', JStr ''Hero not found'')])) 404
      | Some _ \<Rightarrow> Resp (Json (the (to_dict 3 d (EHero i) [] [''-hero_powers.hero'']))) 200)"
  by (cases "int64_fits i") (simp_all add: get_hero_def not_found_def json_response_to_dict split: option.splits)

text \<open>
  C17: \<open>GET /powers/<id>\<close> ends in OverflowError (500) for an id outside 64 bits, answers
  404 with \<open>{"error": "Power not found"}\<close> when no power has the id, and otherwise 200 with exactly \<open>id\<close>, \<open>name\<close> and \<open>description\<close>: the
  rule \<open>-hero_powers\<close> drops the relationship, so no hero of the power is listed.
\<close>

theorem get_power_response:
  "get_power d i =
     (if \<not> int64_fits i then Crash OverflowError else
      case tbl_get (powers d) i of
        None \<Rightarrow> Resp (Json (JObj [(''error'', JStr ''Power not found'')])) 404
      | Some p \<Rightarrow> Resp (Json (JObj [(''id'', JInt i), (''name'', opt_json (power_name p)),
                                    (''description'', opt_json (description p))])) 200)"
  by (cases "int64_fits i")
     (simp_all add: get_power_def not_found_def json_response_to_dict to_dict_power_flat split: option.splits)

text \<open>
  \<open>GET /heroes\<close> answers 200 with one flat object per hero, in row order, holding
  exactly \<open>id\<close>, \<open>name\<close> and \<open>super_name\<close>.
\<close>

theorem get_heroes_flat:
  "tbl_wf (heroes d) \<Longrightarrow>
   get_heroes d = Resp (Json (JList (map (\<lambda>(i, h). JObj [(''id'', JInt i), (''name'', opt_json (hero_name h)),
                                                      (''super_name'', opt_json (super_name h))])
                                   (heroes d)))) 200"
proof -
  assume wf: "tbl_wf (heroes d)"
  have "those (map (\<lambda>(i, _). to_dict recursion_budget d (EHero i) [''id'', ''name'', ''super_name''] [])
                   (heroes d)) =
        Some (map (\<lambda>(i, h). JObj [(''id'', JInt i), (''name'', opt_json (hero_name h)),
                                 (''super_name'', opt_json (super_name h))]) (heroes d))"
  proof (rule those_map_Some_all)
    fix x
    assume x: "x \<in> set (heroes d)"
    obtain i h where xi: "x = (i, h)" by (cases x)
    with x wf have "tbl_get (heroes d) i = Some h" by (simp add: tbl_in_set_get)
    with xi show "(case x of (i, _) \<Rightarrow> to_dict recursion_budget d (EHero i) [''id'', ''name'', ''super_name''] []) =
        Some (case x of (i, h) \<Rightarrow> JObj [(''id'', JInt i), (''name'', opt_json (hero_name h)),
                                       (''super_name'', opt_json (super_name h))])"
      by (simp add: to_dict_3 [OF recursion_budget_ge] to_dict_hero_flat)
  qed
  then show ?thesis by (simp add: get_heroes_def)
qed

theorem get_heroes_flat_witness:
  "tbl_wf (heroes sample_db) \<and>
   get_heroes sample_db =
     Resp (Json (JList [JObj [(''id'', JInt 1), (''name'', JStr ''Kamala Khan''),
                              (''super_name'', JStr ''Ms. Marvel'')]])) 200"
proof -
  have wf: "tbl_wf (heroes sample_db)" by (simp add: sample_db_def tbl_wf_def)
  show ?thesis using wf get_heroes_flat [OF wf] by (simp add: sample_db_def opt_json_def)
qed

text \<open>
  In the answer of \<open>GET /heroes/<id>\<close> no element of \<open>hero_powers\<close> carries a
  \<open>hero\<close> field: the serialization does not cycle back to the hero.
\<close>

theorem get_hero_no_cycle:
  assumes "get_hero d h = Resp (Json (JObj kvs)) 200"
    and "(''hero_powers'', v) \<in> set kvs" and "x \<in> set (case v of JList xs \<Rightarrow> xs | _ \<Rightarrow> [])"
  shows "''hero'' \<notin> set (json_keys x)"
proof -
  from assms(1) have "to_dict recursion_budget d (EHero h) [] [''-hero_powers.hero''] = Some (JObj kvs)"
    by (auto simp: get_hero_def query_get_eq not_found_def json_response_def split: option.splits if_splits)
  then show ?thesis using assms(2,3) unfolding to_dict_def by (rule hero_no_back_ref)
qed

theorem get_hero_no_cycle_witness:
  "get_hero sample_db 1 =
     Resp (Json (JObj [(''id'', JInt 1), (''name'', JStr ''Kamala Khan''), (''super_name'', JStr ''Ms. Marvel''),
                       (''hero_powers'', JList [JObj [(''id'', JInt 1), (''strength'', JStr ''Strong''), (''hero_id'', JInt 1), (''power_id'', JInt 1),
              (''power'', JObj [(''id'', JInt 1), (''name'', JStr ''super strength''),
                               (''description'', JStr ''gives the wielder super-human strengths'')])]])])) 200 \<and>
   ''hero'' \<notin> set (json_keys (JObj [(''id'', JInt 1), (''strength'', JStr ''Strong''), (''hero_id'', JInt 1), (''power_id'', JInt 1),
              (''power'', JObj [(''id'', JInt 1), (''name'', JStr ''super strength''),
                               (''description'', JStr ''gives the wielder super-human strengths'')])]))"
proof -
  have eq: "get_hero sample_db 1 =
     Resp (Json (JObj [(''id'', JInt 1), (''name'', JStr ''Kamala Khan''), (''super_name'', JStr ''Ms. Marvel''),
                       (''hero_powers'', JList [JObj [(''id'', JInt 1), (''strength'', JStr ''Strong''), (''hero_id'', JInt 1), (''power_id'', JInt 1),
              (''power'', JObj [(''id'', JInt 1), (''name'', JStr ''super strength''),
                               (''description'', JStr ''gives the wielder super-human strengths'')])]])])) 200"
  proof -
    have "tbl_get (heroes sample_db) 1 \<noteq> None" by (simp add: sample_db_def store_simps)
    then have "get_hero sample_db 1 =
        Resp (Json (the (to_dict 3 sample_db (EHero 1) [] [''-hero_powers.hero'']))) 200"
      by (auto simp: get_hero_def json_response_to_dict int64_fits_def)
    then show ?thesis
      by (simp add: sample_db_def to_dict_def numeral_3_eq_3 ser_model_Suc schema_of_def
          schema_update_def is_included_def fork_def hero_hero_powers_def power_hero_powers_def
          store_simps opt_json_def List.map_filter_simps)
  qed
  show ?thesis
    using eq get_hero_no_cycle [OF eq, of "JList [JObj [(''id'', JInt 1), (''strength'', JStr ''Strong''), (''hero_id'', JInt 1), (''power_id'', JInt 1),
              (''power'', JObj [(''id'', JInt 1), (''name'', JStr ''super strength''),
                               (''description'', JStr ''gives the wielder super-human strengths'')])]]" "JObj [(''id'', JInt 1), (''strength'', JStr ''Strong''), (''hero_id'', JInt 1), (''power_id'', JInt 1),
              (''power'', JObj [(''id'', JInt 1), (''name'', JStr ''super strength''),
                               (''description'', JStr ''gives the wielder super-human strengths'')])]"] by simp
qed

subsection \<open>Properties of the write routes\<close>

text \<open>
  C3: \<open>PATCH /powers/<id>\<close> with a description shorter than 20 characters answers 400
  with \<open>{"errors": ["validation errors"]}\<close> and leaves the database unchanged.
\<close>

theorem update_power_short_description:
  assumes "tbl_get (powers d) pid \<noteq> None" and "map_of (rev kvs) ''description'' = Some (JStr s)"
    and "length s < 20" and "int64_fits pid"
  shows "update_power d pid (JsonBody (JObj kvs)) =
           (Resp (Json (JObj [(''errors'', JList [JStr ''validation errors''])])) 400, d)"
proof -
  obtain q where "tbl_get (powers d) pid = Some q" using assms(1) by auto
  with py_getitem_obj [OF assms(2)] assms(3,4) show ?thesis
    by (simp add: update_power_def validate_description_str description_error_def
        except_value_error_def validation_errors_def)
qed

theorem update_power_short_description_witness:
  "tbl_get (powers sample_db) 1 \<noteq> None \<and> map_of (rev [(''description'', JStr ''too short'')]) ''description'' = Some (JStr ''too short'') \<and>
   length ''too short'' < 20 \<and> int64_fits 1 \<and>
   update_power sample_db 1 (JsonBody (JObj [(''description'', JStr ''too short'')])) =
     (Resp (Json (JObj [(''errors'', JList [JStr ''validation errors''])])) 400, sample_db)"
proof -
  have h1: "tbl_get (powers sample_db) 1 \<noteq> None" by (simp add: sample_db_def store_simps)
  have h2: "map_of (rev [(''description'', JStr ''too short'')]) ''description'' = Some (JStr ''too short'')" by simp
  have h3: "length ''too short'' < 20" by simp
  have h4: "int64_fits 1" by (simp add: int64_fits_def)
  show ?thesis using h1 h2 h3 h4 update_power_short_description [OF h1 h2 h3 h4] by simp
qed

text \<open>
  C4: \<open>PATCH /powers/<id>\<close> with a description of at least 20 characters stores it, changes
  nothing else, and answers 200 with the updated power's serialization.
\<close>

theorem update_power_stores_description:
  assumes "tbl_get (powers d) pid = Some p" and "map_of (rev kvs) ''description'' = Some (JStr s)"
    and "20 \<le> length s" and "int64_fits pid"
  shows "let d' = d\<lparr>powers := tbl_update pid (\<lambda>q. q\<lparr>description := Some s\<rparr>) (powers d)\<rparr> in
           update_power d pid (JsonBody (JObj kvs)) = (Resp (Json (the (to_dict 3 d' (EPower pid) [] []))) 200, d') \<and>
           tbl_get (powers d') pid = Some (p\<lparr>description := Some s\<rparr>)"
  using assms py_getitem_obj [OF assms(2)]
  by (simp add: update_power_def validate_description_str flush_description_def
      json_response_to_dict tbl_get_update Let_def)

theorem update_power_stores_description_witness:
  "tbl_get (powers sample_db) 1 = Some \<lparr>power_name = Some ''super strength'', description = Some ''gives the wielder super-human strengths''\<rparr> \<and>
   map_of (rev [(''description'', JStr ''This is a valid description.'')]) ''description'' = Some (JStr ''This is a valid description.'') \<and>
   20 \<le> length ''This is a valid description.'' \<and> int64_fits 1 \<and>
   tbl_get (powers (snd (update_power sample_db 1 (JsonBody (JObj [(''description'', JStr ''This is a valid description.'')]))))) 1 =
     Some \<lparr>power_name = Some ''super strength'', description = Some ''This is a valid description.''\<rparr>"
proof -
  have h1: "tbl_get (powers sample_db) 1 = Some \<lparr>power_name = Some ''super strength'', description = Some ''gives the wielder super-human strengths''\<rparr>"
    by (simp add: sample_db_def store_simps)
  have h2: "map_of (rev [(''description'', JStr ''This is a valid description.'')]) ''description'' = Some (JStr ''This is a valid description.'')"
    by simp
  have h3: "20 \<le> length ''This is a valid description.''" by simp
  have h4: "int64_fits 1" by (simp add: int64_fits_def)
  show ?thesis using h1 h2 h3 h4 update_power_stores_description [OF h1 h2 h3 h4] by (simp add: Let_def)
qed

text \<open>
  C25: \<open>PATCH /powers/<id>\<close> with a non-zero integer as description is not answered with
  400: \<open>len()\<close> of an \<open>int\<close> raises TypeError, which the \<open>except ValueError\<close> does not
  catch, so the request fails with status 500 (and changes nothing).
\<close>

theorem update_power_int_description_crashes:
  "tbl_get (powers d) pid \<noteq> None \<Longrightarrow> i \<noteq> 0 \<Longrightarrow> int64_fits pid \<Longrightarrow>
   update_power d pid (JsonBody (JObj [(''description'', JInt i)])) = (Crash TypeError, d)"
  by (auto simp: update_power_def validate_description_def except_value_error_def)

theorem update_power_int_description_crashes_witness:
  "tbl_get (powers sample_db) 1 \<noteq> None \<and> (12345 :: int) \<noteq> 0 \<and> int64_fits 1 \<and>
   update_power sample_db 1 (JsonBody (JObj [(''description'', JInt 12345)])) = (Crash TypeError, sample_db)"
proof -
  have h1: "tbl_get (powers sample_db) 1 \<noteq> None" by (simp add: sample_db_def store_simps)
  have h2: "(12345 :: int) \<noteq> 0" by simp
  have h3: "int64_fits 1" by (simp add: int64_fits_def)
  show ?thesis using h1 h2 h3 update_power_int_description_crashes [OF h1 h2 h3] by simp
qed

text \<open>
  C5: \<open>POST /hero_powers\<close> with all three keys and a strength other than \<open>"Strong"\<close>,
  \<open>"Weak"\<close>, \<open>"Average"\<close> answers 400 and creates no row.
\<close>

theorem create_invalid_strength:
  assumes "map_of (rev kvs) ''strength'' = Some v" and "v \<notin> JStr ` set valid_strengths"
    and "map_of (rev kvs) ''hero_id'' \<noteq> None" and "map_of (rev kvs) ''power_id'' \<noteq> None"
  shows "create_hero_power cfg d (JsonBody (JObj kvs)) =
           (Resp (Json (JObj [(''errors'', JList [JStr ''validation errors''])])) 400, d)"
  using assms
  by (auto simp: create_hero_power_def new_hero_power_def validate_strength_def strength_error_def
      except_value_error_def validation_errors_def)

theorem create_invalid_strength_witness:
  "map_of (rev [(''strength'', JStr ''Medium''), (''hero_id'', JInt 1), (''power_id'', JInt 1)]) ''strength'' = Some (JStr ''Medium'') \<and>
   JStr ''Medium'' \<notin> JStr ` set valid_strengths \<and>
   map_of (rev [(''strength'', JStr ''Medium''), (''hero_id'', JInt 1), (''power_id'', JInt 1)]) ''hero_id'' \<noteq> None \<and>
   map_of (rev [(''strength'', JStr ''Medium''), (''hero_id'', JInt 1), (''power_id'', JInt 1)]) ''power_id'' \<noteq> None \<and>
   create_hero_power sqlite_default sample_db (JsonBody (JObj [(''strength'', JStr ''Medium''), (''hero_id'', JInt 1), (''power_id'', JInt 1)])) =
     (Resp (Json (JObj [(''errors'', JList [JStr ''validation errors''])])) 400, sample_db)"
proof -
  let ?kvs = "[(''strength'', JStr ''Medium''), (''hero_id'', JInt 1), (''power_id'', JInt 1)]"
  have h1: "map_of (rev ?kvs) ''strength'' = Some (JStr ''Medium'')" by simp
  have h2: "JStr ''Medium'' \<notin> JStr ` set valid_strengths" by (auto simp: valid_strengths_def)
  have h3: "map_of (rev ?kvs) ''hero_id'' \<noteq> None" by simp
  have h4: "map_of (rev ?kvs) ''power_id'' \<noteq> None" by simp
  show ?thesis using h1 h2 h3 h4 create_invalid_strength [OF h1 h2 h3 h4, of sqlite_default sample_db]
    by simp
qed

text \<open>
  C26: the subscripts \<open>data["hero_id"]\<close> and \<open>data["power_id"]\<close> run before the strength
  validator: a body without \<open>hero_id\<close> fails with an uncaught KeyError (status 500),
  whatever its strength, and creates nothing.
\<close>

theorem create_missing_key_before_validation:
  "map_of (rev kvs) ''strength'' \<noteq> None \<Longrightarrow> map_of (rev kvs) ''hero_id'' = None \<Longrightarrow>
   create_hero_power cfg d (JsonBody (JObj kvs)) = (Crash (KeyError ''hero_id''), d)"
  by (auto simp: create_hero_power_def except_value_error_def)

theorem create_missing_key_before_validation_witness:
  "map_of (rev [(''strength'', JStr ''Medium''), (''power_id'', JInt 1)]) ''strength'' \<noteq> None \<and>
   map_of (rev [(''strength'', JStr ''Medium''), (''power_id'', JInt 1)]) ''hero_id'' = None \<and>
   create_hero_power sqlite_default sample_db (JsonBody (JObj [(''strength'', JStr ''Medium''), (''power_id'', JInt 1)])) =
     (Crash (KeyError ''hero_id''), sample_db)"
proof -
  let ?kvs = "[(''strength'', JStr ''Medium''), (''power_id'', JInt 1)]"
  have h1: "map_of (rev ?kvs) ''strength'' \<noteq> None" by simp
  have h2: "map_of (rev ?kvs) ''hero_id'' = None" by simp
  show ?thesis using h1 h2 create_missing_key_before_validation [OF h1 h2, of sqlite_default sample_db]
    by simp
qed

text \<open>
  C6: \<open>POST /hero_powers\<close> with a valid strength and integer ids appends one row, with the
  next row id, and answers 200 with its serialization. Unless the database enforces
  foreign keys, the ids need not name existing rows.
\<close>

theorem create_hero_power_ok:
  assumes "map_of (rev kvs) ''strength'' = Some (JStr s)" and "s \<in> set valid_strengths"
    and "map_of (rev kvs) ''hero_id'' = Some (JInt h)" and "map_of (rev kvs) ''power_id'' = Some (JInt p)"
    and "\<not> fk_enforced cfg \<or> (h \<in> tbl_ids (heroes d) \<and> p \<in> tbl_ids (powers d))"
    and "int64_fits h" and "int64_fits p"
  shows "let i = tbl_new_rowid (hero_powers d);
             d' = d\<lparr>hero_powers := hero_powers d @ [(i, \<lparr>strength = s, hero_id = SqlInt h, power_id = SqlInt p\<rparr>)]\<rparr>
         in create_hero_power cfg d (JsonBody (JObj kvs)) =
              (Resp (Json (the (to_dict 3 d' (EHeroPower i) [] [''-hero.hero_powers'', ''-power.hero_powers'']))) 200, d')"
  using assms
  by (auto simp: create_hero_power_def new_hero_power_def validate_strength_def insert_hero_power_def
      tbl_insert_def json_response_to_dict Let_def tbl_ids_get)

theorem create_hero_power_ok_witness:
  "map_of (rev [(''strength'', JStr ''Strong''), (''hero_id'', JInt 1), (''power_id'', JInt 1)]) ''strength'' = Some (JStr ''Strong'') \<and>
   ''Strong'' \<in> set valid_strengths \<and>
   map_of (rev [(''strength'', JStr ''Strong''), (''hero_id'', JInt 1), (''power_id'', JInt 1)]) ''hero_id'' = Some (JInt 1) \<and>
   map_of (rev [(''strength'', JStr ''Strong''), (''hero_id'', JInt 1), (''power_id'', JInt 1)]) ''power_id'' = Some (JInt 1) \<and>
   \<not> fk_enforced sqlite_default \<and> int64_fits 1 \<and>
   snd (create_hero_power sqlite_default sample_db
          (JsonBody (JObj [(''strength'', JStr ''Strong''), (''hero_id'', JInt 1), (''power_id'', JInt 1)]))) =
     sample_db\<lparr>hero_powers := hero_powers sample_db @ [(2, \<lparr>strength = ''Strong'', hero_id = SqlInt 1, power_id = SqlInt 1\<rparr>)]\<rparr>"
proof -
  let ?kvs = "[(''strength'', JStr ''Strong''), (''hero_id'', JInt 1), (''power_id'', JInt 1)]"
  have h1: "map_of (rev ?kvs) ''strength'' = Some (JStr ''Strong'')" by simp
  have h2: "''Strong'' \<in> set valid_strengths" by (simp add: valid_strengths_def)
  have h3: "map_of (rev ?kvs) ''hero_id'' = Some (JInt 1)" by simp
  have h4: "map_of (rev ?kvs) ''power_id'' = Some (JInt 1)" by simp
  have h5: "\<not> fk_enforced sqlite_default \<or> (1 \<in> tbl_ids (heroes sample_db) \<and> 1 \<in> tbl_ids (powers sample_db))"
    by (simp add: sqlite_default_def)
  have "tbl_new_rowid (hero_powers sample_db) = 2" by (simp add: sample_db_def store_simps)
  moreover have "\<not> fk_enforced sqlite_default" by (simp add: sqlite_default_def)
  moreover have h6: "int64_fits 1" by (simp add: int64_fits_def)
  ultimately show ?thesis using h1 h2 h3 h4 create_hero_power_ok [OF h1 h2 h3 h4 h5 h6 h6]
    by (simp add: Let_def)
qed

lemma create_hero_power_200:
  "create_hero_power cfg d data = (Resp (Json j) 200, d') \<Longrightarrow>
   \<exists>i. to_dict recursion_budget d' (EHeroPower i) [] [''-hero.hero_powers'', ''-power.hero_powers''] = Some j"
  by (fastforce simp: create_hero_power_def except_value_error_def validation_errors_def json_response_def
      split: sum.splits option.splits if_splits)

text \<open>
  In the answer of \<open>POST /hero_powers\<close>, the nested \<open>hero\<close> and \<open>power\<close> objects carry
  no \<open>hero_powers\<close> field: the serialization does not cycle back to the join row.
\<close>

theorem create_response_no_cycle:
  assumes "create_hero_power cfg d data = (Resp (Json (JObj kvs)) 200, d')"
    and "(k, v) \<in> set kvs" and "k \<in> {''hero'', ''power''}"
  shows "''hero_powers'' \<notin> set (json_keys v)"
proof -
  from create_hero_power_200 [OF assms(1)] obtain i where
    "to_dict recursion_budget d' (EHeroPower i) [] [''-hero.hero_powers'', ''-power.hero_powers''] = Some (JObj kvs)"
    by blast
  then show ?thesis using assms(2,3) unfolding to_dict_def by (rule hero_power_no_back_ref)
qed

theorem create_response_no_cycle_witness:
  "create_hero_power sqlite_default sample_db
     (JsonBody (JObj [(''strength'', JStr ''Strong''), (''hero_id'', JInt 1), (''power_id'', JInt 1)])) =
     (Resp (Json (JObj [(''id'', JInt 2), (''strength'', JStr ''Strong''), (''hero_id'', JInt 1), (''power_id'', JInt 1),
        (''hero'', JObj [(''id'', JInt 1), (''name'', JStr ''Kamala Khan''), (''super_name'', JStr ''Ms. Marvel'')]),
        (''power'', JObj [(''id'', JInt 1), (''name'', JStr ''super strength''),
                         (''description'', JStr ''gives the wielder super-human strengths'')])])) 200,
      sample_db\<lparr>hero_powers := hero_powers sample_db @ [(2, \<lparr>strength = ''Strong'', hero_id = SqlInt 1, power_id = SqlInt 1\<rparr>)]\<rparr>) \<and>
   ''hero_powers'' \<notin> set (json_keys (JObj [(''id'', JInt 1), (''name'', JStr ''Kamala Khan''), (''super_name'', JStr ''Ms. Marvel'')]))"
proof -
  let ?d' = "sample_db\<lparr>hero_powers := hero_powers sample_db @ [(2, \<lparr>strength = ''Strong'', hero_id = SqlInt 1, power_id = SqlInt 1\<rparr>)]\<rparr>"
  let ?kvs = "[(''id'', JInt 2), (''strength'', JStr ''Strong''), (''hero_id'', JInt 1), (''power_id'', JInt 1),
        (''hero'', JObj [(''id'', JInt 1), (''name'', JStr ''Kamala Khan''), (''super_name'', JStr ''Ms. Marvel'')]),
        (''power'', JObj [(''id'', JInt 1), (''name'', JStr ''super strength''),
                         (''description'', JStr ''gives the wielder super-human strengths'')])]"
  have eq: "create_hero_power sqlite_default sample_db
     (JsonBody (JObj [(''strength'', JStr ''Strong''), (''hero_id'', JInt 1), (''power_id'', JInt 1)])) =
     (Resp (Json (JObj ?kvs)) 200, ?d')"
  proof -
    have "create_hero_power sqlite_default sample_db
            (JsonBody (JObj [(''strength'', JStr ''Strong''), (''hero_id'', JInt 1), (''power_id'', JInt 1)])) =
          (Resp (Json (the (to_dict 3 ?d' (EHeroPower 2) [] [''-hero.hero_powers'', ''-power.hero_powers'']))) 200, ?d')"
      by (simp add: create_hero_power_def new_hero_power_def validate_strength_def valid_strengths_def
          insert_hero_power_def sqlite_default_def tbl_insert_def json_response_to_dict sample_db_def
          store_simps int64_fits_def)
    then show ?thesis
      by (simp add: sample_db_def to_dict_def numeral_3_eq_3 ser_model_Suc schema_of_def
          schema_update_def is_included_def fork_def store_simps opt_json_def List.map_filter_simps)
  qed
  have "(''hero'', JObj [(''id'', JInt 1), (''name'', JStr ''Kamala Khan''), (''super_name'', JStr ''Ms. Marvel'')]) \<in> set ?kvs"
    by simp
  moreover have "''hero'' \<in> {''hero'', ''power''}" by simp
  ultimately show ?thesis using eq create_response_no_cycle [OF eq] by blast
qed

text \<open>
  C2: a request that is not answered with 200 leaves the database as it was: nothing is
  committed on an error path, and no write is followed by a failing serialization.
\<close>

theorem failed_request_changes_nothing:
  "handle cfg d r = (resp, d') \<Longrightarrow> status resp \<noteq> 200 \<Longrightarrow> d' = d"
  by (cases r)
    (auto simp: update_power_def create_hero_power_def json_response_to_dict
      split: option.splits sum.splits bool.splits prod.splits)

theorem failed_request_changes_nothing_witness:
  "handle sqlite_default sample_db (PatchPower 1 (JsonBody (JObj [(''description'', JStr ''too short'')]))) =
     (validation_errors, sample_db) \<and> status validation_errors \<noteq> 200"
proof -
  have eq: "handle sqlite_default sample_db (PatchPower 1 (JsonBody (JObj [(''description'', JStr ''too short'')]))) =
     (validation_errors, sample_db)"
    by (simp add: update_power_def sample_db_def store_simps validate_description_str
        description_error_def except_value_error_def int64_fits_def)
  have "status validation_errors \<noteq> 200" by (simp add: validation_errors_def)
  with eq failed_request_changes_nothing [OF eq] show ?thesis by simp
qed

subsection \<open>Reachable databases\<close>

lemma update_power_writes:
  "update_power d pid data = (resp, d') \<Longrightarrow>
   d' = d \<or> (\<exists>v v'. validate_description v = Inr v' \<and> flush_description pid v' d = Inr d')"
  by (auto simp: update_power_def query_get_eq split: option.splits sum.splits bool.splits if_splits)

lemma create_hero_power_writes:
  "create_hero_power cfg d data = (resp, d') \<Longrightarrow>
   d' = d \<or> (\<exists>s h p obj i. new_hero_power s h p = Inr obj \<and> insert_hero_power cfg obj d = Inr (i, d'))"
  by (auto simp: create_hero_power_def split: sum.splits prod.splits)

lemma handle_writes:
  assumes "handle cfg d r = (resp, d')"
  shows "d' = d \<or> (\<exists>pid v v'. validate_description v = Inr v' \<and> flush_description pid v' d = Inr d') \<or>
   (\<exists>s h p obj i. new_hero_power s h p = Inr obj \<and> insert_hero_power cfg obj d = Inr (i, d'))"
proof (cases r)
  case (PatchPower i data)
  with assms update_power_writes [of d "int i" data resp d'] show ?thesis by auto
next
  case (PostHeroPower data)
  with assms create_hero_power_writes [of cfg d data resp d'] show ?thesis by auto
qed (use assms in simp_all)

lemma handle_db_wf: "handle cfg d r = (resp, d') \<Longrightarrow> db_wf d \<Longrightarrow> db_wf d'"
  by (blast dest: handle_writes intro: db_wf_flush_description db_wf_insert_hero_power)

lemma admin_step_db_wf:
  assumes "db_wf d" shows "db_wf (admin_step d a)"
proof (cases a)
  case (CreatePower n v)
  with assms show ?thesis
    by (auto split: sum.splits intro: db_wf_create_power)
qed (use assms in \<open>simp_all add: db_wf_create_hero db_wf_delete_hero db_wf_delete_power db_wf_delete_hero_power\<close>)

lemma fk_integrity_flush_description:
  assumes "flush_description pid v d = Inr d'" and "fk_integrity d" shows "fk_integrity d'"
  using flush_description_frame [OF assms(1)] by (intro fk_integrity_mono [OF assms(2)]) auto

lemma handle_fk_integrity:
  "fk_enforced cfg \<Longrightarrow> handle cfg d r = (resp, d') \<Longrightarrow> fk_integrity d \<Longrightarrow> fk_integrity d'"
  by (blast dest: handle_writes fk_integrity_insert_hero_power fk_integrity_flush_description)

lemma admin_step_fk_integrity:
  assumes "fk_integrity d" shows "fk_integrity (admin_step d a)"
proof (cases a)
  case (CreateHero n s)
  obtain i d' where c: "create_hero n s d = (i, d')" by fastforce
  with assms CreateHero show ?thesis
    using create_hero_grows [OF c] by (auto intro: fk_integrity_mono)
next
  case (CreatePower n v)
  show ?thesis
  proof (cases "create_power n v d")
    case (Inr r)
    then obtain i d' where c: "create_power n v d = Inr (i, d')" by (cases r) auto
    from create_power_grows [OF c] have "fk_integrity d'" by (intro fk_integrity_mono [OF assms]) auto
    with c CreatePower show ?thesis by simp
  qed (use assms CreatePower in simp)
next
  case (DeleteHeroPower i)
  have "fk_integrity (delete_hero_power i d)"
    by (rule fk_integrity_mono [OF assms]) (simp_all add: delete_hero_power_def set_tbl_delete)
  with DeleteHeroPower show ?thesis by simp
qed (use assms in \<open>simp_all add: fk_integrity_delete_hero fk_integrity_delete_power\<close>)

lemma db_wf_empty: "db_wf empty_db"
  by (simp add: db_wf_def empty_db_def tbl_wf_def)

lemma fk_integrity_empty: "fk_integrity empty_db"
  by (simp add: fk_integrity_def empty_db_def)

lemma db_wf_sample: "db_wf sample_db"
  by (simp add: db_wf_def sample_db_def tbl_wf_def power_ok_def hero_power_ok_def valid_strengths_def)

lemma sample_db_reachable: "reachable cfg sample_db"
proof -
  let ?d1 = "admin_step empty_db (CreateHero (Some ''Kamala Khan'') (Some ''Ms. Marvel''))"
  let ?d2 = "admin_step ?d1 (CreatePower (Some ''super strength'') (Some (JStr ''gives the wielder super-human strengths'')))"
  have r2: "reachable cfg ?d2" by (intro reachable.admin reachable.start)
  have "snd (handle cfg ?d2 (PostHeroPower (JsonBody (JObj [(''strength'', JStr ''Strong''), (''hero_id'', JInt 1), (''power_id'', JInt 1)]))))
        = sample_db"
    by (simp add: create_hero_power_def new_hero_power_def validate_strength_def valid_strengths_def
        insert_hero_power_def create_hero_def create_power_def validate_description_def empty_db_def
        sample_db_def store_simps json_response_to_dict int64_fits_def)
  then show ?thesis by (metis prod.collapse r2 reachable.request)
qed

text \<open>
  C1: every database the service reaches keeps the validators' invariants: each stored
  description has at least 20 characters, each strength is one of the three allowed
  values, and each table is sorted by distinct row ids.
\<close>

theorem reachable_db_wf: "reachable cfg d \<Longrightarrow> db_wf d"
  by (induction rule: reachable.induct) (auto intro: db_wf_empty handle_db_wf admin_step_db_wf)

theorem reachable_db_wf_witness: "reachable sqlite_default sample_db \<and> db_wf sample_db"
  using sample_db_reachable [of sqlite_default] reachable_db_wf [OF sample_db_reachable [of sqlite_default]]
  by simp

text \<open>
  C20: when the database enforces foreign keys, every reachable database has each join
  row's \<open>hero_id\<close> and \<open>power_id\<close> NULL or naming an existing row.
\<close>

theorem reachable_fk_integrity: "fk_enforced cfg \<Longrightarrow> reachable cfg d \<Longrightarrow> fk_integrity d"
proof -
  assume fk: "fk_enforced cfg"
  show "reachable cfg d \<Longrightarrow> fk_integrity d"
    by (induction rule: reachable.induct)
      (auto intro: fk_integrity_empty handle_fk_integrity [OF fk] admin_step_fk_integrity)
qed

theorem reachable_fk_integrity_witness:
  "fk_enforced \<lparr>fk_enforced = True\<rparr> \<and> reachable \<lparr>fk_enforced = True\<rparr> sample_db \<and> fk_integrity sample_db"
  using reachable_fk_integrity [of "\<lparr>fk_enforced = True\<rparr>" sample_db] sample_db_reachable by simp

lemma ref_integrity_append:
  "ref_integrity (d\<lparr>hero_powers := hero_powers d @ [(i, r)]\<rparr>) \<longleftrightarrow>
   ref_integrity d \<and> ref_get (heroes d) (hero_id r) \<noteq> None \<and> ref_get (powers d) (power_id r) \<noteq> None"
  by (auto simp: ref_integrity_def)

text \<open>
  C23: for every \<open>POST /hero_powers\<close> with a valid strength and keys that bind, on a
  database without orphans: the request succeeds exactly when foreign keys are not
  enforced or both keys pass the foreign-key check (where NULL passes), and the join table
  stays free of orphans exactly when the request fails or both keys name existing rows.
  So the default SQLite configuration stores a \<open>hero_id\<close> that names no hero, and even
  with enforced foreign keys a \<open>null\<close> key is stored, a row tied to no hero, against the
  data model's promise that every join row belongs to one hero and one power.
\<close>

theorem create_link_integrity:
  assumes "map_of (rev kvs) ''strength'' = Some (JStr s)" and "s \<in> set valid_strengths"
    and "map_of (rev kvs) ''hero_id'' = Some h" and "map_of (rev kvs) ''power_id'' = Some p"
    and "int_column h = Inr hv" and "int_column p = Inr pv" and "ref_integrity d"
  shows "(status (fst (create_hero_power cfg d (JsonBody (JObj kvs)))) = 200 \<longleftrightarrow>
            \<not> fk_enforced cfg \<or> (fk_admits (heroes d) hv \<and> fk_admits (powers d) pv)) \<and>
         (ref_integrity (snd (create_hero_power cfg d (JsonBody (JObj kvs)))) \<longleftrightarrow>
            status (fst (create_hero_power cfg d (JsonBody (JObj kvs)))) \<noteq> 200 \<or>
            (ref_get (heroes d) hv \<noteq> None \<and> ref_get (powers d) pv \<noteq> None))"
proof (cases "fk_enforced cfg \<and> \<not> (fk_admits (heroes d) hv \<and> fk_admits (powers d) pv)")
  case True
  with assms show ?thesis
    by (auto simp: create_hero_power_def new_hero_power_def validate_strength_def insert_hero_power_def
        except_value_error_def)
next
  case False
  with assms show ?thesis
    by (auto simp: create_hero_power_def new_hero_power_def validate_strength_def insert_hero_power_def
        tbl_insert_def Let_def json_response_to_dict ref_integrity_append)
qed

theorem create_link_integrity_witness:
  "map_of (rev [(''strength'', JStr ''Weak''), (''hero_id'', JNull), (''power_id'', JInt 1)]) ''strength'' = Some (JStr ''Weak'') \<and>
   ''Weak'' \<in> set valid_strengths \<and>
   map_of (rev [(''strength'', JStr ''Weak''), (''hero_id'', JNull), (''power_id'', JInt 1)]) ''hero_id'' = Some JNull \<and>
   map_of (rev [(''strength'', JStr ''Weak''), (''hero_id'', JNull), (''power_id'', JInt 1)]) ''power_id'' = Some (JInt 1) \<and>
   int_column JNull = Inr SqlNull \<and> int_column (JInt 1) = Inr (SqlInt 1) \<and> ref_integrity sample_db \<and>
   status (fst (create_hero_power \<lparr>fk_enforced = True\<rparr> sample_db
     (JsonBody (JObj [(''strength'', JStr ''Weak''), (''hero_id'', JNull), (''power_id'', JInt 1)])))) = 200 \<and>
   \<not> ref_integrity (snd (create_hero_power \<lparr>fk_enforced = True\<rparr> sample_db
     (JsonBody (JObj [(''strength'', JStr ''Weak''), (''hero_id'', JNull), (''power_id'', JInt 1)]))))"
proof -
  let ?kvs = "[(''strength'', JStr ''Weak''), (''hero_id'', JNull), (''power_id'', JInt 1)]"
  have h1: "map_of (rev ?kvs) ''strength'' = Some (JStr ''Weak'')" by simp
  have h2: "''Weak'' \<in> set valid_strengths" by (simp add: valid_strengths_def)
  have h3: "map_of (rev ?kvs) ''hero_id'' = Some JNull" by simp
  have h4: "map_of (rev ?kvs) ''power_id'' = Some (JInt 1)" by simp
  have h5: "int_column JNull = Inr SqlNull" by simp
  have h6: "int_column (JInt 1) = Inr (SqlInt 1)" by (simp add: int64_fits_def)
  have h7: "ref_integrity sample_db" by (simp add: ref_integrity_def sample_db_def store_simps)
  have f: "fk_admits (heroes sample_db) SqlNull \<and> fk_admits (powers sample_db) (SqlInt 1) \<and>
           ref_get (heroes sample_db) SqlNull = None"
    by (simp add: sample_db_def store_simps)
  from create_link_integrity [OF h1 h2 h3 h4 h5 h6 h7, of "\<lparr>fk_enforced = True\<rparr>"] f h1 h2 h3 h4 h5 h6 h7
  show ?thesis by simp
qed

text \<open>
  C24: when foreign keys are enforced, \<open>POST /hero_powers\<close> naming a hero that does not
  exist fails with the driver's IntegrityError, which the handler does not catch: the
  answer is 500, not the 400 of a validation error, and nothing is stored.
\<close>

theorem create_unknown_hero_crashes:
  assumes "fk_enforced cfg"
    and "map_of (rev kvs) ''strength'' = Some (JStr s)" and "s \<in> set valid_strengths"
    and "map_of (rev kvs) ''hero_id'' = Some (JInt h)" and "map_of (rev kvs) ''power_id'' = Some (JInt p)"
    and "h \<notin> tbl_ids (heroes d)" and "int64_fits h" and "int64_fits p"
  shows "create_hero_power cfg d (JsonBody (JObj kvs)) = (Crash IntegrityError, d)"
  using assms
  by (simp add: create_hero_power_def new_hero_power_def validate_strength_def insert_hero_power_def
      except_value_error_def tbl_ids_get)

theorem create_unknown_hero_crashes_witness:
  "create_hero_power \<lparr>fk_enforced = True\<rparr> sample_db
     (JsonBody (JObj [(''strength'', JStr ''Strong''), (''hero_id'', JInt 7), (''power_id'', JInt 1)])) =
   (Crash IntegrityError, sample_db)"
proof -
  let ?kvs = "[(''strength'', JStr ''Strong''), (''hero_id'', JInt 7), (''power_id'', JInt 1)]"
  have "fk_enforced \<lparr>fk_enforced = True\<rparr>" by simp
  moreover have "map_of (rev ?kvs) ''strength'' = Some (JStr ''Strong'')" by simp
  moreover have "''Strong'' \<in> set valid_strengths" by (simp add: valid_strengths_def)
  moreover have "map_of (rev ?kvs) ''hero_id'' = Some (JInt 7)" by simp
  moreover have "map_of (rev ?kvs) ''power_id'' = Some (JInt 1)" by simp
  moreover have "(7::int) \<notin> tbl_ids (heroes sample_db)" by (simp add: sample_db_def tbl_ids_def)
  moreover have "int64_fits 7" by (simp add: int64_fits_def)
  moreover have "int64_fits 1" by (simp add: int64_fits_def)
  ultimately show ?thesis by (rule create_unknown_hero_crashes)
qed

text \<open>
  C29: a JSON integer is unbounded, but the flush binds \<open>hero_id\<close> as a 64-bit SQLite
  parameter: a valid request whose \<open>hero_id\<close> does not fit ends in an uncaught
  OverflowError (500, not a 400 validation error) and stores nothing, whatever the
  foreign-key setting.
\<close>

theorem create_key_overflow:
  assumes "map_of (rev kvs) ''strength'' = Some (JStr s)" and "s \<in> set valid_strengths"
    and "map_of (rev kvs) ''hero_id'' = Some (JInt h)" and "map_of (rev kvs) ''power_id'' = Some p"
    and "\<not> int64_fits h"
  shows "create_hero_power cfg d (JsonBody (JObj kvs)) = (Crash OverflowError, d)"
  using assms
  by (simp add: create_hero_power_def new_hero_power_def validate_strength_def insert_hero_power_def
      except_value_error_def)

theorem create_key_overflow_witness:
  "\<not> int64_fits (2 ^ 63) \<and>
   create_hero_power \<lparr>fk_enforced = True\<rparr> sample_db
     (JsonBody (JObj [(''strength'', JStr ''Strong''), (''hero_id'', JInt (2 ^ 63)), (''power_id'', JInt 1)])) =
   (Crash OverflowError, sample_db)"
proof -
  let ?kvs = "[(''strength'', JStr ''Strong''), (''hero_id'', JInt (2 ^ 63)), (''power_id'', JInt 1)]"
  have "map_of (rev ?kvs) ''strength'' = Some (JStr ''Strong'')" by simp
  moreover have "''Strong'' \<in> set valid_strengths" by (simp add: valid_strengths_def)
  moreover have "map_of (rev ?kvs) ''hero_id'' = Some (JInt (2 ^ 63))" by simp
  moreover have "map_of (rev ?kvs) ''power_id'' = Some (JInt 1)" by simp
  moreover have f: "\<not> int64_fits (2 ^ 63)" by (simp add: int64_fits_def)
  ultimately have "create_hero_power \<lparr>fk_enforced = True\<rparr> sample_db (JsonBody (JObj ?kvs)) =
      (Crash OverflowError, sample_db)" by (rule create_key_overflow)
  with f show ?thesis by simp
qed

text \<open>
  \<open>hero_id\<close> and \<open>power_id\<close> are bound into \<open>Integer\<close> columns: what a \<open>POST\<close> does
  depends on a key's value only through the value the column stores.
\<close>

lemma insert_hero_power_keys:
  "int_column h = int_column h' \<Longrightarrow> int_column p = int_column p' \<Longrightarrow>
   insert_hero_power cfg (s, h, p) d = insert_hero_power cfg (s, h', p') d"
  unfolding insert_hero_power_def by (simp only: prod.case)

lemma create_hero_power_keys:
  assumes "int_column a = int_column b" and "k \<noteq> ''strength''"
  shows "create_hero_power cfg d (JsonBody (JObj (kvs @ [(k, a)]))) =
         create_hero_power cfg d (JsonBody (JObj (kvs @ [(k, b)])))"
  using assms insert_hero_power_keys [OF assms(1) refl] insert_hero_power_keys [OF refl assms(1)]
    insert_hero_power_keys [OF assms(1) assms(1)]
  by (auto simp: create_hero_power_def new_hero_power_def split: sum.splits option.splits)

text \<open>
  C27: \<open>hero_id\<close> and \<open>power_id\<close> are \<open>Integer\<close> columns, so SQLite's integer affinity
  stores a JSON string that is a decimal literal (\<open>"1"\<close>, \<open>"+1"\<close>, \<open>"007"\<close>) as that
  integer: for every request body, replacing the value of any key other than
  \<open>strength\<close> (the last occurrence wins, as in \<open>json.loads\<close>) by such a string instead
  of the 64-bit integer it denotes gives the same response and the same database.
\<close>

theorem string_keys_coerced:
  assumes "parse_int t = Some i" and "int64_fits i" and "k \<noteq> ''strength''"
  shows "create_hero_power cfg d (JsonBody (JObj (kvs @ [(k, JStr t)]))) =
         create_hero_power cfg d (JsonBody (JObj (kvs @ [(k, JInt i)])))"
proof -
  from assms(1,2) have "int_column (JStr t) = int_column (JInt i)" by simp
  then show ?thesis using assms(3) by (rule create_hero_power_keys)
qed

theorem string_keys_coerced_witness:
  "parse_int ''+1'' = Some 1 \<and> int64_fits 1 \<and> ''power_id'' \<noteq> ''strength'' \<and>
   create_hero_power \<lparr>fk_enforced = True\<rparr> sample_db
     (JsonBody (JObj ([(''strength'', JStr ''Strong''), (''hero_id'', JInt 1)] @ [(''power_id'', JStr ''+1'')]))) =
   create_hero_power \<lparr>fk_enforced = True\<rparr> sample_db
     (JsonBody (JObj ([(''strength'', JStr ''Strong''), (''hero_id'', JInt 1)] @ [(''power_id'', JInt 1)])))"
proof -
  have a: "parse_int ''+1'' = Some 1"
    by (simp add: parse_int_def parse_digits_def is_digit_def digits_value_def)
  have f: "int64_fits 1" by (simp add: int64_fits_def)
  have k: "''power_id'' \<noteq> ''strength''" by simp
  from string_keys_coerced [OF a f k] a f k show ?thesis by blast
qed

end
