(* ===== verification/Shapes.thy ===== *)
theory Shapes
  imports App
begin

text \<open>
  The shapes of the service's JSON answers. The specification's interface table gives
  each endpoint a shape, and its design notes describe the dotted exclusion rules as a
  hand-written projection per endpoint. Here the projections (\<open>hero_full_json\<close>,
  \<open>power_full_json\<close>, \<open>hero_power_json\<close>, ...) are the abstract specification of
  the answers, and \<open>project\<close> assigns one to each request. The lemmas compute what the
  generic \<open>to_dict\<close> of \<open>Serializer\<close> produces under the rules each route passes,
  and the claims show that every 200 answer of \<open>App.handle\<close> is its projection, and
  that a PATCH is read back by the next GET.
\<close>

subsection \<open>The projections of the specification\<close>

definition hero_row_json :: "rowid \<Rightarrow> hero \<Rightarrow> json" where
  "hero_row_json i h = JObj [(''id'', JInt i), (''name'', opt_json (hero_name h)), (''super_name'', opt_json (super_name h))]"

definition power_row_json :: "rowid \<Rightarrow> power \<Rightarrow> json" where
  "power_row_json i p = JObj [(''id'', JInt i), (''name'', opt_json (power_name p)), (''description'', opt_json (description p))]"

definition hero_ref_json :: "db \<Rightarrow> sqlval \<Rightarrow> json" where
  "hero_ref_json d v = (case ref_get (heroes d) v of None \<Rightarrow> JNull | Some (i, h) \<Rightarrow> hero_row_json i h)"

definition power_ref_json :: "db \<Rightarrow> sqlval \<Rightarrow> json" where
  "power_ref_json d v = (case ref_get (powers d) v of None \<Rightarrow> JNull | Some (i, p) \<Rightarrow> power_row_json i p)"

definition hp_fields :: "rowid \<Rightarrow> hero_power \<Rightarrow> (string \<times> json) list" where
  "hp_fields j hp = [(''id'', JInt j), (''strength'', JStr (strength hp)),
                     (''hero_id'', sql_json (hero_id hp)), (''power_id'', sql_json (power_id hp))]"

definition hero_full_json :: "db \<Rightarrow> rowid \<Rightarrow> hero \<Rightarrow> json" where
  "hero_full_json d i h =
     JObj [(''id'', JInt i), (''name'', opt_json (hero_name h)), (''super_name'', opt_json (super_name h)),
           (''hero_powers'', JList (map (\<lambda>(j, hp). JObj (hp_fields j hp @ [(''power'', power_ref_json d (power_id hp))]))
                                       (hero_hero_powers d i)))]"

definition power_full_json :: "db \<Rightarrow> rowid \<Rightarrow> power \<Rightarrow> json" where
  "power_full_json d i p =
     JObj [(''id'', JInt i), (''name'', opt_json (power_name p)), (''description'', opt_json (description p)),
           (''hero_powers'', JList (map (\<lambda>(j, hp). JObj (hp_fields j hp @ [(''hero'', hero_ref_json d (hero_id hp))]))
                                       (power_hero_powers d i)))]"

definition hero_power_json :: "db \<Rightarrow> rowid \<Rightarrow> hero_power \<Rightarrow> json" where
  "hero_power_json d j hp =
     JObj (hp_fields j hp @ [(''hero'', hero_ref_json d (hero_id hp)), (''power'', power_ref_json d (power_id hp))])"

fun project :: "db \<Rightarrow> request \<Rightarrow> json option" where
  "project d GetIndex = None"
| "project d GetHeroes = Some (JList (map (\<lambda>(i, h). hero_row_json i h) (heroes d)))"
| "project d (GetHero i) = map_option (hero_full_json d (int i)) (tbl_get (heroes d) (int i))"
| "project d GetPowers = Some (JList (map (\<lambda>(i, p). power_row_json i p) (powers d)))"
| "project d (GetPower i) = map_option (power_row_json (int i)) (tbl_get (powers d) (int i))"
| "project d (PatchPower i _) = map_option (power_full_json d (int i)) (tbl_get (powers d) (int i))"
| "project d (PostHeroPower _) =
     (case rev (hero_powers d) of [] \<Rightarrow> None | (j, hp) # _ \<Rightarrow> Some (hero_power_json d j hp))"

subsection \<open>What \<open>to_dict\<close> computes under the routes' rules\<close>

lemma ref_get_SomeD: "ref_get t v = Some (i, r) \<Longrightarrow> v = SqlInt i \<and> tbl_get t i = Some r"
  by (cases v) auto

lemma is_included_greedy:
  "only_keys s = None \<Longrightarrow> is_included (schema_update s rs) k \<longleftrightarrow> (True, [k]) \<notin> set (rules s) \<union> parse_rule ` set rs"
  by (simp add: is_included_def schema_update_def)

lemma ser_hero_ref:
  assumes "only_keys s = None" "set (rules s) = {(True, [''hero_powers''])}"
  shows "ser_value serialize_rules (Suc n) d s (ARef (map_option (EHero \<circ> fst) (ref_get (heroes d) v))) =
     Some (hero_ref_json d v)"
proof (cases "ref_get (heroes d) v")
  case None
  then show ?thesis by (simp add: hero_ref_json_def)
next
  case (Some r)
  obtain i h where r: "r = (i, h)" by (cases r)
  with Some have "tbl_get (heroes d) i = Some h" by (auto dest: ref_get_SomeD)
  with Some r show ?thesis
    by (simp add: hero_ref_json_def hero_row_json_def ser_model_Suc is_included_greedy [OF assms(1)] assms(2))
qed

lemma ser_power_ref:
  assumes "only_keys s = None" "set (rules s) = {(True, [''hero_powers''])}"
  shows "ser_value serialize_rules (Suc n) d s (ARef (map_option (EPower \<circ> fst) (ref_get (powers d) v))) =
     Some (power_ref_json d v)"
proof (cases "ref_get (powers d) v")
  case None
  then show ?thesis by (simp add: power_ref_json_def)
next
  case (Some r)
  obtain i p where r: "r = (i, p)" by (cases r)
  with Some have "tbl_get (powers d) i = Some p" by (auto dest: ref_get_SomeD)
  with Some r show ?thesis
    by (simp add: power_ref_json_def power_row_json_def ser_model_Suc is_included_greedy [OF assms(1)] assms(2))
qed

lemma only_keys_fork [simp]: "only_keys (fork s k) = None"
  by (simp add: fork_def)

lemma fork_rules_set:
  "set (rules (fork s k)) = {(b, p # ps) | b p ps. (b, k # p # ps) \<in> set (rules s)}"
proof -
  have "sub_rule k r = Some r' \<longleftrightarrow> (\<exists>b p ps. r = (b, k # p # ps) \<and> r' = (b, p # ps))" for r r'
    by (cases "(k, r)" rule: sub_rule.cases) auto
  then show ?thesis
  proof (auto simp: fork_def set_map_filter_iff)
    fix b p ps
    assume "(b, k # p # ps) \<in> set (rules s)"
    then show "\<exists>x \<in> set (rules s). sub_rule k x = Some (b, p # ps)"
      by (intro bexI [of _ "(b, k # p # ps)"]) simp_all
  qed
qed

text \<open>The forked rule sets are computed by \<open>simp\<close> alone.\<close>

lemma true_rules: "{(b, x) |b. b} = {(True, x)}"
  by auto

lemma ser_hp_in_hero:
  assumes "only_keys s = None" "set (rules s) = {(True, [''hero''])}"
    and "tbl_get (hero_powers d) j = Some hp"
  shows "ser_model serialize_rules (Suc (Suc n)) d s (EHeroPower j) =
           Some (JObj (hp_fields j hp @ [(''power'', power_ref_json d (power_id hp))]))"
proof -
  let ?s' = "schema_update s (serialize_rules KHeroPower)"
  have "set (rules (fork ?s' ''power'')) = {(True, [''hero_powers''])}"
    using assms(2) by (simp add: fork_rules_set schema_update_def true_rules)
  from ser_power_ref [OF only_keys_fork this] assms(3) show ?thesis
    by (simp add: ser_model_Suc is_included_greedy [OF assms(1)] assms(2) hp_fields_def)
qed

lemma ser_hp_in_power:
  assumes "only_keys s = None" "set (rules s) = {(True, [''power''])}"
    and "tbl_get (hero_powers d) j = Some hp"
  shows "ser_model serialize_rules (Suc (Suc n)) d s (EHeroPower j) =
           Some (JObj (hp_fields j hp @ [(''hero'', hero_ref_json d (hero_id hp))]))"
proof -
  let ?s' = "schema_update s (serialize_rules KHeroPower)"
  have "set (rules (fork ?s' ''hero'')) = {(True, [''hero_powers''])}"
    using assms(2) by (simp add: fork_rules_set schema_update_def true_rules)
  from ser_hero_ref [OF only_keys_fork this] assms(3) show ?thesis
    by (simp add: ser_model_Suc is_included_greedy [OF assms(1)] assms(2) hp_fields_def)
qed

lemma ser_hp_full:
  assumes "only_keys s = None" "set (rules s) \<subseteq> set (map parse_rule hero_power_serialize_rules)"
    and "tbl_get (hero_powers d) j = Some hp"
  shows "ser_model serialize_rules (Suc (Suc n)) d s (EHeroPower j) = Some (hero_power_json d j hp)"
proof -
  let ?s' = "schema_update s (serialize_rules KHeroPower)"
  have "set (rules ?s') = set (rules s) \<union> set (map parse_rule hero_power_serialize_rules)"
    by (simp add: schema_update_def)
  also have "\<dots> = set (map parse_rule hero_power_serialize_rules)"
    using assms(2) by (rule Un_absorb1)
  also have "\<dots> = {(True, [''hero'', ''hero_powers'']), (True, [''power'', ''hero_powers''])}"
    by (simp add: hero_power_serialize_rules_def)
  finally have r: "set (rules ?s') = {(True, [''hero'', ''hero_powers'']), (True, [''power'', ''hero_powers''])}" .
  have h: "set (rules (fork ?s' ''hero'')) = {(True, [''hero_powers''])}"
    and p: "set (rules (fork ?s' ''power'')) = {(True, [''hero_powers''])}"
    using r by (simp_all add: fork_rules_set true_rules)
  from ser_hero_ref [OF only_keys_fork h] ser_power_ref [OF only_keys_fork p] assms(3) r show ?thesis
    by (simp add: ser_model_Suc Let_def is_included_def schema_update_def assms(1) hero_power_json_def hp_fields_def)
qed

lemma in_hero_hero_powers:
  "tbl_wf (hero_powers d) \<Longrightarrow> (j, hp) \<in> set (hero_hero_powers d i) \<Longrightarrow> tbl_get (hero_powers d) j = Some hp"
  by (auto simp: hero_hero_powers_def tbl_select_def intro: tbl_in_set_get)

lemma in_power_hero_powers:
  "tbl_wf (hero_powers d) \<Longrightarrow> (j, hp) \<in> set (power_hero_powers d i) \<Longrightarrow> tbl_get (hero_powers d) j = Some hp"
  by (auto simp: power_hero_powers_def tbl_select_def intro: tbl_in_set_get)

lemma to_dict_hero_full:
  assumes "tbl_wf (hero_powers d)" and "tbl_get (heroes d) i = Some h"
  shows "to_dict 3 d (EHero i) [] [''-hero_powers.hero''] = Some (hero_full_json d i h)"
proof -
  let ?s = "fork (schema_update (schema_of [] [''-hero_powers.hero'']) [''-hero_powers.hero'']) ''hero_powers''"
  have s: "set (rules ?s) = {(True, [''hero''])}"
    by (auto simp: fork_rules_set schema_update_def schema_of_def)
  have "those (map (ser_model serialize_rules (Suc (Suc 0)) d ?s) (map (EHeroPower \<circ> fst) (hero_hero_powers d i))) =
        Some (map (\<lambda>(j, hp). JObj (hp_fields j hp @ [(''power'', power_ref_json d (power_id hp))])) (hero_hero_powers d i))"
    by (rule those_map_keys) (use assms(1) in \<open>auto intro!: ser_hp_in_hero [OF only_keys_fork s] in_hero_hero_powers\<close>)
  with assms(2) show ?thesis
    by (simp add: to_dict_def numeral_3_eq_3 ser_model_Suc is_included_greedy schema_of_def hero_full_json_def)
qed

lemma to_dict_power_full:
  assumes "tbl_wf (hero_powers d)" and "tbl_get (powers d) i = Some p"
  shows "to_dict 3 d (EPower i) [] [] = Some (power_full_json d i p)"
proof -
  let ?s = "fork (schema_update (schema_of [] []) [''-hero_powers.power'']) ''hero_powers''"
  have s: "set (rules ?s) = {(True, [''power''])}"
    by (auto simp: fork_rules_set schema_update_def schema_of_def)
  have "those (map (ser_model serialize_rules (Suc (Suc 0)) d ?s) (map (EHeroPower \<circ> fst) (power_hero_powers d i))) =
        Some (map (\<lambda>(j, hp). JObj (hp_fields j hp @ [(''hero'', hero_ref_json d (hero_id hp))])) (power_hero_powers d i))"
    by (rule those_map_keys) (use assms(1) in \<open>auto intro!: ser_hp_in_power [OF only_keys_fork s] in_power_hero_powers\<close>)
  with assms(2) show ?thesis
    by (simp add: to_dict_def numeral_3_eq_3 ser_model_Suc is_included_greedy schema_of_def power_full_json_def)
qed

lemma to_dict_hero_power:
  "tbl_get (hero_powers d) j = Some hp \<Longrightarrow>
   to_dict 3 d (EHeroPower j) [] [''-hero.hero_powers'', ''-power.hero_powers''] = Some (hero_power_json d j hp)"
  unfolding to_dict_def numeral_3_eq_3
  by (rule ser_hp_full) (auto simp: schema_of_def)

subsection \<open>Each route's answer is its projection\<close>

lemma get_heroes_rows:
  "tbl_wf (heroes d) \<Longrightarrow> get_heroes d = Resp (Json (JList (map (\<lambda>(i, h). hero_row_json i h) (heroes d)))) 200"
  unfolding get_heroes_def
  by (subst those_rows [where g = hero_row_json])
    (auto simp: to_dict_3 [OF recursion_budget_ge] to_dict_hero_flat tbl_in_set_get hero_row_json_def)

lemma get_powers_rows:
  "tbl_wf (powers d) \<Longrightarrow> get_powers d = Resp (Json (JList (map (\<lambda>(i, p). power_row_json i p) (powers d)))) 200"
  unfolding get_powers_def
  by (subst those_rows [where g = power_row_json])
    (auto simp: to_dict_3 [OF recursion_budget_ge] to_dict_power_flat tbl_in_set_get power_row_json_def)

lemma get_power_row:
  "int64_fits i \<Longrightarrow> tbl_get (powers d) i = Some p \<Longrightarrow>
   get_power d i = Resp (Json (power_row_json i p)) 200"
  by (simp add: get_power_def json_response_to_dict to_dict_power_flat power_row_json_def)

lemma get_hero_full:
  "tbl_wf (hero_powers d) \<Longrightarrow> int64_fits i \<Longrightarrow> tbl_get (heroes d) i = Some h \<Longrightarrow>
   get_hero d i = Resp (Json (hero_full_json d i h)) 200"
  by (simp add: get_hero_def json_response_to_dict to_dict_hero_full)

lemma update_power_full:
  assumes "tbl_wf (hero_powers d)" and "update_power d pid b = (Resp (Json j) 200, d')"
  shows "\<exists>p. tbl_get (powers d') pid = Some p \<and> j = power_full_json d' pid p"
proof -
  from assms(2) have "hero_powers d' = hero_powers d \<and> (\<exists>p. tbl_get (powers d') pid = Some p) \<and>
      j = the (to_dict 3 d' (EPower pid) [] [])"
    by (auto simp: update_power_def query_get_eq json_response_to_dict except_value_error_def
        validation_errors_def not_found_def flush_description_def tbl_get_update
        split: option.splits sum.splits bool.splits if_splits)
  with assms(1) show ?thesis by (auto simp: to_dict_power_full)
qed

lemma create_hero_power_full:
  assumes "create_hero_power cfg d b = (Resp (Json j) 200, d')"
  shows "\<exists>i hp. hero_powers d' = hero_powers d @ [(i, hp)] \<and> j = hero_power_json d' i hp"
proof -
  have fresh: "map_of (hero_powers d) (tbl_new_rowid (hero_powers d)) = None"
    using tbl_new_rowid_fresh [of "hero_powers d"] by (simp add: tbl_ids_get tbl_get_def)
  from assms obtain i hp where
    d': "hero_powers d' = hero_powers d @ [(i, hp)]" and j: "j = the (to_dict 3 d' (EHeroPower i) [] [''-hero.hero_powers'', ''-power.hero_powers''])"
    and g: "tbl_get (hero_powers d') i = Some hp"
    by (auto simp: create_hero_power_def insert_hero_power_def json_response_to_dict except_value_error_def
        validation_errors_def tbl_insert_def tbl_get_def Let_def fresh map_add_def
        split: sum.splits option.splits if_splits prod.splits)
  with to_dict_hero_power [OF g] show ?thesis by auto
qed

text \<open>An answer of 200 from a lookup route means the id was bound and names a row.\<close>

lemma get_hero_200: "get_hero d i = Resp b 200 \<Longrightarrow> int64_fits i \<and> tbl_get (heroes d) i \<noteq> None"
  by (auto simp: get_hero_def query_get_eq not_found_def split: if_splits option.splits)

lemma get_power_200: "get_power d i = Resp b 200 \<Longrightarrow> int64_fits i \<and> tbl_get (powers d) i \<noteq> None"
  by (auto simp: get_power_def query_get_eq not_found_def split: if_splits option.splits)

lemma update_power_200:
  "update_power d i body = (Resp b 200, d') \<Longrightarrow> int64_fits i \<and> tbl_get (powers d) i \<noteq> None"
  by (auto simp: update_power_def query_get_eq not_found_def split: if_splits option.splits)

lemma db_wf_tables: "db_wf d \<Longrightarrow> tbl_wf (heroes d) \<and> tbl_wf (powers d) \<and> tbl_wf (hero_powers d)"
  by (simp add: db_wf_def)

text \<open>
  C11: every answer of 200 with a JSON body is the hand-written projection of its endpoint
  applied to the database after the request: the generic serializer with the models'
  rules computes exactly the per-endpoint shapes of the specification's interface table.
\<close>

theorem handle_refines_projection:
  assumes "db_wf d" and "handle cfg d r = (Resp (Json j) 200, d')"
  shows "project d' r = Some j"
proof (cases r)
  case GetIndex
  with assms(2) show ?thesis by (simp add: index_def)
next
  case GetHeroes
  with assms show ?thesis by (auto simp: get_heroes_rows db_wf_tables)
next
  case (GetHero i)
  with assms(2) get_hero_200 [of d "int i"] obtain h
    where "int64_fits (int i)" "tbl_get (heroes d) (int i) = Some h" by auto
  with GetHero assms show ?thesis by (auto simp: get_hero_full db_wf_tables)
next
  case GetPowers
  with assms show ?thesis by (auto simp: get_powers_rows db_wf_tables)
next
  case (GetPower i)
  with assms(2) get_power_200 [of d "int i"] obtain p
    where "int64_fits (int i)" "tbl_get (powers d) (int i) = Some p" by auto
  with GetPower assms show ?thesis by (auto simp: get_power_row)
next
  case (PatchPower i b)
  with assms update_power_full [of d "int i" b j d'] show ?thesis by (auto simp: db_wf_tables)
next
  case (PostHeroPower b)
  with assms create_hero_power_full [of cfg d b j d'] show ?thesis by auto
qed

theorem handle_refines_projection_witness:
  "db_wf sample_db \<and>
   handle sqlite_default sample_db (GetPower 1) =
     (Resp (Json (power_row_json 1 (snd (hd (powers sample_db))))) 200, sample_db) \<and>
   project sample_db (GetPower 1) = Some (power_row_json 1 (snd (hd (powers sample_db))))"
proof -
  have h: "handle sqlite_default sample_db (GetPower 1) =
     (Resp (Json (power_row_json 1 (snd (hd (powers sample_db))))) 200, sample_db)"
    by (simp add: get_power_row sample_db_def store_simps int64_fits_def)
  from handle_refines_projection [OF db_wf_sample h] db_wf_sample h show ?thesis by simp
qed

text \<open>
  C18: a description written by a successful \<open>PATCH /powers/<id>\<close> is read back by the
  next \<open>GET /powers/<id>\<close>: the stored power carries exactly the string sent.
\<close>

theorem patch_then_get:
  assumes "update_power d pid (JsonBody (JObj kvs)) = (Resp b 200, d')"
    and "map_of (rev kvs) ''description'' = Some (JStr s)"
  shows "\<exists>p. tbl_get (powers d') pid = Some p \<and> description p = Some s \<and>
             get_power d' pid = Resp (Json (power_row_json pid p)) 200"
proof -
  from update_power_200 [OF assms(1)] obtain q
    where fits: "int64_fits pid" and q: "tbl_get (powers d) pid = Some q" by auto
  have "d' = d\<lparr>powers := tbl_update pid (\<lambda>p. p\<lparr>description := Some s\<rparr>) (powers d)\<rparr>"
    using assms q fits py_getitem_obj [OF assms(2)]
    by (auto simp: update_power_def validate_description_str description_error_def except_value_error_def
        validation_errors_def flush_description_def json_response_to_dict split: if_splits)
  then have "tbl_get (powers d') pid = Some (q\<lparr>description := Some s\<rparr>)" using q by (simp add: tbl_get_update)
  then show ?thesis using fits by (simp add: get_power_row)
qed

theorem patch_then_get_witness:
  "update_power sample_db 1 (JsonBody (JObj [(''description'', JStr ''This is a valid description.'')])) =
     (Resp (Json (power_full_json (sample_db\<lparr>powers := [(1, \<lparr>power_name = Some ''super strength'',
                                   description = Some ''This is a valid description.''\<rparr>)]\<rparr>) 1 \<lparr>power_name = Some ''super strength'', description = Some ''This is a valid description.''\<rparr>)) 200, (sample_db\<lparr>powers := [(1, \<lparr>power_name = Some ''super strength'',
                                   description = Some ''This is a valid description.''\<rparr>)]\<rparr>)) \<and>
   map_of (rev [(''description'', JStr ''This is a valid description.'')]) ''description'' =
     Some (JStr ''This is a valid description.'') \<and>
   get_power (sample_db\<lparr>powers := [(1, \<lparr>power_name = Some ''super strength'',
                                   description = Some ''This is a valid description.''\<rparr>)]\<rparr>) 1 = Resp (Json (JObj [(''id'', JInt 1), (''name'', JStr ''super strength''),
                                     (''description'', JStr ''This is a valid description.'')])) 200"
proof -
  let ?kvs = "[(''description'', JStr ''This is a valid description.'')]"
  have wf: "tbl_wf (hero_powers (sample_db\<lparr>powers := [(1, \<lparr>power_name = Some ''super strength'',
                                   description = Some ''This is a valid description.''\<rparr>)]\<rparr>))" by (simp add: sample_db_def tbl_wf_def)
  have g: "tbl_get (powers (sample_db\<lparr>powers := [(1, \<lparr>power_name = Some ''super strength'',
                                   description = Some ''This is a valid description.''\<rparr>)]\<rparr>)) 1 = Some \<lparr>power_name = Some ''super strength'', description = Some ''This is a valid description.''\<rparr>" by (simp add: store_simps)
  have u: "update_power sample_db 1 (JsonBody (JObj ?kvs)) = (Resp (Json (power_full_json (sample_db\<lparr>powers := [(1, \<lparr>power_name = Some ''super strength'',
                                   description = Some ''This is a valid description.''\<rparr>)]\<rparr>) 1 \<lparr>power_name = Some ''super strength'', description = Some ''This is a valid description.''\<rparr>)) 200, (sample_db\<lparr>powers := [(1, \<lparr>power_name = Some ''super strength'',
                                   description = Some ''This is a valid description.''\<rparr>)]\<rparr>))"
    using to_dict_power_full [OF wf g]
    by (simp add: update_power_def sample_db_def store_simps validate_description_str flush_description_def
        json_response_to_dict int64_fits_def)
  have s: "map_of (rev ?kvs) ''description'' = Some (JStr ''This is a valid description.'')" by simp
  from patch_then_get [OF u s] u s show ?thesis
    by (auto simp: store_simps power_row_json_def opt_json_def)
qed

end
