(* ===== verification/Routing.thy ===== *)
theory Routing
  imports App
begin

text \<open>
  The URL map that the \<open>@app.route\<close> decorators of \<open>src/server/app.py\<close> build, and
  werkzeug's matching of an incoming method and path against it. A path names an
  endpoint when it equals a rule, a rule's \<open><int:id>\<close> part being a non-empty run of
  decimal digits read with \<open>int()\<close>; rules have no trailing slash, so \<open>/heroes/\<close>
  matches nothing. A path that matches no rule is answered 404 by werkzeug, a known path
  with a method none of its rules accepts 405. Flask adds HEAD to every rule with GET
  (the GET view runs and the body is dropped) and answers OPTIONS itself. \<open>serve\<close> is
  the whole service: routing, then the view of \<open>App\<close>; \<open>serve_run\<close> answers a sequence
  of requests in order.
\<close>

datatype http_method = GET | HEAD | POST | PUT | PATCH | DELETE | OPTIONS

text \<open>The endpoints of the URL rules, with the converted \<open><int:id>\<close> argument.\<close>

datatype endpoint = EIndex | EHeroes | EHeroId nat | EPowers | EPowerId nat | EHeroPowers

definition match_url :: "string \<Rightarrow> endpoint option" where
  "match_url p =
     (if p = ''/'' then Some EIndex
      else if p = ''/heroes'' then Some EHeroes
      else if p = ''/powers'' then Some EPowers
      else if p = ''/hero_powers'' then Some EHeroPowers
      else (case strip_prefix ''/heroes/'' p of
              Some r \<Rightarrow> map_option EHeroId (parse_digits r)
            | None \<Rightarrow>
              (case strip_prefix ''/powers/'' p of
                 Some r \<Rightarrow> map_option EPowerId (parse_digits r)
               | None \<Rightarrow> None)))"

text \<open>The \<open>methods=\<close> of the rules of each endpoint (\<open>index\<close> has the default, GET).\<close>

fun view_methods :: "endpoint \<Rightarrow> http_method list" where
  "view_methods EIndex = [GET]"
| "view_methods EHeroes = [GET]"
| "view_methods (EHeroId _) = [GET]"
| "view_methods EPowers = [GET]"
| "view_methods (EPowerId _) = [GET, PATCH]"
| "view_methods EHeroPowers = [POST]"

definition allowed_methods :: "endpoint \<Rightarrow> http_method list" where
  "allowed_methods e =
     view_methods e @ (if GET \<in> set (view_methods e) then [HEAD] else []) @ [OPTIONS]"

datatype dispatch = View request | AutoOptions | RouteError nat

text \<open>The view function a method and path are dispatched to; HEAD runs the GET view.\<close>

definition route :: "http_method \<Rightarrow> string \<Rightarrow> req_body \<Rightarrow> dispatch" where
  "route m p b =
     (case match_url p of
        None \<Rightarrow> RouteError 404
      | Some e \<Rightarrow>
          if m \<notin> set (allowed_methods e) then RouteError 405
          else if m = OPTIONS then AutoOptions
          else (case e of
                  EIndex \<Rightarrow> View GetIndex
                | EHeroes \<Rightarrow> View GetHeroes
                | EHeroId i \<Rightarrow> View (GetHero i)
                | EPowers \<Rightarrow> View GetPowers
                | EPowerId i \<Rightarrow> View (if m = PATCH then PatchPower i b else GetPower i)
                | EHeroPowers \<Rightarrow> View (PostHeroPower b)))"

fun strip_body :: "response \<Rightarrow> response" where
  "strip_body (Resp _ c) = Resp (Html []) c"
| "strip_body r = r"

definition serve :: "config \<Rightarrow> db \<Rightarrow> http_method \<Rightarrow> string \<Rightarrow> req_body \<Rightarrow> response \<times> db" where
  "serve cfg d m p b =
     (case route m p b of
        RouteError c \<Rightarrow> (Crash (HTTPError c), d)
      | AutoOptions \<Rightarrow> (Resp (Html []) 200, d)
      | View r \<Rightarrow> (case handle cfg d r of (resp, d') \<Rightarrow> (if m = HEAD then strip_body resp else resp, d')))"

subsection \<open>Printing a request as a method, a path and a body\<close>

fun method_of :: "request \<Rightarrow> http_method" where
  "method_of (PatchPower _ _) = PATCH"
| "method_of (PostHeroPower _) = POST"
| "method_of _ = GET"

fun url_of :: "request \<Rightarrow> string" where
  "url_of GetIndex = ''/''"
| "url_of GetHeroes = ''/heroes''"
| "url_of (GetHero i) = ''/heroes/'' @ nat_decimal i"
| "url_of GetPowers = ''/powers''"
| "url_of (GetPower i) = ''/powers/'' @ nat_decimal i"
| "url_of (PatchPower i _) = ''/powers/'' @ nat_decimal i"
| "url_of (PostHeroPower _) = ''/hero_powers''"

fun body_of :: "request \<Rightarrow> req_body" where
  "body_of (PatchPower _ b) = b"
| "body_of (PostHeroPower b) = b"
| "body_of _ = NotJson"

fun endpoint_of :: "request \<Rightarrow> endpoint" where
  "endpoint_of GetIndex = EIndex"
| "endpoint_of GetHeroes = EHeroes"
| "endpoint_of (GetHero i) = EHeroId i"
| "endpoint_of GetPowers = EPowers"
| "endpoint_of (GetPower i) = EPowerId i"
| "endpoint_of (PatchPower i _) = EPowerId i"
| "endpoint_of (PostHeroPower _) = EHeroPowers"

subsection \<open>Sequences of HTTP requests\<close>

text \<open>The database after the service has answered a sequence of requests, in order.\<close>

definition serve_run :: "config \<Rightarrow> db \<Rightarrow> (http_method \<times> string \<times> req_body) list \<Rightarrow> db" where
  "serve_run cfg d rs = fold (\<lambda>(m, p, b) d. snd (serve cfg d m p b)) rs d"

subsection \<open>Matching\<close>


lemma match_url_url_of: "match_url (url_of r) = Some (endpoint_of r)"
  by (cases r) (simp_all add: match_url_def strip_prefix_def parse_digits_nat_decimal)

lemma route_view:
  "route (method_of r) (url_of r) (body_of r) = View r"
  using match_url_url_of [of r] by (cases r) (simp_all add: route_def allowed_methods_def)

lemma serve_state:
  "snd (serve cfg d m p b) = (case route m p b of View r \<Rightarrow> snd (handle cfg d r) | _ \<Rightarrow> d)"
  by (simp add: serve_def split: dispatch.splits prod.splits)

lemma serve_run_preserves:
  assumes "P d" and step: "\<And>d r. P d \<Longrightarrow> P (snd (handle cfg d r))"
  shows "P (serve_run cfg d rs)"
  using assms(1)
proof (induction rs arbitrary: d)
  case Nil then show ?case by (simp add: serve_run_def)
next
  case (Cons x rs)
  obtain m p b where x: "x = (m, p, b)" by (cases x) auto
  have "P (snd (serve cfg d m p b))"
    using Cons.prems step by (simp add: serve_state split: dispatch.splits)
  with Cons.IH show ?case by (simp add: serve_run_def x)
qed

subsection \<open>Properties of the URL map\<close>

text \<open>
  C12: printing a request as its method, path and body and routing that back through the
  URL map gives the same request: every view and every id is reachable by its canonical
  URL, and the printed URL is read back by werkzeug's integer converter.
\<close>

theorem route_roundtrip:
  "route (method_of r) (url_of r) (body_of r) = View r \<and> match_url (url_of r) = Some (endpoint_of r)"
  using route_view [of r] match_url_url_of [of r] by simp

text \<open>
  C15: every sequence of HTTP requests the service answers keeps the database well formed
  (sorted distinct ids, valid descriptions and strengths), keeps it in the reachable set,
  and, when foreign keys are enforced, keeps every key resolved: routing, 404/405, HEAD
  and OPTIONS add no state beyond the views'.
\<close>

theorem serve_run_invariants:
  assumes "db_wf d"
  shows "db_wf (serve_run cfg d rs) \<and> (reachable cfg d \<longrightarrow> reachable cfg (serve_run cfg d rs)) \<and>
         (fk_enforced cfg \<and> fk_integrity d \<longrightarrow> fk_integrity (serve_run cfg d rs))"
proof (intro conjI impI)
  show "db_wf (serve_run cfg d rs)"
    using assms by (rule serve_run_preserves [where P = db_wf]) (rule handle_db_wf [OF surjective_pairing])
  show "reachable cfg (serve_run cfg d rs)" if "reachable cfg d"
    using that by (rule serve_run_preserves [where P = "reachable cfg"]) (rule reachable.request [OF _ surjective_pairing])
  show "fk_integrity (serve_run cfg d rs)" if "fk_enforced cfg \<and> fk_integrity d"
    using that by (intro serve_run_preserves [where P = fk_integrity])
      (auto intro: handle_fk_integrity [OF _ surjective_pairing])
qed


theorem serve_run_invariants_witness:
  "db_wf sample_db \<and>
   db_wf (serve_run sqlite_default sample_db
     [(PATCH, ''/powers/1'', JsonBody (JObj [(''description'', JStr ''too short'')])),
      (HEAD, ''/heroes'', NotJson), (DELETE, ''/heroes/1'', NotJson)]) \<and>
   reachable sqlite_default (serve_run sqlite_default sample_db
     [(PATCH, ''/powers/1'', JsonBody (JObj [(''description'', JStr ''too short'')])),
      (HEAD, ''/heroes'', NotJson), (DELETE, ''/heroes/1'', NotJson)])"
proof -
  let ?rs = "[(PATCH, ''/powers/1'', JsonBody (JObj [(''description'', JStr ''too short'')])),
              (HEAD, ''/heroes'', NotJson), (DELETE, ''/heroes/1'', NotJson)]"
  have "db_wf (serve_run sqlite_default sample_db ?rs) \<and>
        (reachable sqlite_default sample_db \<longrightarrow> reachable sqlite_default (serve_run sqlite_default sample_db ?rs)) \<and>
        (fk_enforced sqlite_default \<and> fk_integrity sample_db \<longrightarrow> fk_integrity (serve_run sqlite_default sample_db ?rs))"
    by (rule serve_run_invariants [OF db_wf_sample])
  with db_wf_sample sample_db_reachable [of sqlite_default] show ?thesis by blast
qed

text \<open>
  \<open>GET /heroes/<n>\<close> for a decimal \<open>n\<close> below \<open>2^63\<close> that names no hero is answered 404 with
  \<open>{"error": "Hero not found"}\<close> and changes nothing, whatever the request body.
\<close>

theorem serve_missing_hero:
  assumes "tbl_get (heroes d) (int n) = None" and "int64_fits (int n)"
  shows "serve cfg d GET (''/heroes/'' @ nat_decimal n) b =
           (Resp (Json (JObj [(''error'', JStr ''Hero not found'')])) 404, d)"
proof -
  have "match_url (''/heroes/'' @ nat_decimal n) = Some (EHeroId n)"
    using match_url_url_of [of "GetHero n"] by simp
  then have "route GET (''/heroes/'' @ nat_decimal n) b = View (GetHero n)"
    by (simp add: route_def allowed_methods_def)
  with assms show ?thesis by (simp add: serve_def get_hero_def not_found_def)
qed

theorem serve_missing_hero_witness:
  "tbl_get (heroes sample_db) (int 42) = None \<and> int64_fits (int 42) \<and>
   serve sqlite_default sample_db GET ''/heroes/42'' NotJson =
     (Resp (Json (JObj [(''error'', JStr ''Hero not found'')])) 404, sample_db)"
proof -
  have h: "tbl_get (heroes sample_db) (int 42) = None" by (simp add: sample_db_def store_simps)
  have f: "int64_fits (int 42)" by (simp add: int64_fits_def)
  have u: "nat_decimal 42 = ''42''" by code_simp
  from h f serve_missing_hero [OF h f, of sqlite_default NotJson] u show ?thesis by simp
qed

text \<open>
  C28: werkzeug's \<open><int:id>\<close> converter has no upper bound, but the id is bound as a
  64-bit SQLite parameter: \<open>GET /heroes/<n>\<close>, \<open>GET /powers/<n>\<close> and
  \<open>PATCH /powers/<n>\<close> with \<open>n \<ge> 2^63\<close> end in an uncaught OverflowError (status 500)
  instead of the 404 the specification gives for an id that names no row, and change
  nothing.
\<close>

theorem serve_id_overflow:
  assumes "\<not> int64_fits (int n)"
  shows "serve cfg d GET (''/heroes/'' @ nat_decimal n) b = (Crash OverflowError, d) \<and>
         serve cfg d GET (''/powers/'' @ nat_decimal n) b = (Crash OverflowError, d) \<and>
         serve cfg d PATCH (''/powers/'' @ nat_decimal n) b = (Crash OverflowError, d)"
proof -
  have "match_url (''/heroes/'' @ nat_decimal n) = Some (EHeroId n)"
    "match_url (''/powers/'' @ nat_decimal n) = Some (EPowerId n)"
    using match_url_url_of [of "GetHero n"] match_url_url_of [of "GetPower n"] by simp_all
  with assms show ?thesis
    by (simp add: serve_def route_def allowed_methods_def get_hero_def get_power_def update_power_def)
qed

theorem serve_id_overflow_witness:
  "\<not> int64_fits (int (2 ^ 63)) \<and>
   serve sqlite_default sample_db GET (''/heroes/'' @ nat_decimal (2 ^ 63)) NotJson = (Crash OverflowError, sample_db) \<and>
   status (Crash OverflowError) = 500"
proof -
  have f: "\<not> int64_fits (int (2 ^ 63))" by (simp add: int64_fits_def)
  from f serve_id_overflow [OF f, of sqlite_default sample_db NotJson] show ?thesis by simp
qed







text \<open>
  C30: the methods of each canonical URL: \<open>DELETE\<close> and \<open>PUT\<close> are answered 405
  everywhere (there is no delete route); \<open>OPTIONS\<close> is answered 200 by Flask; \<open>POST\<close>
  runs \<open>create_hero_power\<close> on \<open>/hero_powers\<close> only and \<open>PATCH\<close> runs \<open>update_power\<close>
  on \<open>/powers/<id>\<close> only, 405 elsewhere; \<open>GET\<close> runs the GET view of every path but
  \<open>/hero_powers\<close> (405), ignoring the body, and \<open>HEAD\<close> runs the same view and drops
  the body of its answer. Nothing but a view changes the database.
\<close>

theorem serve_methods:
  "serve cfg d DELETE (url_of r) b = (Crash (HTTPError 405), d) \<and>
   serve cfg d PUT (url_of r) b = (Crash (HTTPError 405), d) \<and>
   serve cfg d OPTIONS (url_of r) b = (Resp (Html []) 200, d) \<and>
   serve cfg d POST (url_of r) b =
     (case r of PostHeroPower _ \<Rightarrow> handle cfg d (PostHeroPower b) | _ \<Rightarrow> (Crash (HTTPError 405), d)) \<and>
   serve cfg d PATCH (url_of r) b =
     (case endpoint_of r of EPowerId i \<Rightarrow> handle cfg d (PatchPower i b) | _ \<Rightarrow> (Crash (HTTPError 405), d)) \<and>
   serve cfg d GET (url_of r) b =
     (case r of PostHeroPower _ \<Rightarrow> (Crash (HTTPError 405), d) | PatchPower i _ \<Rightarrow> handle cfg d (GetPower i)
      | _ \<Rightarrow> handle cfg d r) \<and>
   serve cfg d HEAD (url_of r) b =
     (case r of PostHeroPower _ \<Rightarrow> (Crash (HTTPError 405), d) | PatchPower i _ \<Rightarrow> apfst strip_body (handle cfg d (GetPower i))
      | _ \<Rightarrow> apfst strip_body (handle cfg d r))"
  using match_url_url_of [of r]
  by (cases r) (simp_all add: serve_def route_def allowed_methods_def apfst_def map_prod_def split: prod.splits)

end
