(* ===== verification/Config.thy ===== *)
theory Config
  imports Models
begin

text \<open>
  The application's configuration, as the module body of \<open>src/server/app.py\<close> sets it
  up: the database URL comes from the environment variable \<open>DB_URI\<close>, by default a
  SQLite file \<open>app.db\<close> beside the module, and the engine it names decides whether
  foreign keys are checked. SQLite leaves them unchecked unless \<open>PRAGMA foreign_keys\<close>
  is issued, which the application does not do; the server databases SQLAlchemy also
  connects to (PostgreSQL, MySQL with InnoDB) check them.
\<close>

record app_config =
  database_uri :: string
  track_modifications :: bool
  json_compact :: bool

text \<open>\<open>os.path.join(a, b)\<close> on POSIX: an absolute \<open>b\<close> replaces \<open>a\<close>.\<close>

definition path_join :: "string \<Rightarrow> string \<Rightarrow> string" where
  "path_join a b =
     (if prefix ''/'' b then b
      else if a = [] \<or> last a = CHR ''/'' then a @ b
      else a @ ''/'' @ b)"

text \<open>
  Lines 8-14: \<open>BASE_DIR\<close> (the absolute directory of the module) is a parameter,
  \<open>os.environ\<close> a map from names to values.
\<close>

definition app_settings :: "(string \<rightharpoonup> string) \<Rightarrow> string \<Rightarrow> app_config" where
  "app_settings env base_dir =
     \<lparr>database_uri =
        (case env ''DB_URI'' of
           Some u \<Rightarrow> u
         | None \<Rightarrow> ''sqlite:///'' @ path_join base_dir ''app.db''),
      track_modifications = False,
      json_compact = False\<rparr>"

text \<open>The engine's behaviour on foreign keys, by the URL's dialect.\<close>

definition engine_config :: "string \<Rightarrow> config" where
  "engine_config uri = \<lparr>fk_enforced = \<not> prefix ''sqlite'' uri\<rparr>"

lemma path_join_dir: "base \<noteq> [] \<Longrightarrow> last base \<noteq> CHR ''/'' \<Longrightarrow> path_join base ''app.db'' = base @ ''/app.db''"
  by (simp add: path_join_def)

text \<open>
  C32: when \<open>DB_URI\<close> is not set, the service runs on the SQLite file \<open>app.db\<close> in the
  module's own directory \<open>BASE_DIR\<close> (an absolute path without a trailing slash, as
  \<open>os.path.abspath\<close> returns it, so the URL has four slashes), with foreign keys
  unchecked: the configuration the findings on orphan join rows are about.
\<close>

theorem default_database_unchecked:
  assumes "env ''DB_URI'' = None" and "prefix ''/'' base" and "last base \<noteq> CHR ''/''"
  shows "database_uri (app_settings env base) = ''sqlite:///'' @ base @ ''/app.db'' \<and>
         engine_config (database_uri (app_settings env base)) = sqlite_default"
proof -
  from assms(2) have "base \<noteq> []" by auto
  with assms show ?thesis
    by (simp add: app_settings_def path_join_dir engine_config_def sqlite_default_def)
qed

theorem default_database_unchecked_witness:
  "Map.empty ''DB_URI'' = (None :: string option) \<and> prefix ''/'' ''/srv/server'' \<and>
   last ''/srv/server'' \<noteq> CHR ''/'' \<and>
   database_uri (app_settings Map.empty ''/srv/server'') = ''sqlite:////srv/server/app.db'' \<and>
   engine_config (database_uri (app_settings Map.empty ''/srv/server'')) = sqlite_default"
proof -
  have e: "(Map.empty :: string \<rightharpoonup> string) ''DB_URI'' = None" by simp
  have p: "prefix ''/'' ''/srv/server''" by simp
  have l: "last ''/srv/server'' \<noteq> CHR ''/''" by simp
  from default_database_unchecked [OF e p l] e p l show ?thesis
    by (simp add: engine_config_def sqlite_default_def)
qed

end
