(* ===== verification/Schema.thy ===== *)
theory Schema
  imports Models
begin

text \<open>
  The schema that \<open>src/server/models.py\<close> declares: the shared \<open>MetaData\<close> with its
  naming convention for foreign keys (lines 7-13), and the \<open>db.Column\<close> declarations of
  the three models, which \<open>Migrate\<close> turns into the tables of the database; and the
  database's own \<open>ON DELETE CASCADE\<close> on the declared foreign keys, which is shown to
  remove the same rows as the ORM's \<open>delete-orphan\<close> cascade of \<open>Models\<close>.
\<close>

datatype col_type = IntegerType | StringType

record column =
  col_name :: string
  col_type :: col_type
  primary_key :: bool
  col_nullable :: bool
  foreign_key :: "string option"
  ondelete_cascade :: bool

record table_def =
  table_name :: string
  table_columns :: "column list"

text \<open>
  \<open>db.Column(type)\<close> with SQLAlchemy's defaults: not a key, nullable, no foreign key;
  \<open>primary_key=True\<close> makes the column the (non-null) rowid.
\<close>

definition Column :: "string \<Rightarrow> col_type \<Rightarrow> column" where
  "Column n t = \<lparr>col_name = n, col_type = t, primary_key = False, col_nullable = True,
                 foreign_key = None, ondelete_cascade = False\<rparr>"

definition pk_column :: "string \<Rightarrow> column" where
  "pk_column n = (Column n IntegerType)\<lparr>primary_key := True, col_nullable := False\<rparr>"

definition fk_column :: "string \<Rightarrow> string \<Rightarrow> column" where
  "fk_column n parent = (Column n IntegerType)\<lparr>foreign_key := Some parent, ondelete_cascade := True\<rparr>"

definition heroes_table :: table_def where
  "heroes_table = \<lparr>table_name = ''heroes'',
     table_columns = [pk_column ''id'', Column ''name'' StringType, Column ''super_name'' StringType]\<rparr>"

definition powers_table :: table_def where
  "powers_table = \<lparr>table_name = ''powers'',
     table_columns = [pk_column ''id'', Column ''name'' StringType, Column ''description'' StringType]\<rparr>"

definition hero_powers_table :: table_def where
  "hero_powers_table = \<lparr>table_name = ''hero_powers'',
     table_columns = [pk_column ''id'', (Column ''strength'' StringType)\<lparr>col_nullable := False\<rparr>,
                      fk_column ''hero_id'' ''heroes'', fk_column ''power_id'' ''powers'']\<rparr>"

definition metadata_tables :: "table_def list" where
  "metadata_tables = [heroes_table, powers_table, hero_powers_table]"

subsection \<open>The naming convention\<close>

text \<open>\<open>"fk_%(table_name)s_%(column_0_name)s_%(referred_table_name)s"\<close>\<close>

definition fk_convention :: "string \<Rightarrow> string \<Rightarrow> string \<Rightarrow> string" where
  "fk_convention tname col0 referred = ''fk_'' @ tname @ ''_'' @ col0 @ ''_'' @ referred"

text \<open>The foreign-key constraints of a table: name, constrained column, referred table.\<close>

fun column_fks :: "string \<Rightarrow> column list \<Rightarrow> (string \<times> string \<times> string) list" where
  "column_fks tname [] = []"
| "column_fks tname (c # cs) =
     (case foreign_key c of
        None \<Rightarrow> column_fks tname cs
      | Some r \<Rightarrow> (fk_convention tname (col_name c) r, col_name c, r) # column_fks tname cs)"

definition table_fks :: "table_def \<Rightarrow> (string \<times> string \<times> string) list" where
  "table_fks t = column_fks (table_name t) (table_columns t)"

text \<open>The stored values of a \<open>hero_powers\<close> row, by column name.\<close>

definition hp_value :: "string \<Rightarrow> hero_power \<Rightarrow> sqlval" where
  "hp_value c r =
     (if c = ''strength'' then SqlText (strength r)
      else if c = ''hero_id'' then hero_id r
      else if c = ''power_id'' then power_id r
      else SqlNull)"

subsection \<open>The database's cascade\<close>

text \<open>
  \<open>ON DELETE CASCADE\<close> on a foreign key to \<open>parent\<close>: deleting the parent row with id
  \<open>i\<close> deletes every \<open>hero_powers\<close> row whose key column holds \<open>i\<close> (when SQLite enforces
  foreign keys).
\<close>

definition db_cascade :: "string \<Rightarrow> rowid \<Rightarrow> hero_power table \<Rightarrow> hero_power table" where
  "db_cascade parent i t =
     tbl_delete_where
       (\<lambda>r. list_ex (\<lambda>c. foreign_key c = Some parent \<and> ondelete_cascade c \<and> hp_value (col_name c) r = SqlInt i)
               (table_columns hero_powers_table)) t"

subsection \<open>Lemmas\<close>

lemmas schema_defs = metadata_tables_def heroes_table_def powers_table_def hero_powers_table_def
  Column_def pk_column_def fk_column_def

text \<open>
  The convention names the two foreign keys of \<open>hero_powers\<close> apart, and each refers to
  a table of the metadata.
\<close>

lemma fk_names:
  "map fst (concat (map table_fks metadata_tables)) = [''fk_hero_powers_hero_id_heroes'', ''fk_hero_powers_power_id_powers''] \<and>
   list_all (\<lambda>(n, c, r). r \<in> set (map table_name metadata_tables)) (concat (map table_fks metadata_tables))"
  by (simp add: table_fks_def schema_defs fk_convention_def)

text \<open>
  C14: the ORM cascade \<open>all, delete-orphan\<close> of \<open>Hero.hero_powers\<close> and
  \<open>Power.hero_powers\<close> removes exactly the rows the database's own
  \<open>ON DELETE CASCADE\<close> would: deleting an existing hero or power leaves the same join
  table either way, so enforcing foreign keys does not change what a delete does.
\<close>

theorem orm_cascade_is_db_cascade:
  "hero_powers (delete_hero h d) =
     (if tbl_get (heroes d) h = None then hero_powers d else db_cascade ''heroes'' h (hero_powers d)) \<and>
   hero_powers (delete_power p d) =
     (if tbl_get (powers d) p = None then hero_powers d else db_cascade ''powers'' p (hero_powers d))"
  by (auto simp: delete_hero_def delete_power_def db_cascade_def schema_defs hp_value_def split: option.splits)

end
