(* ===== verification/Interleaving.thy ===== *)
theory Interleaving
  imports App
begin

text \<open>
  Requests in sequence. Flask serves each request in its own session, and the handlers of
  \<open>src/server/app.py\<close> read and write through it; here the order of two requests is an
  explicit sequence of \<open>handle\<close> steps. \<open>PATCH /powers/<id>\<close> is factored into the
  part that depends only on the body (\<open>patch_outcome\<close>: the answer of a failed request,
  or the description to write) and the write itself (\<open>patch_write\<close>), which touches one
  row; two PATCHes of different powers therefore commute.
\<close>

text \<open>
  The \<open>try\<close> block of \<open>update_power\<close> (lines 64-69) as a function of the body: the
  error answer, or \<open>None\<close> when there is no \<open>description\<close> key, or the value the flush
  stores in the column.
\<close>

definition patch_outcome :: "req_body \<Rightarrow> response + string option option" where
  "patch_outcome body =
     (case request_json body of
        Inl e \<Rightarrow> Inl (Crash e)
      | Inr data \<Rightarrow>
          (case py_contains ''description'' data of
             Inl e \<Rightarrow> Inl (except_value_error e)
           | Inr False \<Rightarrow> Inr None
           | Inr True \<Rightarrow>
               (case py_getitem data ''description'' of
                  Inl e \<Rightarrow> Inl (except_value_error e)
                | Inr v \<Rightarrow>
                    (case validate_description v of
                       Inl e \<Rightarrow> Inl (except_value_error e)
                     | Inr v' \<Rightarrow>
                         (case sql_bind v' of
                            Inl e \<Rightarrow> Inl (except_value_error e)
                          | Inr x \<Rightarrow> Inr (Some (text_column x)))))))"

text \<open>The commit of lines 67-68: the one row of the power is updated.\<close>

definition patch_write :: "rowid \<Rightarrow> string option option \<Rightarrow> db \<Rightarrow> db" where
  "patch_write pid w d =
     (case w of None \<Rightarrow> d | Some v \<Rightarrow> d\<lparr>powers := tbl_update pid (\<lambda>p. p\<lparr>description := v\<rparr>) (powers d)\<rparr>)"

subsection \<open>Lemmas\<close>

lemma tbl_update_commute:
  "i \<noteq> j \<Longrightarrow> tbl_update i f (tbl_update j g t) = tbl_update j g (tbl_update i f t)"
  by (induction t) (auto simp: tbl_update_def)

lemma update_power_factor:
  "update_power d pid body =
     (if \<not> int64_fits pid then (Crash OverflowError, d)
      else if tbl_get (powers d) pid = None then (not_found ''Power not found'', d)
      else case patch_outcome body of
             Inl r \<Rightarrow> (r, d)
           | Inr w \<Rightarrow> (json_response (to_dict recursion_budget (patch_write pid w d) (EPower pid) [] []) 200,
                       patch_write pid w d))"
  by (auto simp: update_power_def patch_outcome_def patch_write_def flush_description_def
      split: option.splits sum.splits bool.splits)

lemma patch_write_get:
  "i \<noteq> j \<Longrightarrow> tbl_get (powers (patch_write i w d)) j = tbl_get (powers d) j"
  by (simp add: patch_write_def tbl_get_update split: option.splits)

lemma patch_write_commute:
  "i \<noteq> j \<Longrightarrow> patch_write i w (patch_write j w' d) = patch_write j w' (patch_write i w d)"
  by (simp add: patch_write_def tbl_update_commute split: option.splits)

lemma status_json_response_200: "status (json_response (to_dict recursion_budget d e only rs) 200) = 200"
  by (simp add: json_response_to_dict)

text \<open>
  C13: two \<open>PATCH /powers/<id>\<close> requests on different ids commute: run in either order
  they leave the same database, and the answer status of each does not depend on whether
  the other ran first.
\<close>

theorem patch_commute:
  assumes "i \<noteq> j"
  shows "snd (handle cfg (snd (handle cfg d (PatchPower i b))) (PatchPower j c)) =
           snd (handle cfg (snd (handle cfg d (PatchPower j c))) (PatchPower i b)) \<and>
         status (fst (handle cfg (snd (handle cfg d (PatchPower i b))) (PatchPower j c))) =
           status (fst (handle cfg d (PatchPower j c)))"
proof -
  have ne: "int i \<noteq> int j" using assms by simp
  show ?thesis
    using patch_write_get [OF ne] patch_write_get [OF ne [symmetric]] patch_write_commute [OF ne]
    by (auto simp: update_power_factor status_json_response_200 split: sum.splits)
qed

theorem patch_commute_witness:
  "(1::nat) \<noteq> 2 \<and>
   snd (handle sqlite_default (snd (handle sqlite_default sample_db
          (PatchPower 1 (JsonBody (JObj [(''description'', JStr ''This is a valid description.'')])))))
        (PatchPower 2 BadJson)) =
     snd (handle sqlite_default (snd (handle sqlite_default sample_db (PatchPower 2 BadJson)))
          (PatchPower 1 (JsonBody (JObj [(''description'', JStr ''This is a valid description.'')])))) \<and>
   status (fst (handle sqlite_default (snd (handle sqlite_default sample_db
          (PatchPower 1 (JsonBody (JObj [(''description'', JStr ''This is a valid description.'')])))))
        (PatchPower 2 BadJson))) =
     status (fst (handle sqlite_default sample_db (PatchPower 2 BadJson)))"
  using patch_commute [of 1 2 sqlite_default sample_db
      "JsonBody (JObj [(''description'', JStr ''This is a valid description.'')])" BadJson]
  by simp

end
