(* ===== verification/Spec2Isabelle.thy ===== *)
theory Spec2Isabelle
  imports Shapes Routing Config Schema Interleaving
begin

text \<open>
  A verification library for the heroes/powers service of this repository: a Flask
  application (\<open>src/server/app.py\<close>) over three SQLAlchemy models
  (\<open>src/server/models.py\<close>) stored in SQLite, whose answers are built by
  \<open>sqlalchemy_serializer\<close>'s \<open>to_dict\<close>.

  \<^bold>\<open>Parts and theories.\<close>
  \<^item> \<open>Prelude\<close>: the fact collections \<open>store_simps\<close> and \<open>model_simps\<close>, \<open>strip_prefix\<close>, and
    generic lemmas on association lists, sorted keys, \<open>fold max\<close> and \<open>those\<close>.
  \<^item> \<open>PyValue\<close>: request bodies (\<open>req_body\<close>, and \<open>request_json\<close> for \<open>request.json\<close>, which
    raises 415 or 400 for a body that is not JSON); JSON values; the exceptions the code
    raises (\<open>pyexc\<close>, with \<open>HTTPError\<close> for werkzeug's HTTP exceptions); the Python
    operators applied to request data (\<open>py_truthy\<close>, \<open>py_len\<close>, \<open>py_contains\<close>,
    \<open>py_getitem\<close>); SQLite parameter binding (\<open>sql_bind\<close>), TEXT affinity
    (\<open>text_column\<close>) and INTEGER affinity (\<open>int_affinity\<close>, \<open>int_column\<close>); the signed
    64-bit range of a bound integer (\<open>int64_fits\<close>, OverflowError outside it); decimal numerals
    (\<open>nat_decimal\<close>, \<open>parse_digits\<close>, \<open>parse_int\<close>).
  \<^item> \<open>Storage\<close>: a rowid table as its list of rows in id order; \<open>tbl_insert\<close> takes the
    largest id plus one (\<open>tbl_new_rowid\<close>); \<open>tbl_get\<close>, \<open>tbl_delete\<close>, \<open>tbl_delete_where\<close>,
    \<open>tbl_update\<close>, \<open>tbl_select\<close>, each refining a finite-map operation; modelled from
    SQLite's documented behaviour, which is not code of the repository.
  \<^item> \<open>Models\<close> (\<open>models.py\<close>): the records \<open>hero\<close>, \<open>power\<close>, \<open>hero_power\<close>, \<open>db\<close>; the
    validators; the ORM writes (\<open>new_hero_power\<close>, \<open>insert_hero_power\<close>,
    \<open>flush_description\<close>, \<open>create_hero\<close>, \<open>create_power\<close>); the cascades (\<open>delete_hero\<close>,
    \<open>delete_power\<close>); \<open>Model.query.get(id)\<close> (\<open>query_get\<close>, which binds the id);
    relationships and association proxies; \<open>__repr__\<close>
    (\<open>hero_repr\<close>, ...). Invariants \<open>db_wf\<close>, \<open>fk_integrity\<close>, \<open>ref_integrity\<close>.
  \<^item> \<open>Serializer\<close>: \<open>to_dict\<close> of \<open>SerializerMixin\<close>, modelled from the library's documented
    behaviour (not part of \<open>src/\<close>), as \<open>ser_model\<close>/\<open>ser_value\<close> with a depth budget;
    running out of budget is \<open>None\<close>, standing for RecursionError. The models'
    \<open>serialize_rules\<close> (\<open>models.py\<close> lines 30, 50, 76) come from the source.
  \<^item> \<open>App\<close> (\<open>app.py\<close> lines 21-89): one definition per view function, each returning the
    response and the database after the request; \<open>handle\<close> dispatches a \<open>request\<close>;
    \<open>admin_step\<close> performs writes made outside the routes (seeding, deletes);
    \<open>reachable\<close> is the inductive set of databases reachable from the empty one.
  \<^item> \<open>Routing\<close>: the URL map of the \<open>@app.route\<close> decorators as werkzeug matches it
    (\<open>match_url\<close>, the \<open><int:id>\<close> converter, \<open>view_methods\<close>, Flask's automatic HEAD and
    OPTIONS, 404 and 405), \<open>serve\<close>, the whole service from method, path and body, and
    \<open>serve_run\<close>, a sequence of HTTP requests answered in order.
  \<^item> \<open>Config\<close> (\<open>app.py\<close> lines 8-14): the configuration from the environment
    (\<open>app_settings\<close>) and the engine's foreign-key behaviour (\<open>engine_config\<close>).
  \<^item> \<open>Schema\<close> (\<open>models.py\<close> lines 7-13 and the \<open>db.Column\<close> declarations): the tables
    \<open>Migrate\<close> creates, the foreign-key naming convention and the database's
    \<open>ON DELETE CASCADE\<close> on the declared foreign keys (\<open>db_cascade\<close>).
  \<^item> \<open>Interleaving\<close>: requests as explicit sequences of \<open>handle\<close> steps; \<open>update_power\<close>
    factored into its body-dependent outcome (\<open>patch_outcome\<close>) and its one-row write.
  \<^item> \<open>Shapes\<close>: the abstract specification of the answers, one hand-written projection
    per endpoint (\<open>project\<close>) following the interface table of the specification.

  \<^bold>\<open>How the parts interact.\<close> \<open>serve\<close> matches the method and path, then runs the view
  of \<open>App\<close>. A view reads the body with the \<open>PyValue\<close> operators, calls the validators and
  writes of \<open>Models\<close> on the \<open>Storage\<close> tables, and answers with \<open>to_dict\<close> of
  \<open>Serializer\<close> on the database after the write. Exceptions travel as the left side of a
  sum; \<open>except ValueError\<close> is \<open>except_value_error\<close>; an escaped exception is answered 500,
  or with its own status for an HTTP exception. Nothing is committed on an error path.

  \<^bold>\<open>What is shown.\<close> Every database the HTTP service produces from the empty one is
  reachable (\<open>Routing.serve_run_invariants\<close>), so the invariants below hold of the whole
  service, not only of the views. Reachable databases keep the validators' invariants (and, with
  enforced foreign keys, key integrity); a request not answered with 200 changes nothing;
  every route's answer on every branch; every 200 answer is its endpoint's projection
  (\<open>Shapes\<close>); a PATCH is read back by the next GET; URLs print and route back to their
  request, and the method table of every URL (\<open>Routing.serve_methods\<close>); cascades as map
  refinements that keep referential integrity, and the specification's delete-then-read
  property; progress: an existing hero and power can always be linked, and deleting every
  hero and power empties the database exactly when no join row has both keys dangling
  (\<open>empty_db_recoverable\<close>: the cascades remove all the others); the ORM's cascade
  deletes what the schema's \<open>ON DELETE CASCADE\<close> would; PATCHes of different powers
  commute; \<open>repr\<close> read back; termination of \<open>to_dict\<close> with the models' rules; no
  request ever ends in RecursionError.

  \<^bold>\<open>Findings\<close>, each a theorem: under the default configuration
  (\<open>Config.default_database_unchecked\<close>: SQLite, foreign keys unchecked) a join row may
  name a missing hero, and even with foreign keys enforced a NULL key is accepted
  (\<open>App.create_link_integrity\<close>), while a missing hero is a 500
  (\<open>App.create_unknown_hero_crashes\<close>); a non-string description is a 500
  (\<open>App.update_power_int_description_crashes\<close>); a missing key is a 500 before the strength
  is checked (\<open>App.create_missing_key_before_validation\<close>); string keys are coerced by
  INTEGER affinity (\<open>App.string_keys_coerced\<close>); ids with a sign or a trailing slash get
  werkzeug's 404 page, not the JSON 404 (\<open>Routing.hero_url_forms\<close>); there is no DELETE
  route (\<open>Routing.serve_methods\<close>); \<open>GET /powers/<id>\<close> has no heroes; an id
  of \<open>2^63\<close> or more in a URL (\<open>Routing.serve_id_overflow\<close>) or as a JSON key
  (\<open>App.create_key_overflow\<close>) ends in an uncaught OverflowError, not a 404 or 400.

  \<^bold>\<open>Bounds and fuel.\<close> \<open>recursion_budget\<close> is 100 and stands for CPython's recursion
  limit. With the models' rules the serializer needs three levels (join row, parent, a
  flat leaf), so every budget of at least three gives the same result
  (\<open>Serializer.to_dict_3\<close>) and never runs out (\<open>Serializer.to_dict_terminates\<close>); 100 is
  therefore enough for every database. Row ids are unbounded integers in the tables, and
  a new row takes the largest id plus one (\<open>tbl_new_rowid\<close>, SQLite's rule while no row has
  id \<open>2^63 - 1\<close>). Every integer that crosses the driver is checked against the signed 64-bit
  range (\<open>int64_fits\<close>, equal to \<open>sint\<close> of a \<open>64 word\<close> by \<open>PyValue.int64_fits_sint\<close>), so
  the theorems about a lookup or a write by id assume the id fits, as every id SQLite
  stores does.

  \<^bold>\<open>Not modelled.\<close> \<open>Migrate(app, db)\<close>, \<open>db.init_app(app)\<close> and \<open>app.run\<close> with its
  debug mode (\<open>app.py\<close> lines 16-18, 92-93): they start processes and run migration
  scripts that are not in the repository; the model starts from the migrated empty
  database, whose tables are those of \<open>Schema\<close>. Also left out: the interleaving of
  concurrent sessions inside SQLite (\<open>app.run\<close> starts werkzeug's threaded development
  server; the model answers one request at a time, in order, as section 5 of the
  specification assumes, and \<open>serve_run\<close> is that loop); HTTP framing and
  the JSON encoding of answers (\<open>app.json.compact\<close> only changes whitespace; Flask's
  encoder also sorts the keys of every object, so the order of the key lists of a JSON
  object in this model, the serializer's attribute order, is not the order on the wire,
  and equalities of answers are meant up to that order); SQLite's
  random rowid choice once \<open>2^63 - 1\<close> is in use; INTEGER affinity for blanks, real
  literals and texts outside the 64-bit range (SQLite stores those as REAL); numeric
  affinity of TEXT; JSON floats; headers such as \<open>Allow\<close> on 405 and OPTIONS. Strings are
  lists of characters standing for code points, so \<open>len\<close> counts code points and the
  \<open><int:id>\<close> converter reads ASCII digits only. The behaviour of \<open>request.json\<close> is
  that of Flask 2.3 and later.
\<close>

subsection \<open>Runs of administrative writes\<close>

text \<open>
  Clearing the database through the ORM: deleting each hero, then each power, and
  relying on the \<open>delete-orphan\<close> cascades to remove the join rows.
\<close>

definition clear_ops :: "db \<Rightarrow> admin_op list" where
  "clear_ops d = map DeleteHero (map fst (heroes d)) @ map DeletePower (map fst (powers d))"

abbreviation admin_run :: "db \<Rightarrow> admin_op list \<Rightarrow> db" where
  "admin_run d ops \<equiv> fold (\<lambda>a d. admin_step d a) ops d"

subsection \<open>Errors that cannot reach a handler's answer\<close>

lemma py_errors_not_recursion:
  "py_contains k v \<noteq> Inl RecursionError" "py_getitem v k \<noteq> Inl RecursionError"
  "validate_description v \<noteq> Inl RecursionError" "validate_strength v \<noteq> Inl RecursionError"
  "sql_bind v \<noteq> Inl RecursionError" "int_column v \<noteq> Inl RecursionError"
  by (cases v; simp add: validate_description_def validate_strength_def description_error_def
      strength_error_def split: option.splits sum.splits)+

lemma request_json_not_recursion: "request_json b \<noteq> Inl RecursionError"
  by (cases b) simp_all

lemma model_errors_not_recursion:
  "flush_description pid v d \<noteq> Inl RecursionError" "new_hero_power s h p \<noteq> Inl RecursionError"
  "insert_hero_power cfg obj d \<noteq> Inl RecursionError"
  using py_errors_not_recursion
  by (auto simp: flush_description_def new_hero_power_def insert_hero_power_def split_beta
      split: sum.splits option.splits if_splits)

text \<open>
  C10: no request is ever answered with a RecursionError: with the models' serialize
  rules every serialization a route performs ends within the recursion budget, and no
  other step of a handler raises it.
\<close>

theorem no_recursion_error: "fst (handle cfg d r) \<noteq> Crash RecursionError"
proof (cases r)
  case GetHeroes
  have "those (map (\<lambda>(i, _). to_dict recursion_budget d (EHero i) [''id'', ''name'', ''super_name''] []) (heroes d)) \<noteq> None"
    by (rule those_map_all_Some) (use to_dict_not_None [OF recursion_budget_ge] in \<open>simp add: split_beta\<close>)
  with GetHeroes show ?thesis by (auto simp: get_heroes_def split: option.splits)
next
  case GetPowers
  have "those (map (\<lambda>(i, _). to_dict recursion_budget d (EPower i) [''id'', ''name'', ''description''] []) (powers d)) \<noteq> None"
    by (rule those_map_all_Some) (use to_dict_not_None [OF recursion_budget_ge] in \<open>simp add: split_beta\<close>)
  with GetPowers show ?thesis by (auto simp: get_powers_def split: option.splits)
next
  case (PatchPower i data)
  with py_errors_not_recursion model_errors_not_recursion request_json_not_recursion show ?thesis
    by (auto simp: update_power_def query_get_eq json_response_to_dict except_value_error_def
        validation_errors_def not_found_def split: option.splits sum.splits bool.splits if_splits)
next
  case (PostHeroPower data)
  with py_errors_not_recursion model_errors_not_recursion request_json_not_recursion show ?thesis
    by (auto simp: create_hero_power_def json_response_to_dict except_value_error_def validation_errors_def
        split: option.splits sum.splits prod.splits)
qed (simp_all add: index_def get_hero_def get_power_def query_get_eq json_response_to_dict not_found_def
    split: option.splits)

subsection \<open>Progress\<close>

lemma run_delete_heroes:
  "admin_run d (map DeleteHero ks) =
     d\<lparr>hero_powers := filter (\<lambda>(_, hp). \<not> (\<exists>k \<in> set ks. k \<in> tbl_ids (heroes d) \<and> hero_id hp = SqlInt k))
                        (hero_powers d),
       heroes := filter (\<lambda>(j, _). j \<notin> set ks) (heroes d)\<rparr>"
proof (induction ks arbitrary: d)
  case Nil
  then show ?case by simp
next
  case (Cons k ks)
  show ?case
  proof (cases "k \<in> tbl_ids (heroes d)")
    case True
    then have "delete_hero k d = d\<lparr>hero_powers := filter (\<lambda>(_, hp). hero_id hp \<noteq> SqlInt k) (hero_powers d),
                                  heroes := tbl_delete k (heroes d)\<rparr>"
      by (auto simp: delete_hero_def tbl_delete_where_def tbl_ids_get split_beta)
    then show ?thesis using True
      by (simp add: Cons.IH tbl_ids_delete) (cases d, auto simp: tbl_delete_def filter_filter split_beta intro!: filter_cong)
  next
    case False
    then have "delete_hero k d = d" by (simp add: delete_hero_def tbl_ids_get)
    then show ?thesis using False
      by (simp add: Cons.IH) (cases d, force simp: tbl_ids_def intro!: filter_cong)
  qed
qed

lemma run_delete_powers:
  "admin_run d (map DeletePower ks) =
     d\<lparr>hero_powers := filter (\<lambda>(_, hp). \<not> (\<exists>k \<in> set ks. k \<in> tbl_ids (powers d) \<and> power_id hp = SqlInt k))
                        (hero_powers d),
       powers := filter (\<lambda>(j, _). j \<notin> set ks) (powers d)\<rparr>"
proof (induction ks arbitrary: d)
  case Nil
  then show ?case by simp
next
  case (Cons k ks)
  show ?case
  proof (cases "k \<in> tbl_ids (powers d)")
    case True
    then have "delete_power k d = d\<lparr>hero_powers := filter (\<lambda>(_, hp). power_id hp \<noteq> SqlInt k) (hero_powers d),
                                  powers := tbl_delete k (powers d)\<rparr>"
      by (auto simp: delete_power_def tbl_delete_where_def tbl_ids_get split_beta)
    then show ?thesis using True
      by (simp add: Cons.IH tbl_ids_delete) (cases d, auto simp: tbl_delete_def filter_filter split_beta intro!: filter_cong)
  next
    case False
    then have "delete_power k d = d" by (simp add: delete_power_def tbl_ids_get)
    then show ?thesis using False
      by (simp add: Cons.IH) (cases d, force simp: tbl_ids_def intro!: filter_cong)
  qed
qed

lemma ref_get_unlinked: "ref_get t v = None \<longleftrightarrow> (\<forall>k \<in> tbl_ids t. v \<noteq> SqlInt k)"
  by (cases v) (auto simp: tbl_ids_get)

text \<open>
  C22: clearing the database by deleting every hero and then every power returns it to
  the empty database exactly when every join row names an existing hero or an existing
  power: the cascades of \<open>Hero.hero_powers\<close> and \<open>Power.hero_powers\<close> remove all the
  others, and only a row whose two keys are both dangling (or NULL) survives.
\<close>

theorem empty_db_recoverable:
  "admin_run d (clear_ops d) = empty_db \<longleftrightarrow>
   (\<forall>(_, hp) \<in> set (hero_powers d). ref_get (heroes d) (hero_id hp) \<noteq> None \<or> ref_get (powers d) (power_id hp) \<noteq> None)"
proof -
  have "admin_run d (clear_ops d) =
        d\<lparr>hero_powers := filter (\<lambda>(_, hp). ref_get (heroes d) (hero_id hp) = None \<and> ref_get (powers d) (power_id hp) = None)
                             (hero_powers d),
          heroes := [], powers := []\<rparr>"
    unfolding clear_ops_def fold_append comp_def run_delete_heroes run_delete_powers filter_all_keys
    by (simp add: filter_all_keys filter_filter) (cases d, force simp: ref_get_unlinked tbl_ids_def filter_empty_conv intro!: filter_cong)
  then have "admin_run d (clear_ops d) = empty_db \<longleftrightarrow>
    filter (\<lambda>(_, hp). ref_get (heroes d) (hero_id hp) = None \<and> ref_get (powers d) (power_id hp) = None)
      (hero_powers d) = []"
    by (cases d) (simp add: empty_db_def)
  then show ?thesis by (simp add: filter_empty_conv split_beta)
qed

theorem empty_db_recoverable_witness:
  "admin_run (sample_db\<lparr>hero_powers := hero_powers sample_db @
       [(2, \<lparr>strength = ''Weak'', hero_id = SqlInt 1, power_id = SqlNull\<rparr>)]\<rparr>)
     (clear_ops (sample_db\<lparr>hero_powers := hero_powers sample_db @
       [(2, \<lparr>strength = ''Weak'', hero_id = SqlInt 1, power_id = SqlNull\<rparr>)]\<rparr>)) = empty_db"
  using empty_db_recoverable [of "sample_db\<lparr>hero_powers := hero_powers sample_db @
       [(2, \<lparr>strength = ''Weak'', hero_id = SqlInt 1, power_id = SqlNull\<rparr>)]\<rparr>"]
  by (simp add: sample_db_def tbl_get_def)

text \<open>
  C21: from every reachable database, linking an existing hero to an existing power with
  a valid strength succeeds (200), whatever the foreign-key setting, and afterwards the
  hero's \<open>powers\<close> proxy contains that power.
\<close>

theorem link_always_possible:
  assumes "reachable cfg d" and "h \<in> tbl_ids (heroes d)" and "p \<in> tbl_ids (powers d)"
    and "s \<in> set valid_strengths" and "int64_fits h" and "int64_fits p"
  shows "let r = handle cfg d (PostHeroPower (JsonBody (JObj [(''strength'', JStr s), (''hero_id'', JInt h), (''power_id'', JInt p)])))
         in status (fst r) = 200 \<and> reachable cfg (snd r) \<and>
            ref_get (powers d) (SqlInt p) \<in> set (hero_powers_proxy (snd r) h) \<and> ref_get (powers d) (SqlInt p) \<noteq> None"
proof -
  let ?r = "handle cfg d (PostHeroPower (JsonBody (JObj [(''strength'', JStr s), (''hero_id'', JInt h), (''power_id'', JInt p)])))"
  let ?row = "\<lparr>strength = s, hero_id = SqlInt h, power_id = SqlInt p\<rparr>"
  have r: "?r = (Resp (Json (the (to_dict 3 (d\<lparr>hero_powers := hero_powers d @ [(tbl_new_rowid (hero_powers d), ?row)]\<rparr>)
                    (EHeroPower (tbl_new_rowid (hero_powers d))) [] [''-hero.hero_powers'', ''-power.hero_powers'']))) 200,
                 d\<lparr>hero_powers := hero_powers d @ [(tbl_new_rowid (hero_powers d), ?row)]\<rparr>)"
    using assms(2-6)
    by (auto simp: create_hero_power_def new_hero_power_def validate_strength_def insert_hero_power_def
        tbl_insert_def json_response_to_dict Let_def tbl_ids_get)
  have "reachable cfg (snd ?r)" by (metis assms(1) prod.collapse reachable.request)
  moreover have "ref_get (powers d) (SqlInt p) \<in> set (hero_powers_proxy (snd ?r) h)"
    using r by (simp add: hero_powers_proxy_def hero_hero_powers_def tbl_select_def)
  moreover have "ref_get (powers d) (SqlInt p) \<noteq> None" using assms(3) by (simp add: tbl_ids_get)
  ultimately show ?thesis using r by (simp add: Let_def)
qed

theorem link_always_possible_witness:
  "reachable sqlite_default sample_db \<and> 1 \<in> tbl_ids (heroes sample_db) \<and> 1 \<in> tbl_ids (powers sample_db) \<and>
   ''Weak'' \<in> set valid_strengths \<and> int64_fits 1 \<and>
   status (fst (handle sqlite_default sample_db
     (PostHeroPower (JsonBody (JObj [(''strength'', JStr ''Weak''), (''hero_id'', JInt 1), (''power_id'', JInt 1)]))))) = 200"
proof -
  have r: "reachable sqlite_default sample_db" by (rule sample_db_reachable)
  have h: "1 \<in> tbl_ids (heroes sample_db)" and p: "1 \<in> tbl_ids (powers sample_db)"
    by (simp_all add: sample_db_def tbl_ids_def)
  have s: "''Weak'' \<in> set valid_strengths" by (simp add: valid_strengths_def)
  have f: "int64_fits 1" by (simp add: int64_fits_def)
  from link_always_possible [OF r h p s f f] r h p s f show ?thesis by (simp add: Let_def)
qed

end
